theory Spec2Isabelle
  imports Complex_Main
begin

unbundle bit_operations_syntax

section \<open>JavaScript values\<close>

text \<open>
  The interpreter of \<^verbatim>\<open>src/common/basic/runtime.ts\<close> computes with JavaScript values.
  A JavaScript number is modelled by \<open>number\<close>: a finite value, \<open>NaN\<close> or one of the two
  infinities. A finite number is a real; which reals are doubles, and the double or infinity
  that the exact result of an operation rounds to, is given by the engine (\<open>nearest_double\<close>
  below). The sign of zero is not part of the model. A string is a list of 8-bit code units.
\<close>

datatype number = Fin real | NaN | PosInf | NegInf

datatype jsvalue = JNum number | JStr string | JBool bool | JUndefined | JNull

text \<open>
  Conversions between numbers and strings are built-ins of the JavaScript engine and not
  code of the repository. They are parameters of the model, collected in \<open>jsengine\<close>:
  \<open>numToString\<close> is \<^verbatim>\<open>Number.prototype.toString()\<close> and \<open>toPrecision\<close> is
  \<^verbatim>\<open>Number.prototype.toPrecision(p)\<close> for \<open>1 \<le> p \<le> 100\<close>, both on finite numbers;
  \<open>parseFloat\<close> is the global \<^verbatim>\<open>parseFloat\<close>, \<open>parseInt\<close> the global \<^verbatim>\<open>parseInt\<close>, and
  \<open>stringToNumber\<close> is the conversion \<^verbatim>\<open>ToNumber\<close> applied to a string, and
  \<open>toUpperCase\<close> is \<^verbatim>\<open>String.prototype.toUpperCase()\<close>.

  \<open>nearest_double r\<close> is the number that stands for the exact result \<open>r\<close> of \<^verbatim>\<open>+\<close>, \<^verbatim>\<open>-\<close>,
  \<^verbatim>\<open>*\<close> or \<^verbatim>\<open>/\<close>: the double nearest to \<open>r\<close>, or an infinity when \<open>r\<close> is out of range.
  \<open>power x y\<close> is \<^verbatim>\<open>Math.pow(x, y)\<close> for finite \<open>x\<close> and \<open>y\<close> other than zero, where the
  language standard leaves the result to the implementation.
\<close>

record jsengine =
  numToString :: "real \<Rightarrow> string"
  toPrecision :: "real \<Rightarrow> nat \<Rightarrow> string"
  parseFloat :: "string \<Rightarrow> number"
  parseInt :: "string \<Rightarrow> number"
  stringToNumber :: "string \<Rightarrow> number"
  toUpperCase :: "string \<Rightarrow> string"
  nearest_double :: "real \<Rightarrow> number"
  power :: "real \<Rightarrow> real \<Rightarrow> number"

subsection \<open>Arithmetic on numbers\<close>

fun isNaN :: "number \<Rightarrow> bool" where
  "isNaN NaN = True"
| "isNaN _ = False"

fun is_negative :: "number \<Rightarrow> bool" where
  "is_negative (Fin x) = (x < 0)"
| "is_negative NegInf = True"
| "is_negative _ = False"

fun is_zero :: "number \<Rightarrow> bool" where
  "is_zero (Fin x) = (x = 0)"
| "is_zero _ = False"

fun is_finite :: "number \<Rightarrow> bool" where
  "is_finite (Fin x) = True"
| "is_finite _ = False"

definition signed_inf :: "bool \<Rightarrow> number" where
  "signed_inf negative = (if negative then NegInf else PosInf)"

fun num_neg :: "number \<Rightarrow> number" where
  "num_neg (Fin x) = Fin (- x)"
| "num_neg NaN = NaN"
| "num_neg PosInf = NegInf"
| "num_neg NegInf = PosInf"

text \<open>
  The operators \<^verbatim>\<open>+\<close>, \<^verbatim>\<open>-\<close>, \<^verbatim>\<open>*\<close> and \<^verbatim>\<open>/\<close> on numbers: the exact result of two finite
  operands is rounded by the engine. The remainder \<^verbatim>\<open>%\<close>, \<^verbatim>\<open>Math.floor\<close>, \<^verbatim>\<open>Math.round\<close>
  and \<^verbatim>\<open>Math.abs\<close> of a double are doubles and need no rounding.
\<close>

fun num_add :: "jsengine \<Rightarrow> number \<Rightarrow> number \<Rightarrow> number" where
  "num_add J (Fin x) (Fin y) = nearest_double J (x + y)"
| "num_add J NaN _ = NaN"
| "num_add J _ NaN = NaN"
| "num_add J PosInf NegInf = NaN"
| "num_add J NegInf PosInf = NaN"
| "num_add J PosInf _ = PosInf"
| "num_add J _ PosInf = PosInf"
| "num_add J NegInf _ = NegInf"
| "num_add J _ NegInf = NegInf"

definition num_sub :: "jsengine \<Rightarrow> number \<Rightarrow> number \<Rightarrow> number" where
  "num_sub J a b = num_add J a (num_neg b)"

fun num_mul :: "jsengine \<Rightarrow> number \<Rightarrow> number \<Rightarrow> number" where
  "num_mul J (Fin x) (Fin y) = nearest_double J (x * y)"
| "num_mul J NaN _ = NaN"
| "num_mul J _ NaN = NaN"
| "num_mul J a b =
     (if is_zero a \<or> is_zero b then NaN else signed_inf (is_negative a \<noteq> is_negative b))"

fun num_div :: "jsengine \<Rightarrow> number \<Rightarrow> number \<Rightarrow> number" where
  "num_div J (Fin x) (Fin y) =
     (if y \<noteq> 0 then nearest_double J (x / y) else if x = 0 then NaN else signed_inf (x < 0))"
| "num_div J NaN _ = NaN"
| "num_div J _ NaN = NaN"
| "num_div J (Fin x) _ = Fin 0"
| "num_div J a (Fin y) = signed_inf (is_negative a \<noteq> (y < 0))"
| "num_div J _ _ = NaN"

definition toward_zero :: "real \<Rightarrow> int" where
  "toward_zero q = (if 0 \<le> q then \<lfloor>q\<rfloor> else \<lceil>q\<rceil>)"

fun num_mod :: "number \<Rightarrow> number \<Rightarrow> number" where
  "num_mod (Fin x) (Fin y) = (if y = 0 then NaN else Fin (x - y * of_int (toward_zero (x / y))))"
| "num_mod NaN _ = NaN"
| "num_mod _ NaN = NaN"
| "num_mod (Fin x) _ = Fin x"
| "num_mod _ _ = NaN"

fun Math_floor :: "number \<Rightarrow> number" where
  "Math_floor (Fin x) = Fin (of_int \<lfloor>x\<rfloor>)"
| "Math_floor n = n"

fun Math_round :: "number \<Rightarrow> number" where
  "Math_round (Fin x) = Fin (of_int \<lfloor>x + 1 / 2\<rfloor>)"
| "Math_round n = n"

fun Math_abs :: "number \<Rightarrow> number" where
  "Math_abs (Fin x) = Fin \<bar>x\<bar>"
| "Math_abs NaN = NaN"
| "Math_abs _ = PosInf"

fun num_lt :: "number \<Rightarrow> number \<Rightarrow> bool" where
  "num_lt (Fin x) (Fin y) = (x < y)"
| "num_lt NaN _ = False"
| "num_lt _ NaN = False"
| "num_lt PosInf _ = False"
| "num_lt _ NegInf = False"
| "num_lt _ _ = True"

fun num_eq :: "number \<Rightarrow> number \<Rightarrow> bool" where
  "num_eq NaN _ = False"
| "num_eq _ NaN = False"
| "num_eq a b = (a = b)"

definition num_gt :: "number \<Rightarrow> number \<Rightarrow> bool" where
  "num_gt a b = num_lt b a"

definition num_le :: "number \<Rightarrow> number \<Rightarrow> bool" where
  "num_le a b = (num_lt a b \<or> num_eq a b)"

definition num_ge :: "number \<Rightarrow> number \<Rightarrow> bool" where
  "num_ge a b = num_le b a"

definition is_integer :: "real \<Rightarrow> bool" where
  "is_integer y = (of_int \<lfloor>y\<rfloor> = y)"

definition is_odd_integer :: "real \<Rightarrow> bool" where
  "is_odd_integer y = (is_integer y \<and> odd \<lfloor>y\<rfloor>)"

text \<open>\<^verbatim>\<open>Math.pow\<close>, by the cases of the language standard.\<close>

fun Math_pow :: "jsengine \<Rightarrow> number \<Rightarrow> number \<Rightarrow> number" where
  "Math_pow J _ NaN = NaN"
| "Math_pow J a (Fin y) =
     (if y = 0 then Fin 1
      else case a of
        NaN \<Rightarrow> NaN
      | PosInf \<Rightarrow> (if 0 < y then PosInf else Fin 0)
      | NegInf \<Rightarrow>
          (if 0 < y then (if is_odd_integer y then NegInf else PosInf) else Fin 0)
      | Fin x \<Rightarrow>
          (if x = 0 then (if 0 < y then Fin 0 else PosInf)
           else if 0 < x \<or> is_integer y then power J x y
           else NaN))"
| "Math_pow J a PosInf =
     (case Math_abs a of
        NaN \<Rightarrow> NaN
      | Fin x \<Rightarrow> (if 1 < x then PosInf else if x = 1 then NaN else Fin 0)
      | _ \<Rightarrow> PosInf)"
| "Math_pow J a NegInf =
     (case Math_abs a of
        NaN \<Rightarrow> NaN
      | Fin x \<Rightarrow> (if 1 < x then Fin 0 else if x = 1 then NaN else PosInf)
      | _ \<Rightarrow> Fin 0)"

text \<open>The conversion \<^verbatim>\<open>ToInt32\<close> behind the bitwise operators \<^verbatim>\<open>&\<close> and \<^verbatim>\<open>|\<close>.\<close>

fun toInt32 :: "number \<Rightarrow> int" where
  "toInt32 (Fin x) =
     (let m = toward_zero x mod 2 ^ 32 in if 2 ^ 31 \<le> m then m - 2 ^ 32 else m)"
| "toInt32 _ = 0"

subsection \<open>Conversions and operators on values\<close>

datatype jstype = TNumber | TString | TBoolean | TUndefined | TObject

fun typeof :: "jsvalue \<Rightarrow> jstype" where
  "typeof (JNum _) = TNumber"
| "typeof (JStr _) = TString"
| "typeof (JBool _) = TBoolean"
| "typeof JUndefined = TUndefined"
| "typeof JNull = TObject"

fun ToNumber :: "jsengine \<Rightarrow> jsvalue \<Rightarrow> number" where
  "ToNumber J (JNum n) = n"
| "ToNumber J (JStr s) = stringToNumber J s"
| "ToNumber J (JBool b) = (if b then Fin 1 else Fin 0)"
| "ToNumber J JUndefined = NaN"
| "ToNumber J JNull = Fin 0"

fun number_toString :: "jsengine \<Rightarrow> number \<Rightarrow> string" where
  "number_toString J (Fin x) = numToString J x"
| "number_toString J NaN = ''NaN''"
| "number_toString J PosInf = ''Infinity''"
| "number_toString J NegInf = ''-Infinity''"

fun ToString :: "jsengine \<Rightarrow> jsvalue \<Rightarrow> string" where
  "ToString J (JNum n) = number_toString J n"
| "ToString J (JStr s) = s"
| "ToString J (JBool b) = (if b then ''true'' else ''false'')"
| "ToString J JUndefined = ''undefined''"
| "ToString J JNull = ''null''"

fun ToBoolean :: "jsvalue \<Rightarrow> bool" where
  "ToBoolean (JNum (Fin x)) = (x \<noteq> 0)"
| "ToBoolean (JNum NaN) = False"
| "ToBoolean (JNum _) = True"
| "ToBoolean (JStr s) = (s \<noteq> [])"
| "ToBoolean (JBool b) = b"
| "ToBoolean JUndefined = False"
| "ToBoolean JNull = False"

text \<open>Strings compare by code units.\<close>

fun str_lt :: "string \<Rightarrow> string \<Rightarrow> bool" where
  "str_lt [] [] = False"
| "str_lt [] (d # ys) = True"
| "str_lt (c # xs) [] = False"
| "str_lt (c # xs) (d # ys) =
     ((of_char c :: int) < of_char d \<or> (c = d \<and> str_lt xs ys))"

definition is_string :: "jsvalue \<Rightarrow> bool" where
  "is_string v = (typeof v = TString)"

definition js_plus :: "jsengine \<Rightarrow> jsvalue \<Rightarrow> jsvalue \<Rightarrow> jsvalue" where
  "js_plus J a b =
     (if is_string a \<or> is_string b then JStr (ToString J a @ ToString J b)
      else JNum (num_add J (ToNumber J a) (ToNumber J b)))"

definition js_minus :: "jsengine \<Rightarrow> jsvalue \<Rightarrow> jsvalue \<Rightarrow> number" where
  "js_minus J a b = num_sub J (ToNumber J a) (ToNumber J b)"

definition js_lt :: "jsengine \<Rightarrow> jsvalue \<Rightarrow> jsvalue \<Rightarrow> bool" where
  "js_lt J a b =
     (case (a, b) of
        (JStr x, JStr y) \<Rightarrow> str_lt x y
      | _ \<Rightarrow> num_lt (ToNumber J a) (ToNumber J b))"

definition js_gt :: "jsengine \<Rightarrow> jsvalue \<Rightarrow> jsvalue \<Rightarrow> bool" where
  "js_gt J a b = js_lt J b a"

definition js_le :: "jsengine \<Rightarrow> jsvalue \<Rightarrow> jsvalue \<Rightarrow> bool" where
  "js_le J a b =
     (case (a, b) of
        (JStr x, JStr y) \<Rightarrow> \<not> str_lt y x
      | _ \<Rightarrow> num_le (ToNumber J a) (ToNumber J b))"

definition js_ge :: "jsengine \<Rightarrow> jsvalue \<Rightarrow> jsvalue \<Rightarrow> bool" where
  "js_ge J a b = js_le J b a"

text \<open>The loose equality \<^verbatim>\<open>==\<close>.\<close>

fun js_eq :: "jsengine \<Rightarrow> jsvalue \<Rightarrow> jsvalue \<Rightarrow> bool" where
  "js_eq J (JNum x) (JNum y) = num_eq x y"
| "js_eq J (JStr x) (JStr y) = (x = y)"
| "js_eq J (JBool x) (JBool y) = (x = y)"
| "js_eq J JUndefined JUndefined = True"
| "js_eq J JUndefined JNull = True"
| "js_eq J JNull JUndefined = True"
| "js_eq J JNull JNull = True"
| "js_eq J JUndefined _ = False"
| "js_eq J JNull _ = False"
| "js_eq J _ JUndefined = False"
| "js_eq J _ JNull = False"
| "js_eq J a b = num_eq (ToNumber J a) (ToNumber J b)"

section \<open>The syntax tree\<close>

text \<open>
  The parser's output (\<^verbatim>\<open>Expr\<close>, \<^verbatim>\<open>Statement\<close>, \<^verbatim>\<open>BASICLine\<close>, \<^verbatim>\<open>BASICProgram\<close>).
  An operator is the name of the run-time method that implements it, as in the source.
  An \<^verbatim>\<open>IndOp\<close> has a name and an optional argument list (\<open>None\<close> is \<^verbatim>\<open>null\<close>).
\<close>

datatype expr =
    Literal jsvalue
  | IndOp string "expr list option"
  | BinOp string expr expr
  | UnOp string expr

type_synonym indop = "string \<times> expr list option"

datatype stmt =
    PRINT "expr list"
  | LET indop expr
  | GOTO expr
  | GOSUB expr
  | RETURN
  | IF expr
  | FOR indop expr expr "expr option"
  | NEXT "expr option"
  | DIM "indop list"
  | INPUT expr "indop list"
  | READ "indop list"
  | DEF indop expr
  | ONGOTO expr "expr list"
  | DATA "expr list"
  | RESTORE
  | END
  | STOP
  | OPTION string "string list"
  | UNKNOWN string

record basic_options =
  uppercaseOnly :: bool
  strictVarNames :: bool
  sharedArrayNamespace :: bool
  defaultArrayBase :: int
  defaultArraySize :: int
  maxDimensions :: int
  stringConcat :: bool
  typeConvert :: bool
  maxArguments :: int
  sparseArrays :: bool
  tickComments :: bool
  validKeywords :: "string list option"
  validFunctions :: "string list option"
  validOperators :: "string list option"
  printZoneLength :: int
  printPrecision :: int
  checkOverflow :: bool
  defaultValues :: bool
  multipleNextVars :: bool

record basic_line =
  label :: "string option"
  stmts :: "stmt list"

record basic_program =
  opts :: basic_options
  lines :: "basic_line list"

section \<open>The runtime\<close>

subsection \<open>Compiled statements\<close>

text \<open>
  \<^verbatim>\<open>compileStatement\<close> turns a statement into JavaScript text and that text into a function,
  stored in the statement's \<^verbatim>\<open>$run\<close> slot. The model keeps the text as a tree: \<open>jsexpr\<close>
  has one constructor for each form of text \<^verbatim>\<open>expr2js\<close> produces, \<open>jsfun\<close> one for each
  form of function body the \<^verbatim>\<open>do__...\<close> methods produce.

  \<^item> \<open>JLit v\<close>: \<^verbatim>\<open>JSON.stringify(expr.value)\<close>
  \<^item> \<open>JLocal x\<close>: \<^verbatim>\<open>x\<close>, an argument of the enclosing \<^verbatim>\<open>DEF\<close>
  \<^item> \<open>JCall f args\<close>: \<^verbatim>\<open>this.defs.f(args)\<close>
  \<^item> \<open>JArr a n args\<close>: \<^verbatim>\<open>this.getArray("a", n)[this.ROUND(arg)]...\<close>
  \<^item> \<open>JVar x\<close>: \<^verbatim>\<open>this.vars.x\<close>
  \<^item> \<open>JCheck e x\<close>: \<^verbatim>\<open>this.checkValue(e, "x")\<close>
  \<^item> \<open>JBin op l r\<close>: \<^verbatim>\<open>this.op(l, r)\<close>, and \<open>JUn op e\<close>: \<^verbatim>\<open>this.op(e)\<close>
\<close>

datatype jsexpr =
    JLit jsvalue
  | JLocal string
  | JCall string "jsexpr list"
  | JArr string nat "jsexpr list"
  | JVar string
  | JCheck jsexpr string
  | JBin string jsexpr jsexpr
  | JUn string jsexpr

text \<open>
  \<open>RunNothing\<close> is the function \<^verbatim>\<open>new Function(undefined)\<close>, whose body is the expression
  statement \<^verbatim>\<open>undefined\<close>: the \<^verbatim>\<open>do__...\<close> methods of DATA, RESTORE and OPTION return
  no text.
\<close>

datatype jsfun =
    RunPrint "jsexpr list"
  | RunInput jsexpr "(jsexpr \<times> string) list"
  | RunLet jsexpr string jsexpr
  | RunFor string jsexpr jsexpr "jsexpr option"
  | RunNext "string option"
  | RunIf jsexpr
  | RunDef string "string list" jsexpr
  | RunDim "(string \<times> jsexpr list) list"
  | RunGoto jsexpr
  | RunGosub jsexpr
  | RunReturn
  | RunOnGoto jsexpr "jsexpr list"
  | RunRead "(jsexpr \<times> string) list"
  | RunSkipToEOF
  | RunNothing

subsection \<open>Errors\<close>

text \<open>
  A run-time error of the interpreter is \<^verbatim>\<open>EmuHalt\<close> with a message and the label of the
  current line. The model keeps which message it is (and the values the message quotes), not
  the English text. \<open>TypeError\<close> and \<open>RangeError\<close> are thrown by JavaScript itself.
  \<open>Unmodelled\<close> marks what lies outside this model: array elements, calls of built-in and
  user-defined functions, and the statements DIM and DEF.
\<close>

datatype rtmsg =
    UnknownCommand string
  | LabelNotFound jsvalue
  | ReturnWithoutGosub
  | ExpectedConstant
  | NextForMismatch string string
  | NextWithoutFor
  | CantConvertToString jsvalue
  | CantConvertToNumber jsvalue
  | OnGotoOutOfRange nat jsvalue
  | OutOfData
  | DefArguments
  | NoValueFor string
  | InvalidValueFor string jsvalue
  | NumberTooBig
  | InvalidNumber
  | ExpectedString
  | DivideByZero
  | ZeroToNegativePower

datatype error =
    EmuHalt rtmsg "string option"
  | TypeError
  | RangeError
  | Unmodelled

subsection \<open>The state\<close>

text \<open>
  The fields of \<^verbatim>\<open>BASICRuntime\<close>. \<open>None\<close> in \<open>program\<close>, \<open>allstmts\<close> and \<open>label2pc\<close> is
  \<^verbatim>\<open>undefined\<close> (nothing loaded yet); \<open>None\<close> in \<open>dataptr\<close> is \<^verbatim>\<open>undefined\<close> or \<^verbatim>\<open>NaN\<close>.
  \<open>compiled\<close> holds the \<^verbatim>\<open>$run\<close> slot of each statement of \<open>allstmts\<close>, by position.
  An entry of \<open>forLoops\<close> is the closure \<^verbatim>\<open>startForLoop\<close> creates: the variables it captures.
  \<open>defs\<close> holds the names that are defined as functions.
  The host's hooks are logs: \<open>printed\<close> the arguments of \<^verbatim>\<open>print\<close>, \<open>input_calls\<close> the
  arguments of \<^verbatim>\<open>input\<close>, \<open>resumed\<close> the number of calls of \<^verbatim>\<open>resume\<close>.
\<close>

record for_loop =
  for_pc :: int
  for_name :: string
  for_targ :: jsvalue
  for_step :: jsvalue

record runtime =
  program :: "basic_program option"
  allstmts :: "stmt list option"
  compiled :: "nat \<rightharpoonup> jsfun"
  line2pc :: "nat list"
  pc2line :: "nat \<rightharpoonup> nat"
  label2lineidx :: "string \<rightharpoonup> nat"
  label2pc :: "(string \<rightharpoonup> nat) option"
  datums :: "jsvalue list"
  curpc :: int
  dataptr :: "nat option"
  vars :: "string \<rightharpoonup> jsvalue"
  defs :: "string set"
  forLoops :: "for_loop list"
  returnStack :: "int list"
  column :: number
  running :: bool
  exited :: bool
  printed :: "jsvalue list"
  input_calls :: "(jsvalue \<times> nat) list"
  resumed :: nat

type_synonym 'a res = "(error + 'a) \<times> runtime"

definition ok :: "'a \<Rightarrow> runtime \<Rightarrow> 'a res" where
  "ok v s = (Inr v, s)"

definition throw :: "error \<Rightarrow> runtime \<Rightarrow> 'a res" where
  "throw e s = (Inl e, s)"

definition bnd :: "'a res \<Rightarrow> ('a \<Rightarrow> runtime \<Rightarrow> 'b res) \<Rightarrow> 'b res" where
  "bnd m f = (case m of (Inl e, s) \<Rightarrow> (Inl e, s) | (Inr v, s) \<Rightarrow> f v s)"

fun mapR :: "('a \<Rightarrow> runtime \<Rightarrow> 'b res) \<Rightarrow> 'a list \<Rightarrow> runtime \<Rightarrow> 'b list res" where
  "mapR f [] s = ok [] s"
| "mapR f (x # xs) s =
     (case f x s of
        (Inl e, s1) \<Rightarrow> (Inl e, s1)
      | (Inr y, s1) \<Rightarrow>
          (case mapR f xs s1 of
             (Inl e, s2) \<Rightarrow> (Inl e, s2)
           | (Inr ys, s2) \<Rightarrow> (Inr (y # ys), s2)))"

subsection \<open>Error reporting\<close>

fun lineFrom :: "(nat \<rightharpoonup> nat) \<Rightarrow> nat \<Rightarrow> nat option" where
  "lineFrom m 0 = m 0"
| "lineFrom m (Suc n) = (case m (Suc n) of Some l \<Rightarrow> Some l | None \<Rightarrow> lineFrom m n)"

definition getLineForPC :: "runtime \<Rightarrow> int \<Rightarrow> nat option" where
  "getLineForPC s pc = (if pc < 0 then None else lineFrom (pc2line s) (nat pc))"

definition getLabelForPC :: "runtime \<Rightarrow> int \<Rightarrow> error + string option" where
  "getLabelForPC s pc =
     (case program s of
        None \<Rightarrow> Inl TypeError
      | Some p \<Rightarrow>
          Inr (case getLineForPC s pc of
                 None \<Rightarrow> Some ''?''
               | Some l \<Rightarrow> if l < length (lines p) then label (lines p ! l) else Some ''?''))"

definition runtimeError :: "rtmsg \<Rightarrow> runtime \<Rightarrow> 'a res" where
  "runtimeError msg s =
     (let s' = s\<lparr>curpc := curpc s - 1\<rparr>
      in case getLabelForPC s' (curpc s') of
           Inl e \<Rightarrow> (Inl e, s')
         | Inr l \<Rightarrow> (Inl (EmuHalt msg l), s'))"

subsection \<open>Checks and operators\<close>

definition endsWith :: "string \<Rightarrow> string \<Rightarrow> bool" where
  "endsWith s t = (length t \<le> length s \<and> drop (length s - length t) s = t)"

definition startsWith :: "string \<Rightarrow> string \<Rightarrow> bool" where
  "startsWith s t = (take (length t) s = t)"

definition isValid :: "jsvalue \<Rightarrow> bool" where
  "isValid obj = (case obj of JNum n \<Rightarrow> \<not> isNaN n | JStr _ \<Rightarrow> True | _ \<Rightarrow> False)"

definition checkValue :: "jsvalue \<Rightarrow> string \<Rightarrow> runtime \<Rightarrow> jsvalue res" where
  "checkValue obj exprname s =
     (if typeof obj \<noteq> TNumber \<and> typeof obj \<noteq> TString then
        (if obj = JUndefined \<or> obj = JNull then
           (case program s of
              None \<Rightarrow> throw TypeError s
            | Some p \<Rightarrow>
                if defaultValues (opts p)
                then ok (if endsWith exprname ''$'' then JStr [] else JNum (Fin 0)) s
                else runtimeError (NoValueFor exprname) s)
         else runtimeError (InvalidValueFor exprname obj) s)
      else ok obj s)"

definition checkNum :: "jsengine \<Rightarrow> jsvalue \<Rightarrow> runtime \<Rightarrow> jsvalue res" where
  "checkNum J n s =
     (if n = JNum PosInf then runtimeError NumberTooBig s
      else if isNaN (ToNumber J n) then runtimeError InvalidNumber s
      else ok n s)"

definition checkString :: "jsvalue \<Rightarrow> runtime \<Rightarrow> jsvalue res" where
  "checkString v s = (if typeof v \<noteq> TString then runtimeError ExpectedString s else ok v s)"

definition op_add :: "jsengine \<Rightarrow> jsvalue \<Rightarrow> jsvalue \<Rightarrow> runtime \<Rightarrow> jsvalue res" where
  "op_add J a b s =
     (if typeof a = TNumber \<and> typeof b = TNumber then checkNum J (js_plus J a b) s
      else ok (js_plus J a b) s)"

definition op_sub :: "jsengine \<Rightarrow> jsvalue \<Rightarrow> jsvalue \<Rightarrow> runtime \<Rightarrow> jsvalue res" where
  "op_sub J a b s = checkNum J (JNum (js_minus J a b)) s"

definition op_mul :: "jsengine \<Rightarrow> jsvalue \<Rightarrow> jsvalue \<Rightarrow> runtime \<Rightarrow> jsvalue res" where
  "op_mul J a b s = checkNum J (JNum (num_mul J (ToNumber J a) (ToNumber J b))) s"

definition op_div :: "jsengine \<Rightarrow> jsvalue \<Rightarrow> jsvalue \<Rightarrow> runtime \<Rightarrow> jsvalue res" where
  "op_div J a b s =
     (if js_eq J b (JNum (Fin 0)) then runtimeError DivideByZero s
      else checkNum J (JNum (num_div J (ToNumber J a) (ToNumber J b))) s)"

definition op_idiv :: "jsengine \<Rightarrow> jsvalue \<Rightarrow> jsvalue \<Rightarrow> runtime \<Rightarrow> jsvalue res" where
  "op_idiv J a b s =
     op_div J (JNum (Math_floor (ToNumber J a))) (JNum (Math_floor (ToNumber J b))) s"

definition op_mod :: "jsengine \<Rightarrow> jsvalue \<Rightarrow> jsvalue \<Rightarrow> runtime \<Rightarrow> jsvalue res" where
  "op_mod J a b s = checkNum J (JNum (num_mod (ToNumber J a) (ToNumber J b))) s"

definition op_pow :: "jsengine \<Rightarrow> jsvalue \<Rightarrow> jsvalue \<Rightarrow> runtime \<Rightarrow> jsvalue res" where
  "op_pow J a b s =
     (if js_eq J a (JNum (Fin 0)) \<and> js_lt J b (JNum (Fin 0))
      then runtimeError ZeroToNegativePower s
      else checkNum J (JNum (Math_pow J (ToNumber J a) (ToNumber J b))) s)"

definition op_land :: "jsvalue \<Rightarrow> jsvalue \<Rightarrow> jsvalue" where
  "op_land a b = (if ToBoolean a then b else a)"

definition op_lor :: "jsvalue \<Rightarrow> jsvalue \<Rightarrow> jsvalue" where
  "op_lor a b = (if ToBoolean a then a else b)"

definition op_lnot :: "jsvalue \<Rightarrow> jsvalue" where
  "op_lnot a = (if ToBoolean a then JNum (Fin 0) else JNum (Fin 1))"

definition op_neg :: "jsengine \<Rightarrow> jsvalue \<Rightarrow> jsvalue" where
  "op_neg J a = JNum (num_neg (ToNumber J a))"

definition op_band :: "jsengine \<Rightarrow> jsvalue \<Rightarrow> jsvalue \<Rightarrow> jsvalue" where
  "op_band J a b = JNum (Fin (of_int (toInt32 (ToNumber J a) AND toInt32 (ToNumber J b))))"

definition op_bor :: "jsengine \<Rightarrow> jsvalue \<Rightarrow> jsvalue \<Rightarrow> jsvalue" where
  "op_bor J a b = JNum (Fin (of_int (toInt32 (ToNumber J a) OR toInt32 (ToNumber J b))))"

text \<open>
  \<^verbatim>\<open>this.op(l, r)\<close> and \<^verbatim>\<open>this.op(e)\<close> for the method names the parser's operator table and
  the type \<^verbatim>\<open>UnOp\<close> allow, and the two further operator methods of the runtime.
\<close>

definition call_binop :: "jsengine \<Rightarrow> string \<Rightarrow> jsvalue \<Rightarrow> jsvalue \<Rightarrow> runtime \<Rightarrow> jsvalue res" where
  "call_binop J op a b s =
     (if op = ''add'' then op_add J a b s
      else if op = ''sub'' then op_sub J a b s
      else if op = ''mul'' then op_mul J a b s
      else if op = ''div'' then op_div J a b s
      else if op = ''idiv'' then op_idiv J a b s
      else if op = ''mod'' then op_mod J a b s
      else if op = ''pow'' then op_pow J a b s
      else if op = ''land'' then ok (op_land a b) s
      else if op = ''lor'' then ok (op_lor a b) s
      else if op = ''band'' then ok (op_band J a b) s
      else if op = ''bor'' then ok (op_bor J a b) s
      else if op = ''eq'' then ok (JBool (js_eq J a b)) s
      else if op = ''ne'' then ok (JBool (\<not> js_eq J a b)) s
      else if op = ''lt'' then ok (JBool (js_lt J a b)) s
      else if op = ''gt'' then ok (JBool (js_gt J a b)) s
      else if op = ''le'' then ok (JBool (js_le J a b)) s
      else if op = ''ge'' then ok (JBool (js_ge J a b)) s
      else throw Unmodelled s)"

definition call_unop :: "jsengine \<Rightarrow> string \<Rightarrow> jsvalue \<Rightarrow> runtime \<Rightarrow> jsvalue res" where
  "call_unop J op a s =
     (if op = ''neg'' then ok (op_neg J a) s
      else if op = ''lnot'' then ok (op_lnot a) s
      else throw Unmodelled s)"

subsection \<open>Built-in functions used by the runtime itself\<close>

definition ROUND :: "jsengine \<Rightarrow> jsvalue \<Rightarrow> runtime \<Rightarrow> jsvalue res" where
  "ROUND J arg s = checkNum J (JNum (Math_round (ToNumber J arg))) s"

definition FIX :: "jsengine \<Rightarrow> jsvalue \<Rightarrow> runtime \<Rightarrow> jsvalue res" where
  "FIX J arg s = checkNum J (JNum (num_sub J (ToNumber J arg) (Math_floor (ToNumber J arg)))) s"

text \<open>\<^verbatim>\<open>' '.repeat(n)\<close> for \<open>n > 0\<close>: a \<^verbatim>\<open>RangeError\<close> when \<open>n\<close> is infinite.\<close>

definition repeat_spaces :: "number \<Rightarrow> error + string" where
  "repeat_spaces n =
     (case n of Fin x \<Rightarrow> Inr (replicate (nat \<lfloor>x\<rfloor>) CHR '' '') | _ \<Rightarrow> Inl RangeError)"

definition TAB :: "jsengine \<Rightarrow> jsvalue \<Rightarrow> runtime \<Rightarrow> jsvalue res" where
  "TAB J arg s =
     bnd (ROUND J (if js_lt J arg (JNum (Fin 1)) then JNum (Fin 1) else arg) s)
       (\<lambda>r s1.
          let spaces = num_sub J (num_sub J (ToNumber J r) (Fin 1)) (column s1)
          in if num_gt spaces (Fin 0)
             then (case repeat_spaces spaces of
                     Inl e \<Rightarrow> throw e s1
                   | Inr str \<Rightarrow> ok (JStr str) s1)
             else ok (JStr []) s1)"

subsection \<open>Printing\<close>

text \<open>
  The loop \<^verbatim>\<open>while (numstr.length > 11) numstr = obj.toPrecision(prec--)\<close> of
  \<^verbatim>\<open>valueToString\<close>, for a finite number: \<^verbatim>\<open>toPrecision(0)\<close> throws a \<^verbatim>\<open>RangeError\<close>.
\<close>

fun reduce_precision :: "jsengine \<Rightarrow> real \<Rightarrow> nat \<Rightarrow> string \<Rightarrow> error + string" where
  "reduce_precision J x prec numstr =
     (if length numstr > 11 then
        (case prec of
           0 \<Rightarrow> Inl RangeError
         | Suc q \<Rightarrow> reduce_precision J x q (toPrecision J x prec))
      else Inr numstr)"

definition strip_zero :: "string \<Rightarrow> string" where
  "strip_zero numstr =
     (if startsWith numstr ''0.'' then drop 1 numstr
      else if startsWith numstr ''-0.'' then ''-'' @ drop 2 numstr
      else numstr)"

definition pad_number :: "string \<Rightarrow> string" where
  "pad_number numstr =
     (if startsWith numstr ''-'' then numstr @ '' '' else '' '' @ numstr @ '' '')"

text \<open>
  For a number that is not finite, \<^verbatim>\<open>toPrecision\<close> returns \<^verbatim>\<open>NaN\<close>, \<^verbatim>\<open>Infinity\<close> or
  \<^verbatim>\<open>-Infinity\<close> whatever the precision, and the loop ends after at most one round.
\<close>

definition number_valueToString :: "jsengine \<Rightarrow> number \<Rightarrow> error + string" where
  "number_valueToString J n =
     (case (case n of
              Fin x \<Rightarrow> reduce_precision J x 11 (toUpperCase J (numToString J x))
            | _ \<Rightarrow>
                Inr (let numstr = toUpperCase J (number_toString J n)
                     in if length numstr > 11 then number_toString J n else numstr)) of
        Inl e \<Rightarrow> Inl e
      | Inr numstr \<Rightarrow> Inr (pad_number (strip_zero numstr)))"

definition valueToString :: "jsengine \<Rightarrow> jsvalue \<Rightarrow> runtime \<Rightarrow> jsvalue res" where
  "valueToString J obj s =
     (case obj of
        JNum n \<Rightarrow>
          (case number_valueToString J n of
             Inl e \<Rightarrow> throw e s
           | Inr str \<Rightarrow> ok (JStr str) s)
      | _ \<Rightarrow>
          if js_eq J obj (JStr [CHR 0x0A]) then ok obj (s\<lparr>column := Fin 0\<rparr>)
          else if js_eq J obj (JStr [CHR 0x09]) then
            (let curgroup = Math_floor (num_div J (column s) (Fin 15));
                 nextcol = num_mul J (num_add J curgroup (Fin 1)) (Fin 15)
             in TAB J (JNum nextcol) s)
          else ok (JStr (ToString J obj)) s)"

text \<open>\<^verbatim>\<open>str.length\<close>: a number for a string, \<^verbatim>\<open>undefined\<close> for another primitive.\<close>

definition length_of :: "jsvalue \<Rightarrow> error + jsvalue" where
  "length_of v =
     (case v of
        JStr t \<Rightarrow> Inr (JNum (Fin (of_nat (length t))))
      | JUndefined \<Rightarrow> Inl TypeError
      | JNull \<Rightarrow> Inl TypeError
      | _ \<Rightarrow> Inr JUndefined)"

definition printExpr :: "jsengine \<Rightarrow> jsvalue \<Rightarrow> runtime \<Rightarrow> unit res" where
  "printExpr J obj s =
     bnd (valueToString J obj s)
       (\<lambda>str s1.
          case length_of str of
            Inl e \<Rightarrow> throw e s1
          | Inr len \<Rightarrow>
              ok () (s1\<lparr>column := num_add J (column s1) (ToNumber J len),
                        printed := printed s1 @ [str]\<rparr>))"

subsection \<open>Control flow\<close>

definition getStatement :: "runtime \<Rightarrow> error + stmt option" where
  "getStatement s =
     (case allstmts s of
        None \<Rightarrow> Inl TypeError
      | Some l \<Rightarrow>
          Inr (if 0 \<le> curpc s \<and> curpc s < int (length l) then Some (l ! nat (curpc s))
               else None))"

text \<open>
  \<^verbatim>\<open>pc2line.get(pc)\<close> as a condition: false for a missing key and for the line index 0.
\<close>

definition starts_line :: "runtime \<Rightarrow> int \<Rightarrow> bool" where
  "starts_line s pc =
     (if pc < 0 then False
      else case pc2line s (nat pc) of None \<Rightarrow> False | Some l \<Rightarrow> l \<noteq> 0)"

function skipToEOL_loop :: "runtime \<Rightarrow> nat \<Rightarrow> int \<Rightarrow> int" where
  "skipToEOL_loop s len pc =
     (let pc' = pc + 1
      in if pc' < int len \<and> \<not> starts_line s pc' then skipToEOL_loop s len pc' else pc')"
  by pat_completeness auto
termination
  by (relation "measure (\<lambda>(s, len, pc). nat (int len - pc))") auto

definition skipToEOL :: "runtime \<Rightarrow> unit res" where
  "skipToEOL s =
     (case allstmts s of
        None \<Rightarrow> throw TypeError (s\<lparr>curpc := curpc s + 1\<rparr>)
      | Some l \<Rightarrow> ok () (s\<lparr>curpc := skipToEOL_loop s (length l) (curpc s)\<rparr>))"

definition skipToEOF :: "runtime \<Rightarrow> unit res" where
  "skipToEOF s =
     (case allstmts s of
        None \<Rightarrow> throw TypeError s
      | Some l \<Rightarrow> ok () (s\<lparr>curpc := int (length l)\<rparr>))"

definition gotoLabel :: "jsengine \<Rightarrow> jsvalue \<Rightarrow> runtime \<Rightarrow> unit res" where
  "gotoLabel J lab s =
     (case label2pc s of
        None \<Rightarrow> throw TypeError s
      | Some m \<Rightarrow>
          (case m (ToString J lab) of
             Some pc \<Rightarrow> ok () (s\<lparr>curpc := int pc\<rparr>)
           | None \<Rightarrow> runtimeError (LabelNotFound lab) s))"

definition gosubLabel :: "jsengine \<Rightarrow> jsvalue \<Rightarrow> runtime \<Rightarrow> unit res" where
  "gosubLabel J lab s = gotoLabel J lab (s\<lparr>returnStack := returnStack s @ [curpc s]\<rparr>)"

definition returnFromGosub :: "runtime \<Rightarrow> unit res" where
  "returnFromGosub s =
     (if returnStack s = [] then runtimeError ReturnWithoutGosub s
      else ok () (s\<lparr>curpc := last (returnStack s), returnStack := butlast (returnStack s)\<rparr>))"

definition read_var :: "runtime \<Rightarrow> string \<Rightarrow> jsvalue" where
  "read_var s x = (case vars s x of None \<Rightarrow> JUndefined | Some v \<Rightarrow> v)"

definition startForLoop :: "string \<Rightarrow> jsvalue \<Rightarrow> jsvalue \<Rightarrow> jsvalue \<Rightarrow> runtime \<Rightarrow> unit res" where
  "startForLoop forname init targ step s =
     (let pc = curpc s;
          step' = (if \<not> ToBoolean step then JNum (Fin 1) else step)
      in ok () (s\<lparr>vars := (vars s)(forname \<mapsto> init),
                  forLoops := \<lparr>for_pc = pc, for_name = forname, for_targ = targ,
                               for_step = step'\<rparr> # forLoops s\<rparr>))"

text \<open>The closure \<^verbatim>\<open>next\<close> of a loop entry, called with the name after NEXT if there is one.\<close>

definition for_next :: "jsengine \<Rightarrow> for_loop \<Rightarrow> string option \<Rightarrow> runtime \<Rightarrow> unit res" where
  "for_next J fl nextname s =
     (case (case nextname of
              None \<Rightarrow> None
            | Some n \<Rightarrow> if n \<noteq> [] \<and> for_name fl \<noteq> n then Some n else None) of
        Some n \<Rightarrow> runtimeError (NextForMismatch n (for_name fl)) s
      | None \<Rightarrow>
          (let v = js_plus J (read_var s (for_name fl)) (for_step fl);
               s1 = s\<lparr>vars := (vars s)(for_name fl \<mapsto> v)\<rparr>;
               done = (if js_ge J (for_step fl) (JNum (Fin 0))
                       then js_gt J v (for_targ fl)
                       else js_lt J v (for_targ fl))
           in if done then ok () (s1\<lparr>forLoops := tl (forLoops s1)\<rparr>)
              else ok () (s1\<lparr>curpc := for_pc fl\<rparr>)))"

definition nextForLoop :: "jsengine \<Rightarrow> string option \<Rightarrow> runtime \<Rightarrow> unit res" where
  "nextForLoop J name s =
     (case forLoops s of
        [] \<Rightarrow> runtimeError NextWithoutFor s
      | fl # rest \<Rightarrow> for_next J fl name s)"

subsection \<open>Assignment and data\<close>

definition convert :: "jsengine \<Rightarrow> string \<Rightarrow> jsvalue \<Rightarrow> jsvalue" where
  "convert J name right =
     (if endsWith name ''$'' then js_plus J right (JStr [])
      else if typeof right = TNumber then right
      else JNum (parseFloat J (ToString J (js_plus J right (JStr [])))))"

definition convertToString :: "jsvalue \<Rightarrow> runtime \<Rightarrow> jsvalue res" where
  "convertToString right s =
     (if typeof right \<noteq> TString then runtimeError (CantConvertToString right) s
      else ok right s)"

definition convertToNumber :: "jsengine \<Rightarrow> jsvalue \<Rightarrow> runtime \<Rightarrow> jsvalue res" where
  "convertToNumber J right s =
     (if typeof right \<noteq> TNumber then runtimeError (CantConvertToNumber right) s
      else checkNum J right s)"

definition assign :: "jsengine \<Rightarrow> string \<Rightarrow> jsvalue \<Rightarrow> runtime \<Rightarrow> jsvalue res" where
  "assign J name right s =
     (case program s of
        None \<Rightarrow> throw TypeError s
      | Some p \<Rightarrow>
          if typeConvert (opts p) then ok (convert J name right) s
          else if endsWith name ''$'' then convertToString right s
          else convertToNumber J right s)"

definition nextDatum :: "runtime \<Rightarrow> jsvalue res" where
  "nextDatum s =
     (case dataptr s of
        None \<Rightarrow> throw TypeError s
      | Some p \<Rightarrow>
          if p \<ge> length (datums s) then runtimeError OutOfData s
          else ok (datums s ! p) (s\<lparr>dataptr := Some (p + 1)\<rparr>))"

text \<open>\<^verbatim>\<open>xs[n]\<close> on an array: \<^verbatim>\<open>undefined\<close> unless \<open>n\<close> is an index of the array.\<close>

definition js_index :: "jsvalue list \<Rightarrow> number \<Rightarrow> jsvalue" where
  "js_index xs n =
     (case n of
        Fin x \<Rightarrow>
          if is_integer x \<and> 0 \<le> x \<and> x < of_nat (length xs) then xs ! nat \<lfloor>x\<rfloor>
          else JUndefined
      | _ \<Rightarrow> JUndefined)"

definition onGotoLabel :: "jsengine \<Rightarrow> jsvalue \<Rightarrow> jsvalue list \<Rightarrow> runtime \<Rightarrow> unit res" where
  "onGotoLabel J v labels s =
     bnd (ROUND J v s)
       (\<lambda>r s1.
          if js_lt J r (JNum (Fin 1)) \<or> js_gt J r (JNum (Fin (of_nat (length labels))))
          then runtimeError (OnGotoOutOfRange (length labels) r) s1
          else gotoLabel J (js_index labels (num_sub J (ToNumber J r) (Fin 1))) s1)"

subsection \<open>Evaluating compiled expressions\<close>

fun js_eval :: "jsengine \<Rightarrow> jsexpr \<Rightarrow> runtime \<Rightarrow> jsvalue res" where
  "js_eval J (JLit v) s = ok v s"
| "js_eval J (JLocal x) s = throw Unmodelled s"
| "js_eval J (JCall f args) s = throw Unmodelled s"
| "js_eval J (JArr a n args) s = throw Unmodelled s"
| "js_eval J (JVar x) s = ok (read_var s x) s"
| "js_eval J (JCheck e x) s =
     (case js_eval J e s of
        (Inl err, s1) \<Rightarrow> (Inl err, s1)
      | (Inr v, s1) \<Rightarrow> checkValue v x s1)"
| "js_eval J (JBin op l r) s =
     (case js_eval J l s of
        (Inl err, s1) \<Rightarrow> (Inl err, s1)
      | (Inr a, s1) \<Rightarrow>
          (case js_eval J r s1 of
             (Inl err, s2) \<Rightarrow> (Inl err, s2)
           | (Inr b, s2) \<Rightarrow> call_binop J op a b s2))"
| "js_eval J (JUn op e) s =
     (case js_eval J e s of
        (Inl err, s1) \<Rightarrow> (Inl err, s1)
      | (Inr a, s1) \<Rightarrow> call_unop J op a s1)"

subsection \<open>Compiling expressions and statements\<close>

record expr_options =
  check :: bool
  isconst :: bool
  locals :: "string list option"

definition JSON_literal :: "jsvalue \<Rightarrow> jsvalue" where
  "JSON_literal v =
     (case v of
        JNum (Fin x) \<Rightarrow> JNum (Fin x)
      | JNum _ \<Rightarrow> JNull
      | JNull \<Rightarrow> JUndefined
      | _ \<Rightarrow> v)"

fun expr2js :: "expr_options \<Rightarrow> expr \<Rightarrow> runtime \<Rightarrow> jsexpr res"
  and expr2js_list :: "expr_options \<Rightarrow> expr list \<Rightarrow> runtime \<Rightarrow> jsexpr list res"
where
  "expr2js eo (Literal v) s = ok (JLit (JSON_literal v)) s"
| "expr2js eo (IndOp name args) s =
     (if (case locals eo of None \<Rightarrow> False | Some ls \<Rightarrow> name \<in> set ls)
      then ok (JLocal name) s
      else if isconst eo then runtimeError ExpectedConstant s
      else
        (case (if name \<in> defs s then
                 (case args of
                    None \<Rightarrow> ok (JCall name []) s
                  | Some as \<Rightarrow>
                      (case expr2js_list eo as s of
                         (Inl err, s1) \<Rightarrow> (Inl err, s1)
                       | (Inr js, s1) \<Rightarrow> ok (JCall name js) s1))
               else
                 (case args of
                    Some as \<Rightarrow>
                      (case expr2js_list eo as s of
                         (Inl err, s1) \<Rightarrow> (Inl err, s1)
                       | (Inr js, s1) \<Rightarrow> ok (JArr name (length as) js) s1)
                  | None \<Rightarrow> ok (JVar name) s)) of
           (Inl err, s1) \<Rightarrow> (Inl err, s1)
         | (Inr e, s1) \<Rightarrow> ok (if check eo then JCheck e name else e) s1))"
| "expr2js eo (BinOp op l r) s =
     (case expr2js eo l s of
        (Inl err, s1) \<Rightarrow> (Inl err, s1)
      | (Inr left, s1) \<Rightarrow>
          (case expr2js eo r s1 of
             (Inl err, s2) \<Rightarrow> (Inl err, s2)
           | (Inr right, s2) \<Rightarrow> ok (JBin op left right) s2))"
| "expr2js eo (UnOp op e) s =
     (case expr2js eo e s of
        (Inl err, s1) \<Rightarrow> (Inl err, s1)
      | (Inr e', s1) \<Rightarrow> ok (JUn op e') s1)"
| "expr2js_list eo [] s = ok [] s"
| "expr2js_list eo (e # es) s =
     (case expr2js eo e s of
        (Inl err, s1) \<Rightarrow> (Inl err, s1)
      | (Inr j, s1) \<Rightarrow>
          (case expr2js_list eo es s1 of
             (Inl err, s2) \<Rightarrow> (Inl err, s2)
           | (Inr js, s2) \<Rightarrow> ok (j # js) s2))"

definition with_check :: expr_options where
  "with_check = \<lparr>check = True, isconst = False, locals = None\<rparr>"

definition without_check :: expr_options where
  "without_check = \<lparr>check = False, isconst = False, locals = None\<rparr>"

definition of_indop :: "indop \<Rightarrow> expr" where
  "of_indop l = IndOp (fst l) (snd l)"

text \<open>The pairs of an assignable expression and the name it assigns to, of INPUT and READ.\<close>

definition lexprs2js :: "indop list \<Rightarrow> runtime \<Rightarrow> (jsexpr \<times> string) list res" where
  "lexprs2js args s =
     mapR (\<lambda>arg s1. bnd (expr2js without_check (of_indop arg) s1) (\<lambda>lexpr. ok (lexpr, fst arg)))
       args s"

definition do__PRINT :: "expr list \<Rightarrow> runtime \<Rightarrow> jsfun res" where
  "do__PRINT args s = bnd (mapR (expr2js with_check) args s) (\<lambda>es. ok (RunPrint es))"

definition do__INPUT :: "expr \<Rightarrow> indop list \<Rightarrow> runtime \<Rightarrow> jsfun res" where
  "do__INPUT prompt args s =
     bnd (expr2js with_check prompt s)
       (\<lambda>p s1. bnd (lexprs2js args s1) (\<lambda>setvals. ok (RunInput p setvals)))"

definition do__LET :: "indop \<Rightarrow> expr \<Rightarrow> runtime \<Rightarrow> jsfun res" where
  "do__LET lexpr right s =
     bnd (expr2js without_check (of_indop lexpr) s)
       (\<lambda>l s1. bnd (expr2js with_check right s1) (\<lambda>r. ok (RunLet l (fst lexpr) r)))"

definition do__FOR :: "indop \<Rightarrow> expr \<Rightarrow> expr \<Rightarrow> expr option \<Rightarrow> runtime \<Rightarrow> jsfun res" where
  "do__FOR lexpr initial target step s =
     bnd (expr2js with_check initial s)
       (\<lambda>init s1.
          bnd (expr2js with_check target s1)
            (\<lambda>targ s2.
               case step of
                 None \<Rightarrow> ok (RunFor (fst lexpr) init targ None) s2
               | Some e \<Rightarrow>
                   bnd (expr2js with_check e s2)
                     (\<lambda>st. ok (RunFor (fst lexpr) init targ (Some st)))))"

text \<open>
  The name after NEXT is \<^verbatim>\<open>stmt.lexpr && JSON.stringify(stmt.lexpr.name)\<close>: a string for a
  variable, \<^verbatim>\<open>null\<close> or \<^verbatim>\<open>undefined\<close> (here \<open>None\<close>) otherwise.
\<close>

definition do__NEXT :: "expr option \<Rightarrow> runtime \<Rightarrow> jsfun res" where
  "do__NEXT lexpr s =
     ok (RunNext (case lexpr of Some (IndOp name args) \<Rightarrow> Some name | _ \<Rightarrow> None)) s"

definition do__IF :: "expr \<Rightarrow> runtime \<Rightarrow> jsfun res" where
  "do__IF cond s = bnd (expr2js with_check cond s) (\<lambda>c. ok (RunIf c))"

definition def_arg :: "expr \<Rightarrow> runtime \<Rightarrow> string res" where
  "def_arg arg s =
     (case arg of IndOp name args \<Rightarrow> ok name s | _ \<Rightarrow> runtimeError DefArguments s)"

definition do__DEF :: "indop \<Rightarrow> expr \<Rightarrow> runtime \<Rightarrow> jsfun res" where
  "do__DEF lexpr def s =
     bnd (mapR def_arg (case snd lexpr of None \<Rightarrow> [] | Some as \<Rightarrow> as) s)
       (\<lambda>args s1.
          bnd (expr2js \<lparr>check = True, isconst = False, locals = Some args\<rparr> def s1)
            (\<lambda>functext. ok (RunDef (fst lexpr) args functext)))"

definition DIM_one :: "indop \<Rightarrow> runtime \<Rightarrow> (string \<times> jsexpr list) res" where
  "DIM_one d s =
     (case snd d of
        None \<Rightarrow> throw TypeError s
      | Some as \<Rightarrow> bnd (mapR (expr2js with_check) as s) (\<lambda>es. ok (fst d, es)))"

definition do__DIM :: "indop list \<Rightarrow> runtime \<Rightarrow> jsfun res" where
  "do__DIM args s = bnd (mapR DIM_one args s) (\<lambda>ds. ok (RunDim ds))"

definition do__GOTO :: "expr \<Rightarrow> runtime \<Rightarrow> jsfun res" where
  "do__GOTO lab s = bnd (expr2js with_check lab s) (\<lambda>l. ok (RunGoto l))"

definition do__GOSUB :: "expr \<Rightarrow> runtime \<Rightarrow> jsfun res" where
  "do__GOSUB lab s = bnd (expr2js with_check lab s) (\<lambda>l. ok (RunGosub l))"

definition do__RETURN :: "runtime \<Rightarrow> jsfun res" where
  "do__RETURN s = ok RunReturn s"

definition do__ONGOTO :: "expr \<Rightarrow> expr list \<Rightarrow> runtime \<Rightarrow> jsfun res" where
  "do__ONGOTO e labels s =
     bnd (expr2js with_check e s)
       (\<lambda>v s1. bnd (mapR (expr2js with_check) labels s1) (\<lambda>ls. ok (RunOnGoto v ls)))"

definition do__DATA :: "runtime \<Rightarrow> jsfun res" where
  "do__DATA s = ok RunNothing s"

definition do__READ :: "indop list \<Rightarrow> runtime \<Rightarrow> jsfun res" where
  "do__READ args s = bnd (lexprs2js args s) (\<lambda>setvals. ok (RunRead setvals))"

text \<open>
  \<^verbatim>\<open>do__RESTORE\<close> sets the data pointer itself, while the statement is compiled, and returns
  no text.
\<close>

definition do__RESTORE :: "runtime \<Rightarrow> jsfun res" where
  "do__RESTORE s = ok RunNothing (s\<lparr>dataptr := Some 0\<rparr>)"

definition do__END :: "runtime \<Rightarrow> jsfun res" where
  "do__END s = ok RunSkipToEOF s"

definition do__STOP :: "runtime \<Rightarrow> jsfun res" where
  "do__STOP s = ok RunSkipToEOF s"

definition do__OPTION :: "runtime \<Rightarrow> jsfun res" where
  "do__OPTION s = ok RunNothing s"

text \<open>
  \<^verbatim>\<open>this['do__' + stmt.command]\<close> applied to the statement; \<open>None\<close> when the runtime has no
  such method.
\<close>

fun stmtfn :: "stmt \<Rightarrow> (runtime \<Rightarrow> jsfun res) option" where
  "stmtfn (PRINT args) = Some (do__PRINT args)"
| "stmtfn (LET lexpr right) = Some (do__LET lexpr right)"
| "stmtfn (GOTO lab) = Some (do__GOTO lab)"
| "stmtfn (GOSUB lab) = Some (do__GOSUB lab)"
| "stmtfn RETURN = Some do__RETURN"
| "stmtfn (IF cond) = Some (do__IF cond)"
| "stmtfn (FOR lexpr initial target step) = Some (do__FOR lexpr initial target step)"
| "stmtfn (NEXT lexpr) = Some (do__NEXT lexpr)"
| "stmtfn (DIM args) = Some (do__DIM args)"
| "stmtfn (INPUT prompt args) = Some (do__INPUT prompt args)"
| "stmtfn (READ args) = Some (do__READ args)"
| "stmtfn (DEF lexpr def) = Some (do__DEF lexpr def)"
| "stmtfn (ONGOTO e labels) = Some (do__ONGOTO e labels)"
| "stmtfn (DATA ds) = Some do__DATA"
| "stmtfn RESTORE = Some do__RESTORE"
| "stmtfn END = Some do__END"
| "stmtfn STOP = Some do__STOP"
| "stmtfn (OPTION name args) = Some do__OPTION"
| "stmtfn (UNKNOWN command) = None"

definition command_of :: "stmt \<Rightarrow> string" where
  "command_of st =
     (case st of
        PRINT _ \<Rightarrow> ''PRINT'' | LET _ _ \<Rightarrow> ''LET'' | GOTO _ \<Rightarrow> ''GOTO'' | GOSUB _ \<Rightarrow> ''GOSUB''
      | RETURN \<Rightarrow> ''RETURN'' | IF _ \<Rightarrow> ''IF'' | FOR _ _ _ _ \<Rightarrow> ''FOR'' | NEXT _ \<Rightarrow> ''NEXT''
      | DIM _ \<Rightarrow> ''DIM'' | INPUT _ _ \<Rightarrow> ''INPUT'' | READ _ \<Rightarrow> ''READ'' | DEF _ _ \<Rightarrow> ''DEF''
      | ONGOTO _ _ \<Rightarrow> ''ONGOTO'' | DATA _ \<Rightarrow> ''DATA'' | RESTORE \<Rightarrow> ''RESTORE'' | END \<Rightarrow> ''END''
      | STOP \<Rightarrow> ''STOP'' | OPTION _ _ \<Rightarrow> ''OPTION'' | UNKNOWN c \<Rightarrow> c)"

definition compileStatement :: "nat \<Rightarrow> stmt \<Rightarrow> runtime \<Rightarrow> unit res" where
  "compileStatement i st s =
     (if compiled s i = None then
        (case stmtfn st of
           None \<Rightarrow> runtimeError (UnknownCommand (command_of st)) s
         | Some f \<Rightarrow> bnd (f s) (\<lambda>functext s1. ok () (s1\<lparr>compiled := (compiled s1)(i \<mapsto> functext)\<rparr>)))
      else ok () s)"

subsection \<open>Running compiled statements\<close>

fun run_print :: "jsengine \<Rightarrow> jsexpr list \<Rightarrow> runtime \<Rightarrow> unit res" where
  "run_print J [] s = ok () s"
| "run_print J (e # es) s =
     (case js_eval J e s of
        (Inl err, s1) \<Rightarrow> (Inl err, s1)
      | (Inr v, s1) \<Rightarrow>
          (case printExpr J v s1 of
             (Inl err, s2) \<Rightarrow> (Inl err, s2)
           | (Inr u, s2) \<Rightarrow> run_print J es s2))"

text \<open>
  The assignment \<^verbatim>\<open>lexpr = this.assign(name, right)\<close>. The target is evaluated first; only
  a variable \<^verbatim>\<open>this.vars.x\<close> is modelled.
\<close>

definition run_let :: "jsengine \<Rightarrow> jsexpr \<Rightarrow> string \<Rightarrow> jsexpr \<Rightarrow> runtime \<Rightarrow> unit res" where
  "run_let J lexpr name right s =
     (case lexpr of
        JVar x \<Rightarrow>
          bnd (js_eval J right s)
            (\<lambda>r s1. bnd (assign J name r s1)
               (\<lambda>v s2. ok () (s2\<lparr>vars := (vars s2)(x \<mapsto> v)\<rparr>)))
      | _ \<Rightarrow> throw Unmodelled s)"

fun run_read :: "jsengine \<Rightarrow> (jsexpr \<times> string) list \<Rightarrow> runtime \<Rightarrow> unit res" where
  "run_read J [] s = ok () s"
| "run_read J ((lexpr, name) # rest) s =
     (case lexpr of
        JVar x \<Rightarrow>
          (case nextDatum s of
             (Inl err, s1) \<Rightarrow> (Inl err, s1)
           | (Inr d, s1) \<Rightarrow>
               (case assign J name d s1 of
                  (Inl err, s2) \<Rightarrow> (Inl err, s2)
                | (Inr v, s2) \<Rightarrow> run_read J rest (s2\<lparr>vars := (vars s2)(x \<mapsto> v)\<rparr>)))
      | _ \<Rightarrow> throw Unmodelled s)"

definition run_for ::
  "jsengine \<Rightarrow> string \<Rightarrow> jsexpr \<Rightarrow> jsexpr \<Rightarrow> jsexpr option \<Rightarrow> runtime \<Rightarrow> unit res" where
  "run_for J name init targ step s =
     bnd (js_eval J init s)
       (\<lambda>i s1.
          bnd (js_eval J targ s1)
            (\<lambda>t s2.
               bnd (case step of None \<Rightarrow> ok JNull s2 | Some e \<Rightarrow> js_eval J e s2)
                 (\<lambda>st s3. startForLoop name i t st s3)))"

definition run_input :: "jsengine \<Rightarrow> jsexpr \<Rightarrow> (jsexpr \<times> string) list \<Rightarrow> runtime \<Rightarrow> unit res" where
  "run_input J prompt setvals s =
     bnd (js_eval J prompt (s\<lparr>running := False\<rparr>))
       (\<lambda>p s1. ok () (s1\<lparr>input_calls := input_calls s1 @ [(p, length setvals)]\<rparr>))"

text \<open>\<^verbatim>\<open>stmt.$run()\<close>: the body of the compiled function.\<close>

definition run :: "jsengine \<Rightarrow> jsfun \<Rightarrow> runtime \<Rightarrow> unit res" where
  "run J f s =
     (case f of
        RunPrint es \<Rightarrow> run_print J es s
      | RunInput prompt setvals \<Rightarrow> run_input J prompt setvals s
      | RunLet lexpr name right \<Rightarrow> run_let J lexpr name right s
      | RunFor name init targ step \<Rightarrow> run_for J name init targ step s
      | RunNext name \<Rightarrow> nextForLoop J name s
      | RunIf cond \<Rightarrow>
          bnd (js_eval J cond s) (\<lambda>c s1. if \<not> ToBoolean c then skipToEOL s1 else ok () s1)
      | RunDef name args functext \<Rightarrow> throw Unmodelled s
      | RunDim ds \<Rightarrow> throw Unmodelled s
      | RunGoto lab \<Rightarrow> bnd (js_eval J lab s) (gotoLabel J)
      | RunGosub lab \<Rightarrow> bnd (js_eval J lab s) (gosubLabel J)
      | RunReturn \<Rightarrow> returnFromGosub s
      | RunOnGoto e labels \<Rightarrow>
          bnd (js_eval J e s) (\<lambda>v s1. bnd (mapR (js_eval J) labels s1) (onGotoLabel J v))
      | RunRead setvals \<Rightarrow> run_read J setvals s
      | RunSkipToEOF \<Rightarrow> skipToEOF s
      | RunNothing \<Rightarrow> ok () s)"

definition executeStatement :: "jsengine \<Rightarrow> nat \<Rightarrow> runtime \<Rightarrow> unit res" where
  "executeStatement J i s =
     (case compiled s i of
        None \<Rightarrow> throw TypeError s
      | Some f \<Rightarrow> run J f s)"

definition step :: "jsengine \<Rightarrow> runtime \<Rightarrow> bool res" where
  "step J s =
     (if \<not> running s then ok False s
      else case getStatement s of
        Inl e \<Rightarrow> throw e s
      | Inr None \<Rightarrow> ok False (s\<lparr>running := False, exited := True\<rparr>)
      | Inr (Some st) \<Rightarrow>
          bnd (compileStatement (nat (curpc s)) st (s\<lparr>curpc := curpc s + 1\<rparr>))
            (\<lambda>u s1. bnd (executeStatement J (nat (curpc s)) s1)
               (\<lambda>u s2. ok (running s2) s2)))"

subsection \<open>The completion of INPUT\<close>

text \<open>
  The function INPUT passes to \<^verbatim>\<open>then\<close>: it runs when the host resolves the promise with the
  strings \<open>vals\<close>. \<open>vals[index]\<close> is \<^verbatim>\<open>undefined\<close> past the end of the list.
\<close>

definition nth_val :: "string list \<Rightarrow> nat \<Rightarrow> jsvalue" where
  "nth_val vals i = (if i < length vals then JStr (vals ! i) else JUndefined)"

fun setvals_loop ::
  "jsengine \<Rightarrow> (jsexpr \<times> string) list \<Rightarrow> nat \<Rightarrow> string list \<Rightarrow> bool \<Rightarrow> runtime \<Rightarrow> bool res" where
  "setvals_loop J [] i vals valid s = ok valid s"
| "setvals_loop J ((lexpr, name) # rest) i vals valid s =
     (case lexpr of
        JVar x \<Rightarrow>
          (let v = convert J name (nth_val vals i)
           in setvals_loop J rest (i + 1) vals (valid \<and> isValid v)
                (s\<lparr>vars := (vars s)(x \<mapsto> v)\<rparr>))
      | _ \<Rightarrow> throw Unmodelled s)"

definition input_then :: "jsengine \<Rightarrow> (jsexpr \<times> string) list \<Rightarrow> string list \<Rightarrow> runtime \<Rightarrow> unit res" where
  "input_then J setvals vals s =
     bnd (setvals_loop J setvals 0 vals True s)
       (\<lambda>valid s1.
          let s2 = (if \<not> valid then s1\<lparr>curpc := curpc s1 - 1\<rparr> else s1)
          in ok () (s2\<lparr>running := True, resumed := resumed s2 + 1\<rparr>))"

subsection \<open>Loading and resetting\<close>

definition builtin_names :: "string list" where
  "builtin_names =
     [''ABS'', ''ASC'', ''ATN'', ''CHR$'', ''COS'', ''EXP'', ''FIX'', ''HEX$'', ''INSTR'', ''INT'',
      ''LEFT$'', ''LEN'', ''LOG'', ''MID$'', ''RIGHT$'', ''RND'', ''ROUND'', ''SGN'', ''SIN'',
      ''SPACE$'', ''SQR'', ''STR$'', ''TAB'', ''TAN'', ''VAL'']"

definition getBuiltinFunctions :: "runtime \<Rightarrow> error + string set" where
  "getBuiltinFunctions s =
     (case (case program s of None \<Rightarrow> None | Some p \<Rightarrow> validFunctions (opts p)) of
        None \<Rightarrow> Inr (set builtin_names)
      | Some fnames \<Rightarrow>
          if set fnames \<subseteq> set builtin_names then Inr (set fnames) else Inl Unmodelled)"

definition reset :: "runtime \<Rightarrow> unit res" where
  "reset s =
     (let s1 = s\<lparr>curpc := 0, dataptr := Some 0, vars := Map.empty\<rparr>
      in case getBuiltinFunctions s1 of
           Inl e \<Rightarrow> throw e s1
         | Inr d \<Rightarrow>
             ok () (s1\<lparr>defs := d, forLoops := [], returnStack := [], column := Fin 0,
                       running := True, exited := False\<rparr>))"

definition const_options :: expr_options where
  "const_options = \<lparr>check = True, isconst = True, locals = None\<rparr>"

fun load_datums :: "jsengine \<Rightarrow> expr list \<Rightarrow> runtime \<Rightarrow> unit res" where
  "load_datums J [] s = ok () s"
| "load_datums J (d # ds) s =
     (case expr2js const_options d s of
        (Inl err, s1) \<Rightarrow> (Inl err, s1)
      | (Inr functext, s1) \<Rightarrow>
          (case js_eval J functext s1 of
             (Inl err, s2) \<Rightarrow> (Inl err, s2)
           | (Inr v, s2) \<Rightarrow> load_datums J ds (s2\<lparr>datums := datums s2 @ [v]\<rparr>)))"

fun load_data_stmts :: "jsengine \<Rightarrow> stmt list \<Rightarrow> runtime \<Rightarrow> unit res" where
  "load_data_stmts J [] s = ok () s"
| "load_data_stmts J (st # sts) s =
     (case st of
        DATA ds \<Rightarrow>
          (case load_datums J ds s of
             (Inl err, s1) \<Rightarrow> (Inl err, s1)
           | (Inr u, s1) \<Rightarrow> load_data_stmts J sts s1)
      | _ \<Rightarrow> load_data_stmts J sts s)"

definition load_line :: "jsengine \<Rightarrow> nat \<Rightarrow> basic_line \<Rightarrow> runtime \<Rightarrow> unit res" where
  "load_line J idx bl s =
     (case (allstmts s, label2pc s) of
        (Some l, Some m) \<Rightarrow>
          load_data_stmts J (stmts bl)
            (s\<lparr>curpc := int (length l) + 1,
               label2lineidx :=
                 (case label bl of
                    None \<Rightarrow> label2lineidx s
                  | Some lab \<Rightarrow> (label2lineidx s)(lab \<mapsto> idx)),
               label2pc :=
                 Some (case label bl of None \<Rightarrow> m | Some lab \<Rightarrow> m(lab \<mapsto> length l)),
               line2pc := line2pc s @ [length l],
               pc2line := (pc2line s)(length l \<mapsto> idx),
               allstmts := Some (l @ stmts bl)\<rparr>)
      | _ \<Rightarrow> throw TypeError s)"

fun load_lines :: "jsengine \<Rightarrow> nat \<Rightarrow> basic_line list \<Rightarrow> runtime \<Rightarrow> unit res" where
  "load_lines J idx [] s = ok () s"
| "load_lines J idx (bl # bls) s =
     (case load_line J idx bl s of
        (Inl err, s1) \<Rightarrow> (Inl err, s1)
      | (Inr u, s1) \<Rightarrow> load_lines J (idx + 1) bls s1)"

text \<open>
  \<^verbatim>\<open>load(program)\<close>. \<open>slots\<close> are the \<^verbatim>\<open>$run\<close> slots the statements of the program carry when
  it is loaded, by position: empty for a program that comes from the parser.
\<close>

definition load :: "jsengine \<Rightarrow> basic_program \<Rightarrow> (nat \<rightharpoonup> jsfun) \<Rightarrow> runtime \<Rightarrow> unit res" where
  "load J prog slots s =
     (case (case label2pc s of
              None \<Rightarrow> Inr JUndefined
            | Some m \<Rightarrow>
                (case getLabelForPC s (curpc s) of
                   Inl e \<Rightarrow> Inl e
                 | Inr None \<Rightarrow> Inr JNull
                 | Inr (Some l) \<Rightarrow> Inr (JStr l))) of
        Inl e \<Rightarrow> throw e s
      | Inr prevlabel \<Rightarrow>
          bnd (load_lines J 0 (lines prog)
                 (s\<lparr>program := Some prog, label2lineidx := Map.empty,
                    label2pc := Some Map.empty, allstmts := Some [], line2pc := [],
                    pc2line := Map.empty, datums := [], compiled := slots\<rparr>))
            (\<lambda>u s1.
               ok () (s1\<lparr>curpc :=
                          (case label2pc s1 of
                             None \<Rightarrow> 0
                           | Some m \<Rightarrow>
                               (case m (ToString J prevlabel) of
                                  None \<Rightarrow> 0
                                | Some pc \<Rightarrow> int pc)),
                        dataptr :=
                          (case dataptr s1 of
                             None \<Rightarrow> None
                           | Some p \<Rightarrow> Some (min p (length (datums s1))))\<rparr>)))"

text \<open>The runtime as its constructor leaves it: nothing loaded, not running.\<close>

definition new_runtime :: runtime where
  "new_runtime =
     \<lparr>program = None, allstmts = None, compiled = Map.empty, line2pc = [],
      pc2line = Map.empty, label2lineidx = Map.empty, label2pc = None, datums = [],
      curpc = 0, dataptr = None, vars = Map.empty, defs = {}, forLoops = [],
      returnStack = [], column = Fin 0, running = False, exited = True, printed = [],
      input_calls = [], resumed = 0\<rparr>"

section \<open>The parser\<close>

subsection \<open>Tokens\<close>

datatype TokenType =
    TokEOL | TokFloat1 | TokFloat2 | TokInt | TokRemark | TokIdent | TokString
  | TokRelational | TokOperator | TokCatchAll

record token =
  tok_str :: string
  tok_type :: TokenType

definition code :: "char \<Rightarrow> int" where
  "code c = of_char c"

definition isDigit :: "char \<Rightarrow> bool" where
  "isDigit c = (48 \<le> code c \<and> code c \<le> 57)"

definition isWord :: "char \<Rightarrow> bool" where
  "isWord c =
     (isDigit c \<or> (65 \<le> code c \<and> code c \<le> 90) \<or> (97 \<le> code c \<and> code c \<le> 122) \<or> code c = 95)"

definition isSpace :: "char \<Rightarrow> bool" where
  "isSpace c = (code c \<in> {9, 10, 11, 12, 13, 32, 160})"

definition isLineTerminator :: "char \<Rightarrow> bool" where
  "isLineTerminator c = (code c \<in> {10, 13})"

definition isE :: "char \<Rightarrow> bool" where
  "isE c = (code c \<in> {69, 101})"

text \<open>
  The alternatives of the regular expression \<^verbatim>\<open>re_toks\<close>, in order; each gives the length of
  its match at the start of the text, if it matches there. The expression has the flags
  \<^verbatim>\<open>g\<close> and \<^verbatim>\<open>i\<close>: the letter \<^verbatim>\<open>E\<close> also matches \<^verbatim>\<open>e\<close>.
\<close>

definition match_Float1 :: "string \<Rightarrow> nat option" where
  "match_Float1 cs =
     (let a = takeWhile (\<lambda>c. isDigit c \<or> c = CHR ''.'') cs
      in if a = [] then None
         else case drop (length a) cs of
           [] \<Rightarrow> None
         | e # r2 \<Rightarrow>
             if \<not> isE e then None
             else
               (let sg = (case r2 of
                            [] \<Rightarrow> 0
                          | c # r \<Rightarrow> if c = CHR ''+'' \<or> c = CHR ''-'' then 1 else 0);
                    d = takeWhile isDigit (drop sg r2)
                in if d = [] then None else Some (length a + 1 + sg + length d)))"

definition match_Float2 :: "string \<Rightarrow> nat option" where
  "match_Float2 cs =
     (let d1 = takeWhile isDigit cs
      in case drop (length d1) cs of
           [] \<Rightarrow> None
         | c # r2 \<Rightarrow>
             if c \<noteq> CHR ''.'' then None
             else
               (let d2 = takeWhile isDigit r2;
                    d3 = takeWhile (\<lambda>c. isE c \<or> isDigit c) (drop (length d2) r2)
                in Some (length d1 + 1 + length d2 + length d3)))"

definition match_Int :: "string \<Rightarrow> nat option" where
  "match_Int cs = (let d = takeWhile isDigit cs in if d = [] then None else Some (length d))"

definition match_Remark :: "string \<Rightarrow> nat option" where
  "match_Remark cs =
     (case cs of
        [] \<Rightarrow> None
      | c # r \<Rightarrow>
          if c = CHR 0x27 then Some (1 + length (takeWhile (\<lambda>c. \<not> isLineTerminator c) r))
          else None)"

definition match_Ident :: "string \<Rightarrow> nat option" where
  "match_Ident cs =
     (let w = takeWhile isWord cs
      in if w = [] then None
         else Some (length w + (case drop (length w) cs of
                                  [] \<Rightarrow> 0
                                | c # r \<Rightarrow> if c = CHR ''$'' then 1 else 0)))"

definition match_String :: "string \<Rightarrow> nat option" where
  "match_String cs =
     (case cs of
        [] \<Rightarrow> None
      | q # r \<Rightarrow>
          if q \<noteq> CHR 0x22 then None
          else
            (let body = takeWhile (\<lambda>c. c \<noteq> CHR 0x22 \<and> \<not> isLineTerminator c) r
             in case drop (length body) r of
                  [] \<Rightarrow> None
                | c # r' \<Rightarrow> if c = CHR 0x22 then Some (length body + 2) else None))"

definition match_Relational :: "string \<Rightarrow> nat option" where
  "match_Relational cs =
     (case cs of
        [] \<Rightarrow> None
      | c1 # r \<Rightarrow>
          if c1 \<in> set ''<>'' \<and> (case r of [] \<Rightarrow> False | c2 # r' \<Rightarrow> c2 \<in> set ''=<>'') then Some 2
          else if c1 \<in> set ''=<>'' then Some 1
          else None)"

definition match_Operator :: "string \<Rightarrow> nat option" where
  "match_Operator cs =
     (case cs of
        [] \<Rightarrow> None
      | c # r \<Rightarrow> if c \<in> set ''-+*/^,;:()'' then Some 1 else None)"

definition match_CatchAll :: "string \<Rightarrow> nat option" where
  "match_CatchAll cs =
     (let w = takeWhile (\<lambda>c. \<not> isSpace c) cs in if w = [] then None else Some (length w))"

definition re_toks :: "(TokenType \<times> (string \<Rightarrow> nat option)) list" where
  "re_toks =
     [(TokFloat1, match_Float1), (TokFloat2, match_Float2), (TokInt, match_Int),
      (TokRemark, match_Remark), (TokIdent, match_Ident), (TokString, match_String),
      (TokRelational, match_Relational), (TokOperator, match_Operator),
      (TokCatchAll, match_CatchAll)]"

fun first_match :: "(TokenType \<times> (string \<Rightarrow> nat option)) list \<Rightarrow> string \<Rightarrow> (TokenType \<times> nat) option" where
  "first_match [] cs = None"
| "first_match ((ty, m) # alts) cs =
     (case m cs of
        Some n \<Rightarrow> Some (ty, n)
      | None \<Rightarrow> first_match alts cs)"

text \<open>
  The loop \<^verbatim>\<open>while (m = re_toks.exec(line))\<close>: the next match is the first alternative that
  matches at the leftmost position where one does. No alternative matches the empty text,
  so a match of length \<open>n\<close> leaves the text after the first character without its first
  \<open>n - 1\<close> characters.
\<close>

fun scan :: "string \<Rightarrow> (TokenType \<times> string) list" where
  "scan [] = []"
| "scan (c # cs) =
     (case first_match re_toks (c # cs) of
        None \<Rightarrow> scan cs
      | Some (ty, n) \<Rightarrow> (ty, take n (c # cs)) # scan (drop (n - 1) cs))"

definition eol :: token where
  "eol = \<lparr>tok_str = [], tok_type = TokEOL\<rparr>"

subsection \<open>Operators\<close>

definition OPERATORS :: "(string \<times> string \<times> int) list" where
  "OPERATORS =
     [(''OR'', ''bor'', 7), (''AND'', ''band'', 8),
      (''='', ''eq'', 50), (''<>'', ''ne'', 50), (''<'', ''lt'', 50), (''>'', ''gt'', 50),
      (''<='', ''le'', 50), (''>='', ''ge'', 50),
      (''+'', ''add'', 100), (''-'', ''sub'', 100),
      (''%'', ''mod'', 140), ([CHR 0x5C], ''idiv'', 150),
      (''*'', ''mul'', 200), (''/'', ''div'', 200),
      (''^'', ''pow'', 300)]"

definition getOperator :: "string \<Rightarrow> (string \<times> int) option" where
  "getOperator op = map_of OPERATORS op"

definition getPrecedence :: "token \<Rightarrow> int" where
  "getPrecedence tok =
     (if tok_type tok = TokOperator \<or> tok_type tok = TokRelational \<or> tok_type tok = TokIdent
      then (case getOperator (tok_str tok) of Some (f, p) \<Rightarrow> p | None \<Rightarrow> - 1)
      else - 1)"

definition isEOS :: "token \<Rightarrow> bool" where
  "isEOS tok = (tok_type tok = TokEOL \<or> (tok_type tok = TokOperator \<and> tok_str tok = '':''))"

definition stripQuotes :: "string \<Rightarrow> string" where
  "stripQuotes s = take (length s - 2) (drop 1 s)"

subsection \<open>Dialects\<close>

definition ECMA55_MINIMAL :: basic_options where
  "ECMA55_MINIMAL =
     \<lparr>uppercaseOnly = True, strictVarNames = True, sharedArrayNamespace = True,
      defaultArrayBase = 0, defaultArraySize = 11, maxDimensions = 2, stringConcat = False,
      typeConvert = False, maxArguments = 255, sparseArrays = False, tickComments = False,
      validKeywords =
        Some [''BASE'', ''DATA'', ''DEF'', ''DIM'', ''END'', ''FOR'', ''GO'', ''GOSUB'', ''GOTO'',
              ''IF'', ''INPUT'', ''LET'', ''NEXT'', ''ON'', ''OPTION'', ''PRINT'', ''RANDOMIZE'',
              ''READ'', ''REM'', ''RESTORE'', ''RETURN'', ''STEP'', ''STOP'', ''SUB'', ''THEN'',
              ''TO''],
      validFunctions =
        Some [''ABS'', ''ATN'', ''COS'', ''EXP'', ''INT'', ''LOG'', ''RND'', ''SGN'', ''SIN'', ''SQR'',
              ''TAB'', ''TAN''],
      validOperators =
        Some [''='', ''<>'', ''<'', ''>'', ''<='', ''>='', ''+'', ''-'', ''*'', ''/'', ''^''],
      printZoneLength = 15, printPrecision = 6, checkOverflow = True, defaultValues = False,
      multipleNextVars = False\<rparr>"

definition ALTAIR_BASIC40 :: basic_options where
  "ALTAIR_BASIC40 =
     \<lparr>uppercaseOnly = True, strictVarNames = True, sharedArrayNamespace = True,
      defaultArrayBase = 0, defaultArraySize = 11, maxDimensions = 2, stringConcat = False,
      typeConvert = False, maxArguments = 255, sparseArrays = False, tickComments = False,
      validKeywords = None, validFunctions = None, validOperators = None,
      printZoneLength = 15, printPrecision = 6, checkOverflow = True, defaultValues = False,
      multipleNextVars = True\<rparr>"

text \<open>
  The two dialect records are objects shared by every parser, and \<^verbatim>\<open>OPTION BASE\<close> writes to
  the one the parser currently refers to. The parser state therefore holds both objects and
  a reference.
\<close>

datatype dialect_ref = Ref_ALTAIR_BASIC40 | Ref_ECMA55_MINIMAL

definition DIALECTS :: "(string \<times> dialect_ref) list" where
  "DIALECTS =
     [(''DEFAULT'', Ref_ALTAIR_BASIC40), (''ALTAIR'', Ref_ALTAIR_BASIC40),
      (''ALTAIR40'', Ref_ALTAIR_BASIC40), (''ECMA55'', Ref_ECMA55_MINIMAL),
      (''MINIMAL'', Ref_ECMA55_MINIMAL)]"

subsection \<open>The parser state\<close>

text \<open>
  A compile error is recorded as the line number and which message it is. \<open>labels\<close> are the
  labels declared so far, \<open>targets\<close> the labels referred to, with the line of the reference,
  in the order of their first mention. \<open>listings\<close> holds, for each path, the pairs of
  statement offset and line number. Source locations within a line, and the tables
  \<^verbatim>\<open>decls\<close> and \<^verbatim>\<open>refs\<close> (used only by a check that is switched off) are left out.
\<close>

datatype compile_msg =
    DuplicateLabel string
  | ShouldBeHere string
  | DialectUnsupported string
  | ExpectedEndOfLine
  | CommandExpected
  | VariableExpected
  | LineNumberExpected
  | ExpressionIncomplete
  | UnexpectedInExpression string
  | NotAFloat string
  | FloatTooBig string
  | DefWithoutFN
  | OptionNameExpected
  | OptionBaseRange
  | DialectNotSupported string
  | OptionNotSupported string
  | NoSuchLineNumber string

record parser =
  obj_ALTAIR_BASIC40 :: basic_options
  obj_ECMA55_MINIMAL :: basic_options
  opts_ref :: dialect_ref
  errors :: "(nat \<times> compile_msg) list"
  labels :: "string set"
  targets :: "(string \<times> nat) list"
  lineno :: nat
  tokens :: "token list"
  curlabel :: "string option"
  listings :: "(string \<times> (nat \<times> nat) list) list"

definition popts :: "parser \<Rightarrow> basic_options" where
  "popts p =
     (case opts_ref p of
        Ref_ALTAIR_BASIC40 \<Rightarrow> obj_ALTAIR_BASIC40 p
      | Ref_ECMA55_MINIMAL \<Rightarrow> obj_ECMA55_MINIMAL p)"

definition new_parser :: "basic_options \<Rightarrow> basic_options \<Rightarrow> parser" where
  "new_parser altair ecma =
     \<lparr>obj_ALTAIR_BASIC40 = altair, obj_ECMA55_MINIMAL = ecma, opts_ref = Ref_ALTAIR_BASIC40,
      errors = [], labels = {}, targets = [], lineno = 0, tokens = [], curlabel = None,
      listings = []\<rparr>"

text \<open>
  \<open>CompileError\<close> is the exception of that name; \<open>OutOfFuel\<close> is not a result of the
  program: the recursive descent is given fuel in the model, and a parse that returns
  \<open>OutOfFuel\<close> was given too little.
\<close>

datatype perror = CompileError | OutOfFuel | ParserTypeError

type_synonym 'a pres = "(perror + 'a) \<times> parser"

definition pok :: "'a \<Rightarrow> parser \<Rightarrow> 'a pres" where
  "pok v p = (Inr v, p)"

definition pbnd :: "'a pres \<Rightarrow> ('a \<Rightarrow> parser \<Rightarrow> 'b pres) \<Rightarrow> 'b pres" where
  "pbnd m f = (case m of (Inl e, p) \<Rightarrow> (Inl e, p) | (Inr v, p) \<Rightarrow> f v p)"

definition compileErrorAt :: "nat \<Rightarrow> compile_msg \<Rightarrow> parser \<Rightarrow> 'a pres" where
  "compileErrorAt l msg p = (Inl CompileError, p\<lparr>errors := errors p @ [(l, msg)]\<rparr>)"

definition compileError :: "compile_msg \<Rightarrow> parser \<Rightarrow> 'a pres" where
  "compileError msg p = compileErrorAt (lineno p) msg p"

definition dialectError :: "string \<Rightarrow> parser \<Rightarrow> 'a pres" where
  "dialectError what p = compileError (DialectUnsupported what) p"

definition consumeToken :: "parser \<Rightarrow> token \<times> parser" where
  "consumeToken p = (case tokens p of [] \<Rightarrow> (eol, p) | t # ts \<Rightarrow> (t, p\<lparr>tokens := ts\<rparr>))"

definition peekToken :: "parser \<Rightarrow> token" where
  "peekToken p = (case tokens p of [] \<Rightarrow> eol | t # ts \<Rightarrow> t)"

definition pushbackToken :: "token \<Rightarrow> parser \<Rightarrow> parser" where
  "pushbackToken tok p = p\<lparr>tokens := tok # tokens p\<rparr>"

definition expectToken :: "string \<Rightarrow> parser \<Rightarrow> token pres" where
  "expectToken str p =
     (case consumeToken p of
        (tok, p1) \<Rightarrow> if str \<noteq> tok_str tok then compileError (ShouldBeHere str) p1 else pok tok p1)"

definition tokenize :: "jsengine \<Rightarrow> string \<Rightarrow> parser \<Rightarrow> parser" where
  "tokenize J line p =
     p\<lparr>lineno := lineno p + 1,
       tokens :=
         map (\<lambda>(ty, txt).
                \<lparr>tok_str = (if ty = TokIdent \<or> uppercaseOnly (popts p) then toUpperCase J txt
                             else txt),
                 tok_type = ty\<rparr>)
           (scan line)\<rparr>"

subsection \<open>Lists and expressions\<close>

text \<open>
  \<^verbatim>\<open>parseList(parseFunc, delim)\<close>. An element that is \<^verbatim>\<open>null\<close> (\<open>None\<close>) is left out of
  the list. The token after the last element is pushed back, also when it is the
  end-of-line token.
\<close>

fun parseList :: "nat \<Rightarrow> (parser \<Rightarrow> 'a option pres) \<Rightarrow> string \<Rightarrow> parser \<Rightarrow> 'a list pres" where
  "parseList 0 parseFunc delim p = (Inl OutOfFuel, p)"
| "parseList (Suc n) parseFunc delim p =
     (case parseFunc p of
        (Inl e, p1) \<Rightarrow> (Inl e, p1)
      | (Inr el, p1) \<Rightarrow>
          (case consumeToken p1 of
             (sep, p2) \<Rightarrow>
               if tok_str sep = delim then
                 (case parseList n parseFunc delim p2 of
                    (Inl e, p3) \<Rightarrow> (Inl e, p3)
                  | (Inr rest, p3) \<Rightarrow>
                      (Inr (case el of None \<Rightarrow> rest | Some x \<Rightarrow> x # rest), p3))
               else (Inr (case el of None \<Rightarrow> [] | Some x \<Rightarrow> [x]), pushbackToken sep p2)))"

definition always :: "'a pres \<Rightarrow> 'a option pres" where
  "always m = (case m of (Inl e, p) \<Rightarrow> (Inl e, p) | (Inr v, p) \<Rightarrow> (Inr (Some v), p))"

definition parseNumber :: "jsengine \<Rightarrow> string \<Rightarrow> parser \<Rightarrow> number pres" where
  "parseNumber J str p =
     (let n = parseFloat J str
      in if isNaN n then compileError (NotAFloat str) p
         else if checkOverflow (popts p) \<and> \<not> is_finite n then compileError (FloatTooBig str) p
         else pok n p)"

fun parsePrimary :: "jsengine \<Rightarrow> nat \<Rightarrow> parser \<Rightarrow> expr pres"
  and parseVarOrIndexed :: "jsengine \<Rightarrow> nat \<Rightarrow> parser \<Rightarrow> indop pres"
  and parseExpr1 :: "jsengine \<Rightarrow> nat \<Rightarrow> expr \<Rightarrow> int \<Rightarrow> parser \<Rightarrow> expr pres"
  and parseExpr1_rhs :: "jsengine \<Rightarrow> nat \<Rightarrow> expr \<Rightarrow> token \<Rightarrow> parser \<Rightarrow> expr pres"
  and parseExpr :: "jsengine \<Rightarrow> nat \<Rightarrow> parser \<Rightarrow> expr pres"
where
  "parsePrimary J 0 p = (Inl OutOfFuel, p)"
| "parsePrimary J (Suc n) p =
     (case consumeToken p of
        (tok, p1) \<Rightarrow>
          if tok_type tok = TokInt \<or> tok_type tok = TokFloat1 \<or> tok_type tok = TokFloat2 then
            pbnd (parseNumber J (tok_str tok) p1) (\<lambda>v. pok (Literal (JNum v)))
          else if tok_type tok = TokString then
            pok (Literal (JStr (stripQuotes (tok_str tok)))) p1
          else if tok_type tok = TokIdent then
            (if tok_str tok = ''NOT''
             then pbnd (parsePrimary J n p1) (\<lambda>e. pok (UnOp ''lnot'' e))
             else pbnd (parseVarOrIndexed J n (pushbackToken tok p1)) (\<lambda>l. pok (of_indop l)))
          else if tok_type tok = TokOperator \<and> tok_str tok = ''('' then
            pbnd (parseExpr J n p1) (\<lambda>e p2. pbnd (expectToken '')'' p2) (\<lambda>t. pok e))
          else if tok_type tok = TokOperator \<and> tok_str tok = ''-'' then
            pbnd (parsePrimary J n p1) (\<lambda>e. pok (UnOp ''neg'' e))
          else if tok_type tok = TokOperator \<and> tok_str tok = ''+'' then
            parsePrimary J n p1
          else if tok_type tok = TokOperator \<or> tok_type tok = TokEOL then
            compileError ExpressionIncomplete p1
          else compileError (UnexpectedInExpression (tok_str tok)) p1)"
| "parseVarOrIndexed J 0 p = (Inl OutOfFuel, p)"
| "parseVarOrIndexed J (Suc n) p =
     (case consumeToken p of
        (tok, p1) \<Rightarrow>
          if tok_type tok = TokIdent then
            (if tok_str (peekToken p1) = ''('' then
               pbnd (expectToken ''('' p1)
                 (\<lambda>t p2.
                    pbnd (parseList n (\<lambda>q. always (parseExpr J n q)) '','' p2)
                      (\<lambda>args p3. pbnd (expectToken '')'' p3) (\<lambda>t. pok (tok_str tok, Some args))))
             else pok (tok_str tok, None) p1)
          else compileError VariableExpected p1)"
| "parseExpr1 J 0 left minPred p = (Inl OutOfFuel, p)"
| "parseExpr1 J (Suc n) left minPred p =
     (if getPrecedence (peekToken p) \<ge> minPred then
        (case consumeToken p of
           (op, p1) \<Rightarrow>
             if (case validOperators (popts p1) of
                   None \<Rightarrow> False
                 | Some ops \<Rightarrow> tok_str op \<notin> set ops)
             then dialectError (tok_str op) p1
             else
               pbnd (parsePrimary J n p1)
                 (\<lambda>right p2.
                    pbnd (parseExpr1_rhs J n right op p2)
                      (\<lambda>right' p3.
                         case getOperator (tok_str op) of
                           None \<Rightarrow> (Inl ParserTypeError, p3)
                         | Some (f, pr) \<Rightarrow> parseExpr1 J n (BinOp f left right') minPred p3)))
      else pok left p)"
| "parseExpr1_rhs J 0 right op p = (Inl OutOfFuel, p)"
| "parseExpr1_rhs J (Suc n) right op p =
     (if getPrecedence (peekToken p) > getPrecedence op then
        pbnd (parseExpr1 J n right (getPrecedence (peekToken p)) p)
          (\<lambda>right' p1. parseExpr1_rhs J n right' op p1)
      else pok right p)"
| "parseExpr J 0 p = (Inl OutOfFuel, p)"
| "parseExpr J (Suc n) p = pbnd (parsePrimary J n p) (\<lambda>left p1. parseExpr1 J n left 0 p1)"

definition parseExprList :: "jsengine \<Rightarrow> nat \<Rightarrow> parser \<Rightarrow> expr list pres" where
  "parseExprList J n p = parseList n (\<lambda>q. always (parseExpr J n q)) '','' p"

definition parseLexprList :: "jsengine \<Rightarrow> nat \<Rightarrow> parser \<Rightarrow> indop list pres" where
  "parseLexprList J n p = parseList n (\<lambda>q. always (parseVarOrIndexed J n q)) '','' p"

text \<open>\<^verbatim>\<open>obj[k] = v\<close> on an object whose keys are kept in the order of their creation.\<close>

fun set_entry :: "'k \<Rightarrow> 'v \<Rightarrow> ('k \<times> 'v) list \<Rightarrow> ('k \<times> 'v) list" where
  "set_entry k v [] = [(k, v)]"
| "set_entry k v ((k', v') # rest) =
     (if k = k' then (k, v) # rest else (k', v') # set_entry k v rest)"

definition parseLabel :: "jsengine \<Rightarrow> parser \<Rightarrow> expr pres" where
  "parseLabel J p =
     (case consumeToken p of
        (tok, p1) \<Rightarrow>
          if tok_type tok = TokInt then
            (let lab = number_toString J (parseInt J (tok_str tok))
             in pok (Literal (JStr lab)) (p1\<lparr>targets := set_entry lab (lineno p1) (targets p1)\<rparr>))
          else compileError LineNumberExpected p1)"

definition parseLabelList :: "jsengine \<Rightarrow> nat \<Rightarrow> parser \<Rightarrow> expr list pres" where
  "parseLabelList J n p = parseList n (\<lambda>q. always (parseLabel J q)) '','' p"

subsection \<open>Statements\<close>

definition stmt__LET :: "jsengine \<Rightarrow> nat \<Rightarrow> parser \<Rightarrow> stmt pres" where
  "stmt__LET J n p =
     pbnd (parseVarOrIndexed J n p)
       (\<lambda>lexpr p1.
          pbnd (expectToken ''='' p1)
            (\<lambda>t p2. pbnd (parseExpr J n p2) (\<lambda>right. pok (LET lexpr right))))"

text \<open>
  The loop of \<^verbatim>\<open>stmt__PRINT\<close>, with the list so far and the last separator; it returns
  them with the token that ended the loop.
\<close>

fun print_items ::
  "jsengine \<Rightarrow> nat \<Rightarrow> nat \<Rightarrow> expr list \<Rightarrow> token option \<Rightarrow> parser
     \<Rightarrow> (expr list \<times> token option \<times> token) pres" where
  "print_items J n 0 list lastsep p = (Inl OutOfFuel, p)"
| "print_items J n (Suc k) list lastsep p =
     (let sep = peekToken p
      in if isEOS sep then pok (list, lastsep, sep) p
         else if tok_str sep = '';'' then
           print_items J n k list (Some sep) (snd (consumeToken p))
         else if tok_str sep = '','' then
           print_items J n k (list @ [Literal (JStr [CHR 0x09])]) (Some sep) (snd (consumeToken p))
         else
           (case parseExpr J n p of
              (Inl e, p1) \<Rightarrow> (Inl e, p1)
            | (Inr x, p1) \<Rightarrow> print_items J n k (list @ [x]) None p1))"

definition stmt__PRINT :: "jsengine \<Rightarrow> nat \<Rightarrow> parser \<Rightarrow> stmt pres" where
  "stmt__PRINT J n p =
     pbnd (print_items J n n [] None p)
       (\<lambda>(list, lastsep, sep).
          pok (PRINT (if \<not> (case lastsep of
                                None \<Rightarrow> False
                              | Some l \<Rightarrow> tok_str l = '';'' \<or> tok_str sep \<noteq> '','')
                      then list @ [Literal (JStr [CHR 0x0A])]
                      else list)))"

definition stmt__GOTO :: "jsengine \<Rightarrow> nat \<Rightarrow> parser \<Rightarrow> stmt pres" where
  "stmt__GOTO J n p = pbnd (parseLabel J p) (\<lambda>l. pok (GOTO l))"

definition stmt__GOSUB :: "jsengine \<Rightarrow> nat \<Rightarrow> parser \<Rightarrow> stmt pres" where
  "stmt__GOSUB J n p = pbnd (parseLabel J p) (\<lambda>l. pok (GOSUB l))"

text \<open>
  After THEN, \<^verbatim>\<open>stmt__IF\<close> pushes back a GOTO when a line number follows, and then a colon:
  the rest of the line becomes the statements that follow the IF.
\<close>

definition stmt__IF :: "jsengine \<Rightarrow> nat \<Rightarrow> parser \<Rightarrow> stmt pres" where
  "stmt__IF J n p =
     pbnd (parseExpr J n p)
       (\<lambda>cond p1.
          pbnd (expectToken ''THEN'' p1)
            (\<lambda>t p2.
               let p3 = (if tok_type (peekToken p2) = TokInt
                         then pushbackToken \<lparr>tok_str = ''GOTO'', tok_type = TokIdent\<rparr> p2
                         else p2)
               in pok (IF cond) (pushbackToken \<lparr>tok_str = '':'', tok_type = TokOperator\<rparr> p3)))"

definition stmt__FOR :: "jsengine \<Rightarrow> nat \<Rightarrow> parser \<Rightarrow> stmt pres" where
  "stmt__FOR J n p =
     pbnd (parseVarOrIndexed J n p)
       (\<lambda>lexpr p1.
          pbnd (expectToken ''='' p1)
            (\<lambda>t p2.
               pbnd (parseExpr J n p2)
                 (\<lambda>init p3.
                    pbnd (expectToken ''TO'' p3)
                      (\<lambda>t p4.
                         pbnd (parseExpr J n p4)
                           (\<lambda>targ p5.
                              if tok_str (peekToken p5) = ''STEP'' then
                                pbnd (parseExpr J n (snd (consumeToken p5)))
                                  (\<lambda>step. pok (FOR lexpr init targ (Some step)))
                              else pok (FOR lexpr init targ None) p5)))))"

definition stmt__NEXT :: "jsengine \<Rightarrow> nat \<Rightarrow> parser \<Rightarrow> stmt pres" where
  "stmt__NEXT J n p =
     (if \<not> isEOS (peekToken p) then pbnd (parseExpr J n p) (\<lambda>lexpr. pok (NEXT (Some lexpr)))
      else pok (NEXT None) p)"

definition stmt__DIM :: "jsengine \<Rightarrow> nat \<Rightarrow> parser \<Rightarrow> stmt pres" where
  "stmt__DIM J n p = pbnd (parseLexprList J n p) (\<lambda>args. pok (DIM args))"

definition stmt__INPUT :: "jsengine \<Rightarrow> nat \<Rightarrow> parser \<Rightarrow> stmt pres" where
  "stmt__INPUT J n p =
     (case consumeToken p of
        (prompt, p1) \<Rightarrow>
          pbnd (if tok_type prompt = TokString
                then pbnd (expectToken '';'' p1) (\<lambda>t. pok (stripQuotes (tok_str prompt)))
                else pok [] (pushbackToken prompt p1))
            (\<lambda>promptstr p2.
               pbnd (parseLexprList J n p2) (\<lambda>args. pok (INPUT (Literal (JStr promptstr)) args))))"

definition stmt__DATA :: "jsengine \<Rightarrow> nat \<Rightarrow> parser \<Rightarrow> stmt pres" where
  "stmt__DATA J n p = pbnd (parseExprList J n p) (\<lambda>ds. pok (DATA ds))"

definition stmt__READ :: "jsengine \<Rightarrow> nat \<Rightarrow> parser \<Rightarrow> stmt pres" where
  "stmt__READ J n p = pbnd (parseLexprList J n p) (\<lambda>args. pok (READ args))"

definition stmt__RESTORE :: "jsengine \<Rightarrow> nat \<Rightarrow> parser \<Rightarrow> stmt pres" where
  "stmt__RESTORE J n p = pok RESTORE p"

definition stmt__RETURN :: "jsengine \<Rightarrow> nat \<Rightarrow> parser \<Rightarrow> stmt pres" where
  "stmt__RETURN J n p = pok RETURN p"

definition stmt__STOP :: "jsengine \<Rightarrow> nat \<Rightarrow> parser \<Rightarrow> stmt pres" where
  "stmt__STOP J n p = pok STOP p"

definition stmt__END :: "jsengine \<Rightarrow> nat \<Rightarrow> parser \<Rightarrow> stmt pres" where
  "stmt__END J n p = pok END p"

definition stmt__ON :: "jsengine \<Rightarrow> nat \<Rightarrow> parser \<Rightarrow> stmt pres" where
  "stmt__ON J n p =
     pbnd (parseExpr J n p)
       (\<lambda>e p1.
          pbnd (expectToken ''GOTO'' p1)
            (\<lambda>t p2. pbnd (parseLabelList J n p2) (\<lambda>ls. pok (ONGOTO e ls))))"

definition stmt__DEF :: "jsengine \<Rightarrow> nat \<Rightarrow> parser \<Rightarrow> stmt pres" where
  "stmt__DEF J n p =
     pbnd (parseVarOrIndexed J n p)
       (\<lambda>lexpr p1.
          if \<not> startsWith (fst lexpr) ''FN'' then compileError DefWithoutFN p1
          else
            pbnd (expectToken ''='' p1)
              (\<lambda>t p2. pbnd (parseExpr J n p2) (\<lambda>func. pok (DEF lexpr func))))"

text \<open>
  The loop of \<^verbatim>\<open>stmt__OPTION\<close> takes the text of every token up to the end of the statement,
  and takes that end as well.
\<close>

fun option_args :: "token list \<Rightarrow> string list \<times> token list" where
  "option_args [] = ([], [])"
| "option_args (t # ts) =
     (if isEOS t then ([], ts)
      else (case option_args ts of (list, rest) \<Rightarrow> (tok_str t # list, rest)))"

definition set_defaultArrayBase :: "int \<Rightarrow> parser \<Rightarrow> parser" where
  "set_defaultArrayBase b p =
     (case opts_ref p of
        Ref_ALTAIR_BASIC40 \<Rightarrow>
          p\<lparr>obj_ALTAIR_BASIC40 := (obj_ALTAIR_BASIC40 p)\<lparr>defaultArrayBase := b\<rparr>\<rparr>
      | Ref_ECMA55_MINIMAL \<Rightarrow>
          p\<lparr>obj_ECMA55_MINIMAL := (obj_ECMA55_MINIMAL p)\<lparr>defaultArrayBase := b\<rparr>\<rparr>)"

definition parseOptions :: "jsengine \<Rightarrow> string \<Rightarrow> string list \<Rightarrow> parser \<Rightarrow> unit pres" where
  "parseOptions J optname optargs p =
     (if optname = ''BASE'' then
        (let base = (case optargs of [] \<Rightarrow> NaN | a # as \<Rightarrow> parseInt J a)
         in if num_eq base (Fin 0) then pok () (set_defaultArrayBase 0 p)
            else if num_eq base (Fin 1) then pok () (set_defaultArrayBase 1 p)
            else compileError OptionBaseRange p)
      else if optname = ''DIALECT'' then
        (let dname = (case optargs of [] \<Rightarrow> [] | a # as \<Rightarrow> a)
         in case map_of DIALECTS dname of
              Some dialect \<Rightarrow> pok () (p\<lparr>opts_ref := dialect\<rparr>)
            | None \<Rightarrow> compileError (DialectNotSupported dname) p)
      else compileError (OptionNotSupported optname) p)"

definition stmt__OPTION :: "jsengine \<Rightarrow> nat \<Rightarrow> parser \<Rightarrow> stmt pres" where
  "stmt__OPTION J n p =
     (case consumeToken p of
        (tokname, p1) \<Rightarrow>
          if tok_type tokname \<noteq> TokIdent then compileError OptionNameExpected p1
          else
            (case option_args (tokens p1) of
               (list, rest) \<Rightarrow>
                 pbnd (parseOptions J (tok_str tokname) list (p1\<lparr>tokens := rest\<rparr>))
                   (\<lambda>u. pok (OPTION (tok_str tokname) list))))"

text \<open>\<^verbatim>\<open>this['stmt__' + cmd]\<close>: the method that parses the command, if there is one.\<close>

definition stmt_methods :: "(string \<times> (jsengine \<Rightarrow> nat \<Rightarrow> parser \<Rightarrow> stmt pres)) list" where
  "stmt_methods =
     [(''LET'', stmt__LET), (''PRINT'', stmt__PRINT), (''GOTO'', stmt__GOTO),
      (''GOSUB'', stmt__GOSUB), (''IF'', stmt__IF), (''FOR'', stmt__FOR), (''NEXT'', stmt__NEXT),
      (''DIM'', stmt__DIM), (''INPUT'', stmt__INPUT), (''DATA'', stmt__DATA),
      (''READ'', stmt__READ), (''RESTORE'', stmt__RESTORE), (''RETURN'', stmt__RETURN),
      (''STOP'', stmt__STOP), (''END'', stmt__END), (''ON'', stmt__ON), (''DEF'', stmt__DEF),
      (''OPTION'', stmt__OPTION)]"

text \<open>A remark takes every token up to and with the first end-of-line token.\<close>

fun skip_remark :: "token list \<Rightarrow> token list" where
  "skip_remark [] = []"
| "skip_remark (t # ts) = (if tok_type t = TokEOL then ts else skip_remark ts)"

definition parseStatement :: "jsengine \<Rightarrow> nat \<Rightarrow> parser \<Rightarrow> stmt option pres" where
  "parseStatement J n p =
     (case consumeToken p of
        (cmdtok, p1) \<Rightarrow>
          if tok_type cmdtok = TokRemark then
            (if \<not> tickComments (popts p1) then dialectError ''tick remarks'' p1 else pok None p1)
          else if tok_type cmdtok = TokIdent then
            (if tok_str cmdtok = ''REM'' then pok None (p1\<lparr>tokens := skip_remark (tokens p1)\<rparr>)
             else
               (case (if tok_str cmdtok = ''GO'' \<and> tok_str (peekToken p1) = ''TO''
                      then (''GOTO'', snd (consumeToken p1))
                      else if tok_str cmdtok = ''GO'' \<and> tok_str (peekToken p1) = ''SUB''
                      then (''GOSUB'', snd (consumeToken p1))
                      else (tok_str cmdtok, p1)) of
                  (cmd, p2) \<Rightarrow>
                    (case map_of stmt_methods cmd of
                       Some fn \<Rightarrow>
                         if (case validKeywords (popts p2) of
                               None \<Rightarrow> False
                             | Some ks \<Rightarrow> cmd \<notin> set ks)
                         then dialectError cmd p2
                         else always (fn J n p2)
                     | None \<Rightarrow>
                         if tok_str (peekToken p2) = ''='' \<or> tok_str (peekToken p2) = ''(''
                         then always (stmt__LET J n (pushbackToken cmdtok p2))
                         else compileError CommandExpected p2)))
          else compileError CommandExpected p1)"

definition parseCompoundStatement :: "jsengine \<Rightarrow> nat \<Rightarrow> parser \<Rightarrow> stmt list pres" where
  "parseCompoundStatement J n p =
     pbnd (parseList n (parseStatement J n) '':'' p)
       (\<lambda>list p1.
          if \<not> isEOS (peekToken p1) then compileError ExpectedEndOfLine p1 else pok list p1)"

subsection \<open>Lines and files\<close>

definition parseOptLabel :: "parser \<Rightarrow> string option pres" where
  "parseOptLabel p =
     (case consumeToken p of
        (tok, p1) \<Rightarrow>
          if tok_type tok = TokInt then
            (if tok_str tok \<in> labels p1 then compileError (DuplicateLabel (tok_str tok)) p1
             else pok (Some (tok_str tok))
                    (p1\<lparr>labels := insert (tok_str tok) (labels p1),
                        curlabel := Some (tok_str tok)\<rparr>))
          else pok None (pushbackToken tok p1))"

definition parse :: "jsengine \<Rightarrow> nat \<Rightarrow> parser \<Rightarrow> basic_line pres" where
  "parse J n p =
     (if tokens p \<noteq> [] then
        pbnd (parseOptLabel p)
          (\<lambda>lab p1.
             pbnd (parseCompoundStatement J n p1)
               (\<lambda>list p2. pok \<lparr>label = lab, stmts = list\<rparr> (p2\<lparr>curlabel := None\<rparr>)))
      else pok \<lparr>label = None, stmts = []\<rparr> p)"

text \<open>\<^verbatim>\<open>parseLine\<close> catches a \<^verbatim>\<open>CompileError\<close> and returns the empty line without a label.\<close>

definition parseLine :: "jsengine \<Rightarrow> nat \<Rightarrow> string \<Rightarrow> parser \<Rightarrow> basic_line pres" where
  "parseLine J n line p =
     (case parse J n (tokenize J line p) of
        (Inl CompileError, p1) \<Rightarrow> (Inr \<lparr>label = None, stmts = []\<rparr>, p1)
      | (Inl e, p1) \<Rightarrow> (Inl e, p1)
      | (Inr l, p1) \<Rightarrow> (Inr l, p1))"

fun parseLines :: "jsengine \<Rightarrow> nat \<Rightarrow> string list \<Rightarrow> parser \<Rightarrow> basic_line list pres" where
  "parseLines J n [] p = pok [] p"
| "parseLines J n (line # rest) p =
     (case parseLine J n line p of
        (Inl e, p1) \<Rightarrow> (Inl e, p1)
      | (Inr l, p1) \<Rightarrow>
          (case parseLines J n rest p1 of
             (Inl e, p2) \<Rightarrow> (Inl e, p2)
           | (Inr ls, p2) \<Rightarrow> (Inr (l # ls), p2)))"

text \<open>\<^verbatim>\<open>file.split("\n")\<close>.\<close>

fun split_lines :: "string \<Rightarrow> string list" where
  "split_lines [] = [[]]"
| "split_lines (c # cs) =
     (if c = CHR 0x0A then [] # split_lines cs
      else (case split_lines cs of [] \<Rightarrow> [[c]] | l # ls \<Rightarrow> (c # l) # ls))"

text \<open>
  \<^verbatim>\<open>for (let targ in this.targets)\<close> visits the keys that are array indices in ascending
  order and then the other keys in the order of their creation.
\<close>

fun digits_value :: "string \<Rightarrow> int \<Rightarrow> int" where
  "digits_value [] acc = acc"
| "digits_value (c # cs) acc = digits_value cs (10 * acc + (code c - 48))"

definition array_index :: "string \<Rightarrow> int option" where
  "array_index k =
     (if k \<noteq> [] \<and> list_all isDigit k \<and> (k = ''0'' \<or> hd k \<noteq> CHR ''0'')
         \<and> digits_value k 0 < 4294967295
      then Some (digits_value k 0) else None)"

definition keys_in_order :: "(string \<times> nat) list \<Rightarrow> (string \<times> nat) list" where
  "keys_in_order kvs =
     sort_key (\<lambda>kv. the (array_index (fst kv))) (filter (\<lambda>kv. array_index (fst kv) \<noteq> None) kvs)
     @ filter (\<lambda>kv. array_index (fst kv) = None) kvs"

fun checkLabels_loop :: "(string \<times> nat) list \<Rightarrow> parser \<Rightarrow> unit pres" where
  "checkLabels_loop [] p = pok () p"
| "checkLabels_loop ((targ, l) # rest) p =
     (if targ \<notin> labels p then compileErrorAt l (NoSuchLineNumber targ) p
      else checkLabels_loop rest p)"

definition checkLabels :: "parser \<Rightarrow> unit pres" where
  "checkLabels p = checkLabels_loop (keys_in_order (targets p)) p"

fun listing_lines :: "nat \<Rightarrow> nat \<Rightarrow> basic_line list \<Rightarrow> (nat \<times> nat) list" where
  "listing_lines pc idx [] = []"
| "listing_lines pc idx (l # ls) = (pc, idx + 1) # listing_lines (pc + length (stmts l)) (idx + 1) ls"

definition generateListing :: "basic_program \<Rightarrow> (nat \<times> nat) list" where
  "generateListing prog = listing_lines 0 0 (lines prog)"

definition parseFile :: "jsengine \<Rightarrow> nat \<Rightarrow> string \<Rightarrow> string \<Rightarrow> parser \<Rightarrow> basic_program pres" where
  "parseFile J n file path p =
     pbnd (parseLines J n (split_lines file) p)
       (\<lambda>pgmlines p1.
          let prog = \<lparr>opts = popts p1, lines = pgmlines\<rparr>
          in pbnd (checkLabels p1)
               (\<lambda>u p2.
                  pok prog
                    (p2\<lparr>listings := set_entry path (generateListing prog) (listings p2)\<rparr>)))"

section \<open>Running programs\<close>

text \<open>
  The host drives the runtime: it loads a program into a new runtime, resets it and calls
  \<^verbatim>\<open>step\<close>. \<open>boot\<close> is the first two calls; \<open>steps J k\<close> is \<open>k\<close> calls of \<^verbatim>\<open>step\<close>, ended early by
  an exception, and returns what the last call returned.
\<close>

definition boot :: "jsengine \<Rightarrow> basic_program \<Rightarrow> unit res" where
  "boot J prog = bnd (load J prog Map.empty new_runtime) (\<lambda>u. reset)"

fun steps :: "jsengine \<Rightarrow> nat \<Rightarrow> runtime \<Rightarrow> bool res" where
  "steps J 0 s = ok True s"
| "steps J (Suc 0) s = step J s"
| "steps J (Suc (Suc k)) s =
     (case step J s of
        (Inl e, s1) \<Rightarrow> (Inl e, s1)
      | (Inr b, s1) \<Rightarrow> steps J (Suc k) s1)"

definition parse_program :: "jsengine \<Rightarrow> nat \<Rightarrow> string \<Rightarrow> basic_program pres" where
  "parse_program J n file = parseFile J n file ''main.bas'' (new_parser ALTAIR_BASIC40 ECMA55_MINIMAL)"

subsection \<open>An engine for the examples\<close>

text \<open>
  The examples below need the engine's conversions at a few arguments. \<open>sample_engine\<close> gives
  them there as JavaScript does: the decimal digits of an integer below \<open>10^21\<close> in magnitude,
  the value of a string of decimal digits, and the entries of the tables. A multiple of
  \<open>1/1024\<close> below \<open>2^40\<close> in magnitude is a double, so that rounding leaves it as it is, and
  a power of two integers with such a value is exact. At any other argument the result is a
  placeholder, and no example depends on it.
\<close>

function decimal :: "int \<Rightarrow> string" where
  "decimal n = (if n < 10 then [char_of (48 + n)] else decimal (n div 10) @ [char_of (48 + n mod 10)])"
  by pat_completeness auto
termination
  by (relation "measure nat") auto

definition sample_numToString :: "real \<Rightarrow> string" where
  "sample_numToString x =
     (if is_integer x \<and> \<bar>x\<bar> < 10 ^ 21
      then (if x < 0 then ''-'' else []) @ decimal \<bar>\<lfloor>x\<rfloor>\<bar>
      else if x = 314 / 100 then ''3.14''
      else if x = - (314 / 100) then ''-3.14''
      else if x = 5 / 10 then ''0.5''
      else if x = - (5 / 10) then ''-0.5''
      else ''?'')"

definition sample_toPrecision :: "real \<Rightarrow> nat \<Rightarrow> string" where
  "sample_toPrecision x p =
     (if x = 123456789012345 then
        (if p = 11 then ''1.2345678901e+14''
         else if p = 10 then ''1.234567890e+14''
         else if p = 9 then ''1.23456789e+14''
         else if p = 8 then ''1.2345679e+14''
         else if p = 7 then ''1.234568e+14''
         else if p = 6 then ''1.23457e+14''
         else ''?'')
      else ''?'')"

definition sample_parse :: "string \<Rightarrow> number" where
  "sample_parse str =
     (if str \<noteq> [] \<and> list_all isDigit str then Fin (of_int (digits_value str 0))
      else if str = ''3.14'' then Fin (314 / 100)
      else NaN)"

definition sample_nearest_double :: "real \<Rightarrow> number" where
  "sample_nearest_double x = (if is_integer (x * 1024) \<and> \<bar>x\<bar> < 2 ^ 40 then Fin x else NaN)"

definition sample_power :: "real \<Rightarrow> real \<Rightarrow> number" where
  "sample_power x y =
     (if is_integer x \<and> is_integer y \<and> 0 \<le> y then sample_nearest_double (x ^ nat \<lfloor>y\<rfloor>)
      else NaN)"

definition ascii_upper :: "string \<Rightarrow> string" where
  "ascii_upper str = map (\<lambda>c. if 97 \<le> code c \<and> code c \<le> 122 then char_of (code c - 32) else c) str"

definition sample_engine :: jsengine where
  "sample_engine =
     \<lparr>numToString = sample_numToString, toPrecision = sample_toPrecision,
      parseFloat = sample_parse, parseInt = sample_parse, stringToNumber = sample_parse,
      toUpperCase = ascii_upper, nearest_double = sample_nearest_double,
      power = sample_power\<rparr>"

subsection \<open>Programs from text\<close>

text \<open>
  The program a text parses to, for the examples: the empty program when the parser
  throws. \<open>run_text J n file k\<close> is the runtime after the text is parsed with fuel \<open>n\<close>,
  loaded, reset and stepped \<open>k\<close> times.
\<close>

definition program_of :: "basic_program pres \<Rightarrow> basic_program" where
  "program_of r = (case fst r of Inr prog \<Rightarrow> prog | Inl e \<Rightarrow> \<lparr>opts = ALTAIR_BASIC40, lines = []\<rparr>)"

definition run_text :: "jsengine \<Rightarrow> nat \<Rightarrow> string \<Rightarrow> nat \<Rightarrow> bool res" where
  "run_text J n file k = steps J k (snd (boot J (program_of (parse_program J n file))))"

subsection \<open>Example programs\<close>

definition input_text :: string where
  "input_text = ''10 INPUT A''"

definition restore_text :: string where
  "restore_text =
     ''10 DATA 1,2\<newline>20 READ A\<newline>30 RESTORE\<newline>40 READ B\<newline>50 GOTO 30''"

text \<open>A program whose GOSUB names a label that no line declares.\<close>

definition gosub_program :: basic_program where
  "gosub_program =
     \<lparr>opts = ALTAIR_BASIC40,
      lines = [\<lparr>label = Some ''10'', stmts = [GOSUB (Literal (JStr ''50''))]\<rparr>]\<rparr>"

text \<open>\<open>run_program J prog k\<close> is the runtime after \<open>prog\<close> is loaded, reset and stepped \<open>k\<close> times.\<close>

definition run_program :: "jsengine \<Rightarrow> basic_program \<Rightarrow> nat \<Rightarrow> bool res" where
  "run_program J prog k = steps J k (snd (boot J prog))"



definition for_three_text :: string where
  "for_three_text = ''10 FOR I=1 TO 3\<newline>20 PRINT I\<newline>30 NEXT I''"

definition for_three_program :: basic_program where
  "for_three_program =
     \<lparr>opts = ALTAIR_BASIC40,
      lines =
        [\<lparr>label = Some ''10'',
          stmts = [FOR (''I'', None) (Literal (JNum (Fin 1))) (Literal (JNum (Fin 3))) None]\<rparr>,
         \<lparr>label = Some ''20'',
          stmts = [PRINT [IndOp ''I'' None, Literal (JStr [CHR 0x0A])]]\<rparr>,
         \<lparr>label = Some ''30'', stmts = [NEXT (Some (IndOp ''I'' None))]\<rparr>]\<rparr>"

definition input_program :: basic_program where
  "input_program =
     \<lparr>opts = ALTAIR_BASIC40,
      lines = [\<lparr>label = Some ''10'', stmts = [INPUT (Literal (JStr [])) [(''A'', None)]]\<rparr>]\<rparr>"

text \<open>
  What INPUT compiles its targets to when each is a plain variable: the variable and its
  name.
\<close>

definition scalar_targets :: "indop list \<Rightarrow> (jsexpr \<times> string) list" where
  "scalar_targets args = map (\<lambda>a. (JVar (fst a), fst a)) args"

text \<open>The parser with the tokens of one line of text, for the examples of expressions.\<close>

definition expr_tokens :: "string \<Rightarrow> parser" where
  "expr_tokens line = tokenize sample_engine line (new_parser ALTAIR_BASIC40 ECMA55_MINIMAL)"

text \<open>
  A token that \<^verbatim>\<open>parsePrimary\<close> reads as the number \<open>x\<close>, and a token that is the operator
  with method name \<open>f\<close> and precedence \<open>pr\<close>.
\<close>

definition number_token :: "jsengine \<Rightarrow> token \<Rightarrow> real \<Rightarrow> bool" where
  "number_token J t x =
     ((tok_type t = TokInt \<or> tok_type t = TokFloat1 \<or> tok_type t = TokFloat2)
      \<and> parseFloat J (tok_str t) = Fin x)"

definition operator_token :: "token \<Rightarrow> string \<Rightarrow> int \<Rightarrow> bool" where
  "operator_token t f pr =
     ((tok_type t = TokOperator \<or> tok_type t = TokRelational \<or> tok_type t = TokIdent)
      \<and> getOperator (tok_str t) = Some (f, pr))"


text \<open>
  \<open>pext p q\<close>: the parser state \<open>q\<close> has the line number of \<open>p\<close>, and at least its labels and
  its compile errors. The functions that parse a line extend the state in this sense.
\<close>

definition pext :: "parser \<Rightarrow> parser \<Rightarrow> bool" where
  "pext p q =
     (labels p \<subseteq> labels q \<and> lineno q = lineno p \<and> set (errors p) \<subseteq> set (errors q))"

named_theorems pext_intros


text \<open>
  A real is a double of the engine when rounding leaves it as it is. \<open>rounds_to_nearest\<close>
  says of the engine what holds of IEEE arithmetic: 0 and 1 are doubles, and a real below
  \<open>2^1023\<close> in magnitude rounds to a double that is at least as near to it as any other double.
\<close>

definition is_double :: "jsengine \<Rightarrow> real \<Rightarrow> bool" where
  "is_double J d = (nearest_double J d = Fin d)"

definition rounds_to_nearest :: "jsengine \<Rightarrow> bool" where
  "rounds_to_nearest J =
     (is_double J 0 \<and> is_double J 1 \<and>
      (\<forall>r. \<bar>r\<bar> < 2 ^ 1023 \<longrightarrow>
         (\<exists>y. nearest_double J r = Fin y \<and> is_double J y \<and>
              (\<forall>d. is_double J d \<longrightarrow> \<bar>r - y\<bar> \<le> \<bar>r - d\<bar>))))"

text \<open>
  An engine for which the property can be shown: its doubles are the multiples of \<open>1/4\<close>.
\<close>

definition quarter_engine :: jsengine where
  "quarter_engine = sample_engine\<lparr>nearest_double := \<lambda>r. Fin (of_int \<lfloor>4 * r + 1 / 2\<rfloor> / 4)\<rparr>"

text \<open>A loop that counts down, as text and as the program the text parses to.\<close>

definition for_down_text :: string where
  "for_down_text = ''10 FOR I=5 TO 1 STEP -1\<newline>20 PRINT I\<newline>30 NEXT I''"

definition for_down_program :: basic_program where
  "for_down_program =
     \<lparr>opts = ALTAIR_BASIC40,
      lines =
        [\<lparr>label = Some ''10'',
          stmts = [FOR (''I'', None) (Literal (JNum (Fin 5))) (Literal (JNum (Fin 1)))
                     (Some (UnOp ''neg'' (Literal (JNum (Fin 1)))))]\<rparr>,
         \<lparr>label = Some ''20'',
          stmts = [PRINT [IndOp ''I'' None, Literal (JStr [CHR 0x0A])]]\<rparr>,
         \<lparr>label = Some ''30'', stmts = [NEXT (Some (IndOp ''I'' None))]\<rparr>]\<rparr>"



section \<open>Notions used in the proofs\<close>

text \<open>
  The part of the state that evaluating an expression, compiling a statement and running
  any compiled statement but INPUT leave as it is.
\<close>

definition frame_of where
  "frame_of s =
     (running s, exited s, compiled s, program s, allstmts s, pc2line s, label2pc s,
      datums s, defs s, input_calls s, resumed s)"


section \<open>What statements leave unchanged\<close>

lemma frame_upd [simp]:
  "frame_of (s\<lparr>curpc := a\<rparr>) = frame_of s" "frame_of (s\<lparr>vars := b\<rparr>) = frame_of s"
  "frame_of (s\<lparr>column := c\<rparr>) = frame_of s" "frame_of (s\<lparr>dataptr := d\<rparr>) = frame_of s"
  "frame_of (s\<lparr>forLoops := e\<rparr>) = frame_of s" "frame_of (s\<lparr>returnStack := f\<rparr>) = frame_of s"
  "frame_of (s\<lparr>printed := g\<rparr>) = frame_of s"
  by (simp_all add: frame_of_def)

lemma frame_runtimeError [simp]: "frame_of (snd (runtimeError m s)) = frame_of s"
  by (simp add: runtimeError_def Let_def split: sum.splits)

lemma frame_ok [simp]: "frame_of (snd (ok v s)) = frame_of s" "frame_of (snd (throw e s)) = frame_of s"
  by (simp_all add: ok_def throw_def)

lemma frame_bnd:
  assumes "frame_of (snd m) = frame_of s" and "\<And>v s1. frame_of (snd (f v s1)) = frame_of s1"
  shows "frame_of (snd (bnd m f)) = frame_of s"
  using assms by (cases m) (auto simp: bnd_def split: sum.splits)

lemma frame_checkNum [simp]: "frame_of (snd (checkNum J n s)) = frame_of s"
  by (simp add: checkNum_def)

lemma frame_checkValue [simp]: "frame_of (snd (checkValue v x s)) = frame_of s"
  by (simp add: checkValue_def split: option.splits)

lemma frame_call_binop [simp]: "frame_of (snd (call_binop J op a b s)) = frame_of s"
  by (simp add: call_binop_def op_add_def op_sub_def op_mul_def op_div_def op_idiv_def
      op_mod_def op_pow_def)

lemma frame_call_unop [simp]: "frame_of (snd (call_unop J op a s)) = frame_of s"
  by (simp add: call_unop_def)

lemma frame_js_eval [simp]: "frame_of (snd (js_eval J e s)) = frame_of s"
proof (induction J e s rule: js_eval.induct)
  case (6 J e x s)
  then show ?case
    by (auto split: prod.splits sum.splits)
next
  case (7 J op l r s)
  then show ?case
    by (auto split: prod.splits sum.splits)
next
  case (8 J op e s)
  then show ?case
    by (auto split: prod.splits sum.splits)
qed simp_all


lemma frame_mapR:
  assumes "\<And>x s1. frame_of (snd (f x s1)) = frame_of s1"
  shows "frame_of (snd (mapR f xs s)) = frame_of s"
  using assms
proof (induction xs arbitrary: s)
  case Nil
  then show ?case by simp
next
  case (Cons x xs)
  have a: "frame_of (snd (f x s)) = frame_of s" by (rule Cons.prems)
  show ?case
  proof (cases "f x s")
    case (Pair r s1)
    with a have b: "frame_of s1 = frame_of s" by simp
    show ?thesis
    proof (cases r)
      case (Inl e)
      with Pair b show ?thesis by simp
    next
      case (Inr y)
      have c: "frame_of (snd (mapR f xs s1)) = frame_of s1"
        by (rule Cons.IH) (rule Cons.prems)
      with Pair Inr b show ?thesis
        by (cases "mapR f xs s1") (auto split: sum.splits)
    qed
  qed
qed

lemma frame_ROUND [simp]: "frame_of (snd (ROUND J a s)) = frame_of s"
  by (simp add: ROUND_def)

lemma frame_TAB [simp]: "frame_of (snd (TAB J a s)) = frame_of s"
  unfolding TAB_def
  by (rule frame_bnd) (auto simp: Let_def split: sum.splits)

lemma frame_valueToString [simp]: "frame_of (snd (valueToString J v s)) = frame_of s"
  by (auto simp: valueToString_def Let_def split: jsvalue.splits sum.splits)

lemma frame_printExpr [simp]: "frame_of (snd (printExpr J v s)) = frame_of s"
  unfolding printExpr_def
  by (rule frame_bnd) (auto split: sum.splits)

lemma frame_run_print [simp]: "frame_of (snd (run_print J es s)) = frame_of s"
proof (induction es arbitrary: s)
  case Nil
  then show ?case by simp
next
  case (Cons e es)
  have a: "frame_of (snd (js_eval J e s)) = frame_of s" by simp
  show ?case
  proof (cases "js_eval J e s")
    case (Pair r s1)
    with a have b: "frame_of s1 = frame_of s" by simp
    show ?thesis
    proof (cases r)
      case (Inl err)
      with Pair b show ?thesis by simp
    next
      case (Inr v)
      have c: "frame_of (snd (printExpr J v s1)) = frame_of s1" by simp
      show ?thesis
      proof (cases "printExpr J v s1")
        case q: (Pair r2 s2)
        with c have d: "frame_of s2 = frame_of s1" by simp
        from Pair Inr q b d Cons.IH[of s2] show ?thesis
          by (cases r2) auto
      qed
    qed
  qed
qed

lemma frame_assign [simp]: "frame_of (snd (assign J x v s)) = frame_of s"
  by (auto simp: assign_def convertToString_def convertToNumber_def split: option.splits)

lemma frame_nextDatum [simp]: "frame_of (snd (nextDatum s)) = frame_of s"
  by (auto simp: nextDatum_def split: option.splits)

lemma frame_run_let [simp]: "frame_of (snd (run_let J l x r s)) = frame_of s"
  unfolding run_let_def
  by (cases l) (auto intro!: frame_bnd)

lemma frame_run_read [simp]: "frame_of (snd (run_read J sv s)) = frame_of s"
proof (induction sv arbitrary: s)
  case Nil
  then show ?case by simp
next
  case (Cons a rest)
  obtain lexpr name where a: "a = (lexpr, name)" by (cases a)
  show ?case
  proof (cases lexpr)
    case (JVar x)
    have n: "frame_of (snd (nextDatum s)) = frame_of s" by simp
    show ?thesis
    proof (cases "nextDatum s")
      case (Pair r s1)
      with n have b: "frame_of s1 = frame_of s" by simp
      show ?thesis
      proof (cases r)
        case (Inl err)
        with Pair JVar a b show ?thesis by simp
      next
        case (Inr d)
        have c: "frame_of (snd (assign J name d s1)) = frame_of s1" by simp
        show ?thesis
        proof (cases "assign J name d s1")
          case q: (Pair r2 s2)
          with c have e: "frame_of s2 = frame_of s1" by simp
          show ?thesis
          proof (cases r2)
            case i: (Inl err)
            with Pair Inr q JVar a b e show ?thesis by simp
          next
            case i: (Inr v)
            from Pair Inr q JVar a b e i Cons.IH[of "s2\<lparr>vars := (vars s2)(x \<mapsto> v)\<rparr>"]
            show ?thesis by simp
          qed
        qed
      qed
    qed
  qed (simp_all add: a)
qed

lemma frame_startForLoop [simp]: "frame_of (snd (startForLoop n i t st s)) = frame_of s"
  by (simp add: startForLoop_def Let_def)

lemma frame_run_for [simp]: "frame_of (snd (run_for J n i t st s)) = frame_of s"
  unfolding run_for_def
  by (intro frame_bnd) (auto split: option.splits)

lemma frame_nextForLoop [simp]: "frame_of (snd (nextForLoop J n s)) = frame_of s"
  by (auto simp: nextForLoop_def for_next_def Let_def split: list.splits option.splits)

lemma frame_skipToEOL [simp]: "frame_of (snd (skipToEOL s)) = frame_of s"
  by (auto simp: skipToEOL_def split: option.splits)

lemma frame_skipToEOF [simp]: "frame_of (snd (skipToEOF s)) = frame_of s"
  by (auto simp: skipToEOF_def split: option.splits)

lemma frame_gotoLabel [simp]: "frame_of (snd (gotoLabel J l s)) = frame_of s"
  by (auto simp: gotoLabel_def split: option.splits)

lemma frame_gosubLabel [simp]: "frame_of (snd (gosubLabel J l s)) = frame_of s"
  by (simp add: gosubLabel_def)

lemma frame_returnFromGosub [simp]: "frame_of (snd (returnFromGosub s)) = frame_of s"
  by (simp add: returnFromGosub_def)

lemma frame_onGotoLabel [simp]: "frame_of (snd (onGotoLabel J v ls s)) = frame_of s"
  unfolding onGotoLabel_def
  by (rule frame_bnd) auto





lemma frame_expr2js:
  "frame_of (snd (expr2js eo e s)) = frame_of s"
  "frame_of (snd (expr2js_list eo es s)) = frame_of s"
proof (induction eo e s and eo es s rule: expr2js_expr2js_list.induct)
  case (1 eo v s)
  then show ?case by simp
next
  case (2 eo name args s)
  then show ?case
    by (cases "name \<in> defs s")
       (auto simp: ok_def split: option.splits prod.splits sum.splits)
next
  case (3 eo op l r s)
  then show ?case
    by (auto simp: ok_def split: prod.splits sum.splits)
next
  case (4 eo op e s)
  then show ?case
    by (auto simp: ok_def split: prod.splits sum.splits)
next
  case (5 eo s)
  then show ?case by simp
next
  case (6 eo e es s)
  then show ?case
    by (auto simp: ok_def split: prod.splits sum.splits)
qed

lemma frame_lexprs2js [simp]: "frame_of (snd (lexprs2js args s)) = frame_of s"
  unfolding lexprs2js_def
  by (rule frame_mapR) (auto intro!: frame_bnd simp: frame_expr2js)








section \<open>The unit of execution\<close>




section \<open>DATA, READ and RESTORE\<close>

text \<open>
  Claim C1 says that every execution of a RESTORE statement puts the data pointer back to
  the start. The code does so only when the statement is compiled: \<^verbatim>\<open>do__RESTORE\<close> sets
  the pointer and returns no text, so the compiled function does nothing. In the program
  below the RESTORE of line 30 runs twice. The first time (step 3) the pointer goes from 1
  to 0 and the READ that follows gives 1; the second time (step 6) the pointer stays at 1
  and the READ that follows gives 2.
\<close>

theorem restore_runs_once:
  "errors (snd (parse_program sample_engine 10 restore_text)) = []
   \<and> getStatement (snd (run_text sample_engine 10 restore_text 2)) = Inr (Some RESTORE)
   \<and> dataptr (snd (run_text sample_engine 10 restore_text 2)) = Some 1
   \<and> dataptr (snd (run_text sample_engine 10 restore_text 3)) = Some 0
   \<and> read_var (snd (run_text sample_engine 10 restore_text 4)) ''B'' = JNum (Fin 1)
   \<and> getStatement (snd (run_text sample_engine 10 restore_text 5)) = Inr (Some RESTORE)
   \<and> dataptr (snd (run_text sample_engine 10 restore_text 5)) = Some 1
   \<and> fst (run_text sample_engine 10 restore_text 6) = Inr True
   \<and> curpc (snd (run_text sample_engine 10 restore_text 6)) = 3
   \<and> dataptr (snd (run_text sample_engine 10 restore_text 6)) = Some 1
   \<and> getStatement (snd (run_text sample_engine 10 restore_text 6)) = Inr (Some (READ [(''B'', None)]))
   \<and> fst (run_text sample_engine 10 restore_text 7) = Inr True
   \<and> read_var (snd (run_text sample_engine 10 restore_text 7)) ''B'' = JNum (Fin 2)"
  by code_simp

section \<open>GOSUB\<close>

text \<open>
  Claim C9. GOSUB with a label that is not in the label table raises the missing-label
  error after it has pushed the current PC: the return stack is one entry longer than
  before, and the state is not the one before the statement (\<^verbatim>\<open>runtimeError\<close> also takes
  one from the PC).
\<close>

theorem gosub_missing_label:
  assumes "label2pc s = Some m" and "m (ToString J lab) = None" and "program s = Some prog"
  shows "(\<exists>l. gosubLabel J lab s
            = (Inl (EmuHalt (LabelNotFound lab) l),
               s\<lparr>returnStack := returnStack s @ [curpc s], curpc := curpc s - 1\<rparr>))
         \<and> length (returnStack (snd (gosubLabel J lab s))) = length (returnStack s) + 1"
  using assms
  by (simp add: gosubLabel_def gotoLabel_def runtimeError_def getLabelForPC_def Let_def)

theorem gosub_missing_label_witness:
  "(\<exists>m. label2pc (snd (boot sample_engine gosub_program)) = Some m \<and> m ''50'' = None)
   \<and> program (snd (boot sample_engine gosub_program)) = Some gosub_program
   \<and> (\<exists>l. gosubLabel sample_engine (JStr ''50'') (snd (boot sample_engine gosub_program))
            = (Inl (EmuHalt (LabelNotFound (JStr ''50'')) l),
               (snd (boot sample_engine gosub_program))
                 \<lparr>returnStack := returnStack (snd (boot sample_engine gosub_program))
                                   @ [curpc (snd (boot sample_engine gosub_program))],
                  curpc := curpc (snd (boot sample_engine gosub_program)) - 1\<rparr>))
   \<and> length (returnStack (snd (gosubLabel sample_engine (JStr ''50'')
                                  (snd (boot sample_engine gosub_program))))) = 1
   \<and> fst (step sample_engine (snd (boot sample_engine gosub_program)))
       = Inl (EmuHalt (LabelNotFound (JStr ''50'')) (Some ''10''))
   \<and> returnStack (snd (step sample_engine (snd (boot sample_engine gosub_program)))) = [1]"
proof -
  let ?s = "snd (boot sample_engine gosub_program)"
  have "case label2pc ?s of None \<Rightarrow> False | Some m \<Rightarrow> m ''50'' = None" by code_simp
  then obtain m where h1: "label2pc ?s = Some m" and h2: "m ''50'' = None"
    by (cases "label2pc ?s") auto
  from h2 have h2': "m (ToString sample_engine (JStr ''50'')) = None" by simp
  have h3: "program ?s = Some gosub_program" by code_simp
  have h4: "returnStack ?s = []" by code_simp
  have h5: "fst (step sample_engine ?s) = Inl (EmuHalt (LabelNotFound (JStr ''50'')) (Some ''10''))"
    by code_simp
  have h6: "returnStack (snd (step sample_engine ?s)) = [1]" by code_simp
  from gosub_missing_label[OF h1 h2' h3] h1 h2 h3 h4 h5 h6 show ?thesis by simp
qed

section \<open>The function FIX\<close>

lemma checkNum_Fin [simp]: "checkNum J (JNum (Fin x)) s = (Inr (JNum (Fin x)), s)"
  by (simp add: checkNum_def ok_def)

lemma is_double_quarter: "is_double quarter_engine d = (\<exists>k::int. d = of_int k / 4)"
proof
  assume "is_double quarter_engine d"
  then have "d = of_int \<lfloor>4 * d + 1 / 2\<rfloor> / 4"
    by (simp add: is_double_def quarter_engine_def)
  then show "\<exists>k::int. d = of_int k / 4" by blast
next
  assume "\<exists>k::int. d = of_int k / 4"
  then obtain k :: int where k: "d = of_int k / 4" by blast
  have f: "\<lfloor>of_int k + 1 / 2 :: real\<rfloor> = k" by linarith
  from k have "4 * d = of_int k" by simp
  with f have "\<lfloor>4 * d + 1 / 2\<rfloor> = k" by simp
  with k show "is_double quarter_engine d"
    by (simp add: is_double_def quarter_engine_def)
qed

lemma rounds_to_nearest_quarter: "rounds_to_nearest quarter_engine"
proof -
  have z: "is_double quarter_engine 0"
    unfolding is_double_quarter by (rule exI[of _ 0]) simp
  have o: "is_double quarter_engine 1"
    unfolding is_double_quarter by (rule exI[of _ 4]) simp
  have n: "\<exists>y. nearest_double quarter_engine r = Fin y \<and> is_double quarter_engine y \<and>
              (\<forall>d. is_double quarter_engine d \<longrightarrow> \<bar>r - y\<bar> \<le> \<bar>r - d\<bar>)" for r :: real
  proof -
    define m where "m = \<lfloor>4 * r + 1 / 2\<rfloor>"
    have y: "nearest_double quarter_engine r = Fin (of_int m / 4)"
      by (simp add: quarter_engine_def m_def)
    have d: "is_double quarter_engine (of_int m / 4)"
      unfolding is_double_quarter by blast
    have lo: "of_int m \<le> 4 * r + 1 / 2" and hi: "4 * r + 1 / 2 < of_int m + 1"
      unfolding m_def by linarith+
    have near: "\<bar>r - of_int m / 4\<bar> \<le> \<bar>r - of_int k / 4\<bar>" for k :: int
    proof (cases "k = m")
      case True
      then show ?thesis by simp
    next
      case False
      then consider "k \<le> m - 1" | "m + 1 \<le> k" by linarith
      then show ?thesis
      proof cases
        case 1
        then have "(of_int k :: real) \<le> of_int m - 1" by (metis of_int_le_iff of_int_diff of_int_1)
        with lo hi show ?thesis by linarith
      next
        case 2
        then have "(of_int m :: real) + 1 \<le> of_int k" by (metis of_int_le_iff of_int_add of_int_1)
        with lo hi show ?thesis by linarith
      qed
    qed
    have "\<bar>r - of_int m / 4\<bar> \<le> \<bar>r - e\<bar>" if "is_double quarter_engine e" for e
    proof -
      from that obtain k :: int where "e = of_int k / 4"
        unfolding is_double_quarter by blast
      with near[of k] show ?thesis by simp
    qed
    with y d show ?thesis by blast
  qed
  from z o n show ?thesis by (simp add: rounds_to_nearest_def)
qed

lemma FIX_number:
  "FIX J (JNum n) s = checkNum J (JNum (num_sub J n (Math_floor n))) s"
  by (simp add: FIX_def)

text \<open>
  Claim C10, amended. For every finite number \<open>x\<close>, FIX returns the double nearest to \<open>x\<close> minus
  the floor of \<open>x\<close>: a number from 0 to 1, which is \<open>x\<close> minus the floor of \<open>x\<close> itself when that
  is a double. FIX(2.5) and FIX(-2.5) are both 0.5, whereas cutting -2.5 toward zero would
  leave -0.5. For \<^verbatim>\<open>NaN\<close> and the two infinities FIX raises the error of an invalid number.
\<close>

theorem FIX_fraction:
  assumes "rounds_to_nearest J"
  shows "(\<exists>y. FIX J (JNum (Fin x)) s = (Inr (JNum (Fin y)), s)
            \<and> nearest_double J (x - of_int \<lfloor>x\<rfloor>) = Fin y
            \<and> 0 \<le> y \<and> y \<le> 1
            \<and> (\<forall>d. is_double J d \<longrightarrow> \<bar>x - of_int \<lfloor>x\<rfloor> - y\<bar> \<le> \<bar>x - of_int \<lfloor>x\<rfloor> - d\<bar>)
            \<and> (is_double J (x - of_int \<lfloor>x\<rfloor>) \<longrightarrow> y = x - of_int \<lfloor>x\<rfloor>))
       \<and> (is_double J (1 / 2) \<longrightarrow>
            FIX J (JNum (Fin (5 / 2))) s = (Inr (JNum (Fin (1 / 2))), s)
            \<and> FIX J (JNum (Fin (- (5 / 2)))) s = (Inr (JNum (Fin (1 / 2))), s))
       \<and> (- (5 / 2) :: real) - of_int (toward_zero (- (5 / 2))) = - (1 / 2)
       \<and> FIX J (JNum NaN) s = runtimeError InvalidNumber s
       \<and> FIX J (JNum PosInf) s = runtimeError InvalidNumber s
       \<and> FIX J (JNum NegInf) s = runtimeError InvalidNumber s"
proof -
  let ?r = "x - of_int \<lfloor>x\<rfloor>"
  have r: "0 \<le> ?r" "?r < 1" by linarith+
  then have "\<bar>?r\<bar> < 1" by linarith
  moreover have "(1 :: real) \<le> 2 ^ 1023" by (rule one_le_power) simp
  ultimately have "\<bar>?r\<bar> < 2 ^ 1023" by (rule less_le_trans)
  with assms obtain y where y: "nearest_double J ?r = Fin y"
    and near: "\<And>d. is_double J d \<Longrightarrow> \<bar>?r - y\<bar> \<le> \<bar>?r - d\<bar>"
    unfolding rounds_to_nearest_def by blast
  from assms have z: "is_double J 0" and o: "is_double J 1"
    by (simp_all add: rounds_to_nearest_def)
  have fx: "FIX J (JNum (Fin x)) s = (Inr (JNum (Fin y)), s)"
    using y by (simp add: FIX_number num_sub_def)
  from near[OF z] r have y0: "0 \<le> y" by (simp add: abs_if split: if_splits)
  from near[OF o] r have y1: "y \<le> 1" by (simp add: abs_if split: if_splits)
  have exact: "y = ?r" if "is_double J ?r"
    using that y by (simp add: is_double_def)
  have b: "\<lfloor>5 / 2 :: real\<rfloor> = 2" by linarith
  have c: "\<lfloor>- (5 / 2) :: real\<rfloor> = - 3" by linarith
  have d: "\<lceil>- (5 / 2) :: real\<rceil> = - 2" by linarith
  have half: "FIX J (JNum (Fin (5 / 2))) s = (Inr (JNum (Fin (1 / 2))), s)"
    "FIX J (JNum (Fin (- (5 / 2)))) s = (Inr (JNum (Fin (1 / 2))), s)"
    if "is_double J (1 / 2)"
    using that b c by (simp_all add: FIX_number num_sub_def is_double_def)
  have t: "(- (5 / 2) :: real) - of_int (toward_zero (- (5 / 2))) = - (1 / 2)"
    using d by (simp add: toward_zero_def)
  have inf: "FIX J (JNum NaN) s = runtimeError InvalidNumber s"
    "FIX J (JNum PosInf) s = runtimeError InvalidNumber s"
    "FIX J (JNum NegInf) s = runtimeError InvalidNumber s"
    by (simp_all add: FIX_number num_sub_def checkNum_def)
  from fx y y0 y1 near exact half t inf show ?thesis by blast
qed

text \<open>
  Claim C10 as it is written speaks of every number. At \<^verbatim>\<open>-Infinity\<close>, which \<^verbatim>\<open>checkNum\<close> lets
  pass as the result of an operator, and at \<^verbatim>\<open>Infinity\<close> and \<^verbatim>\<open>NaN\<close>, FIX returns no number: it
  halts the run.
\<close>

theorem FIX_of_infinity:
  "fst (FIX sample_engine (JNum NegInf) (snd (boot sample_engine gosub_program)))
     = Inl (EmuHalt InvalidNumber (Some ''?''))
   \<and> fst (FIX sample_engine (JNum PosInf) (snd (boot sample_engine gosub_program)))
     = Inl (EmuHalt InvalidNumber (Some ''?''))
   \<and> fst (FIX sample_engine (JNum NaN) (snd (boot sample_engine gosub_program)))
     = Inl (EmuHalt InvalidNumber (Some ''?''))
   \<and> fst (checkNum sample_engine (JNum NegInf) (snd (boot sample_engine gosub_program)))
     = Inr (JNum NegInf)"
  by code_simp


text \<open>
  The witness: in the engine whose doubles are the multiples of \<open>1/4\<close>, FIX(-0.1) is 1, the
  double nearest to 0.9.
\<close>

theorem FIX_fraction_witness:
  "rounds_to_nearest quarter_engine
   \<and> FIX quarter_engine (JNum (Fin (- (1 / 10)))) new_runtime = (Inr (JNum (Fin 1)), new_runtime)
   \<and> FIX quarter_engine (JNum (Fin (5 / 2))) new_runtime = (Inr (JNum (Fin (1 / 2))), new_runtime)
   \<and> FIX quarter_engine (JNum (Fin (- (5 / 2)))) new_runtime
       = (Inr (JNum (Fin (1 / 2))), new_runtime)"
proof -
  note t = FIX_fraction[OF rounds_to_nearest_quarter, of "- (1 / 10)" new_runtime]
  have f: "\<lfloor>- (1 / 10) :: real\<rfloor> = - 1" by linarith
  have g: "\<lfloor>41 / 10 :: real\<rfloor> = 4" by linarith
  have n: "nearest_double quarter_engine (- (1 / 10) - of_int \<lfloor>- (1 / 10) :: real\<rfloor>) = Fin 1"
    using f g by (simp add: quarter_engine_def)
  have h: "is_double quarter_engine (1 / 2)"
    unfolding is_double_quarter by (rule exI[of _ 2]) simp
  from t n h rounds_to_nearest_quarter show ?thesis by auto
qed

section \<open>What a successful evaluation leaves unchanged\<close>

text \<open>
  Compiling and evaluating an expression change the state only when they raise an error
  (\<^verbatim>\<open>runtimeError\<close> takes one from the PC).
\<close>

lemma runtimeError_Inr [simp]: "runtimeError m s \<noteq> (Inr v, s')"
  by (simp add: runtimeError_def Let_def split: sum.splits)










section \<open>FOR and NEXT\<close>



text \<open>NEXT on numbers.\<close>

lemma js_plus_Fin [simp]:
  "js_plus J (JNum (Fin a)) (JNum (Fin b)) = JNum (nearest_double J (a + b))"
  by (simp add: js_plus_def is_string_def)

lemma js_lt_num [simp]: "js_lt J (JNum a) (JNum b) = num_lt a b"
  by (simp add: js_lt_def)

lemma js_gt_num [simp]: "js_gt J (JNum a) (JNum b) = num_lt b a"
  by (simp add: js_gt_def)

lemma js_ge_Fin [simp]: "js_ge J (JNum (Fin a)) (JNum (Fin b)) = (b \<le> a)"
  by (auto simp: js_ge_def js_le_def num_le_def)

lemma for_three_run:
  "fst (parse_program sample_engine 10 for_three_text) = Inr for_three_program"
  "printed (snd (run_program sample_engine for_three_program 7))
     = [JStr '' 1 '', JStr [CHR 0x0A], JStr '' 2 '', JStr [CHR 0x0A], JStr '' 3 '', JStr [CHR 0x0A]]"
  "forLoops (snd (run_program sample_engine for_three_program 7)) = []"
  "curpc (snd (run_program sample_engine for_three_program 7)) = 3"
  "fst (run_program sample_engine for_three_program 8) = Inr False"
  "printed (snd (run_program sample_engine for_three_program 8))
     = [JStr '' 1 '', JStr [CHR 0x0A], JStr '' 2 '', JStr [CHR 0x0A], JStr '' 3 '', JStr [CHR 0x0A]]"
  by code_simp+

lemma for_down_run:
  "fst (parse_program sample_engine 10 for_down_text) = Inr for_down_program"
  "printed (snd (run_program sample_engine for_down_program 11))
     = [JStr '' 5 '', JStr [CHR 0x0A], JStr '' 4 '', JStr [CHR 0x0A], JStr '' 3 '', JStr [CHR 0x0A],
        JStr '' 2 '', JStr [CHR 0x0A], JStr '' 1 '', JStr [CHR 0x0A]]"
  "forLoops (snd (run_program sample_engine for_down_program 11)) = []"
  "read_var (snd (run_program sample_engine for_down_program 11)) ''I'' = JNum (Fin 0)"
  "curpc (snd (run_program sample_engine for_down_program 11)) = 3"
  "fst (run_program sample_engine for_down_program 12) = Inr False"
  "printed (snd (run_program sample_engine for_down_program 12))
     = [JStr '' 5 '', JStr [CHR 0x0A], JStr '' 4 '', JStr [CHR 0x0A], JStr '' 3 '', JStr [CHR 0x0A],
        JStr '' 2 '', JStr [CHR 0x0A], JStr '' 1 '', JStr [CHR 0x0A]]"
  by code_simp+

text \<open>
  Claim C3, amended. A NEXT statement whose loop variable, step and target are finite
  numbers adds the step to the variable: the new value \<open>w\<close> is the sum as the engine rounds
  it. When \<open>w\<close> has passed the target (above it for a step that is not negative, below it for
  a negative step) it pops the loop and the PC goes on to the next statement; otherwise it
  sets the PC to the value the loop entry holds, which is the PC of the statement after the
  FOR (the first statement of the body), not the PC of the FOR statement. This holds the
  first time the NEXT is executed, when its slot is empty, and every later time, when the
  slot holds its compiled function. The loop \<^verbatim>\<open>FOR I=1 TO 3\<close> prints 1, 2, 3 in that order and
  then falls through: the eighth call of \<^verbatim>\<open>step\<close> finds no statement. The loop
  \<^verbatim>\<open>FOR I=5 TO 1 STEP -1\<close> prints 5, 4, 3, 2, 1 and falls through with \<open>I = 0\<close>.
\<close>

theorem next_statement:
  assumes "running s"
    and "getStatement s = Inr (Some (NEXT lexpr))"
    and "compiled s (nat (curpc s)) = None
         \<or> compiled s (nat (curpc s))
             = Some (RunNext (if lexpr = None then None else Some (for_name fl)))"
    and "forLoops s = fl # rest"
    and "lexpr = None \<or> lexpr = Some (IndOp (for_name fl) args)"
    and "read_var s (for_name fl) = JNum (Fin v)"
    and "for_step fl = JNum (Fin d)"
    and "for_targ fl = JNum (Fin t)"
  shows "step J s =
           (Inr True,
            if (if 0 \<le> d then num_lt (Fin t) (nearest_double J (v + d))
                else num_lt (nearest_double J (v + d)) (Fin t))
            then s\<lparr>curpc := curpc s + 1,
                   compiled := (compiled s)(nat (curpc s) \<mapsto>
                     RunNext (if lexpr = None then None else Some (for_name fl))),
                   vars := (vars s)(for_name fl \<mapsto> JNum (nearest_double J (v + d))),
                   forLoops := rest\<rparr>
            else s\<lparr>curpc := for_pc fl,
                   compiled := (compiled s)(nat (curpc s) \<mapsto>
                     RunNext (if lexpr = None then None else Some (for_name fl))),
                   vars := (vars s)(for_name fl \<mapsto> JNum (nearest_double J (v + d)))\<rparr>)
         \<and> fst (parse_program sample_engine 10 for_three_text) = Inr for_three_program
         \<and> printed (snd (run_program sample_engine for_three_program 7))
             = [JStr '' 1 '', JStr [CHR 0x0A], JStr '' 2 '', JStr [CHR 0x0A],
                JStr '' 3 '', JStr [CHR 0x0A]]
         \<and> forLoops (snd (run_program sample_engine for_three_program 7)) = []
         \<and> curpc (snd (run_program sample_engine for_three_program 7)) = 3
         \<and> fst (run_program sample_engine for_three_program 8) = Inr False
         \<and> printed (snd (run_program sample_engine for_three_program 8))
             = [JStr '' 1 '', JStr [CHR 0x0A], JStr '' 2 '', JStr [CHR 0x0A],
                JStr '' 3 '', JStr [CHR 0x0A]]
         \<and> fst (parse_program sample_engine 10 for_down_text) = Inr for_down_program
         \<and> printed (snd (run_program sample_engine for_down_program 11))
             = [JStr '' 5 '', JStr [CHR 0x0A], JStr '' 4 '', JStr [CHR 0x0A],
                JStr '' 3 '', JStr [CHR 0x0A], JStr '' 2 '', JStr [CHR 0x0A],
                JStr '' 1 '', JStr [CHR 0x0A]]
         \<and> forLoops (snd (run_program sample_engine for_down_program 11)) = []
         \<and> read_var (snd (run_program sample_engine for_down_program 11)) ''I'' = JNum (Fin 0)
         \<and> curpc (snd (run_program sample_engine for_down_program 11)) = 3
         \<and> fst (run_program sample_engine for_down_program 12) = Inr False
         \<and> printed (snd (run_program sample_engine for_down_program 12))
             = [JStr '' 5 '', JStr [CHR 0x0A], JStr '' 4 '', JStr [CHR 0x0A],
                JStr '' 3 '', JStr [CHR 0x0A], JStr '' 2 '', JStr [CHR 0x0A],
                JStr '' 1 '', JStr [CHR 0x0A]]"
proof -
  let ?nm = "if lexpr = None then None else Some (for_name fl)"
  let ?w = "nearest_double J (v + d)"
  let ?s1 = "s\<lparr>curpc := curpc s + 1, compiled := (compiled s)(nat (curpc s) \<mapsto> RunNext ?nm)\<rparr>"
  let ?passed = "if 0 \<le> d then num_lt (Fin t) ?w else num_lt ?w (Fin t)"
  from assms(5) have nm: "(case lexpr of Some (IndOp name args) \<Rightarrow> Some name | _ \<Rightarrow> None) = ?nm"
    by auto
  have c: "compileStatement (nat (curpc s)) (NEXT lexpr) (s\<lparr>curpc := curpc s + 1\<rparr>) = (Inr (), ?s1)"
  proof (cases "compiled s (nat (curpc s))")
    case None
    with nm show ?thesis
      by (simp add: compileStatement_def do__NEXT_def bnd_def ok_def)
  next
    case (Some f)
    with assms(3) have f: "compiled s (nat (curpc s)) = Some (RunNext ?nm)" by simp
    then have "(compiled s)(nat (curpc s) \<mapsto> RunNext ?nm) = compiled s"
      by (rule map_upd_triv)
    then have "?s1 = s\<lparr>curpc := curpc s + 1\<rparr>" by simp
    moreover from f have "compileStatement (nat (curpc s)) (NEXT lexpr) (s\<lparr>curpc := curpc s + 1\<rparr>)
        = (Inr (), s\<lparr>curpc := curpc s + 1\<rparr>)"
      by (simp add: compileStatement_def ok_def)
    ultimately show ?thesis by simp
  qed
  have rv: "read_var ?s1 (for_name fl) = JNum (Fin v)"
    using assms(6) by (simp add: read_var_def)
  have fls: "forLoops ?s1 = fl # rest"
    using assms(4) by simp
  have same: "(case ?nm of None \<Rightarrow> None
               | Some n \<Rightarrow> if n \<noteq> [] \<and> for_name fl \<noteq> n then Some n else None) = None"
    by simp
  have n: "nextForLoop J ?nm ?s1 =
      (Inr (), if ?passed
               then ?s1\<lparr>vars := (vars ?s1)(for_name fl \<mapsto> JNum ?w),
                        forLoops := rest\<rparr>
               else ?s1\<lparr>vars := (vars ?s1)(for_name fl \<mapsto> JNum ?w),
                        curpc := for_pc fl\<rparr>)"
    unfolding nextForLoop_def fls list.case for_next_def same option.case rv Let_def
    using assms(4,7,8) by (simp add: ok_def)
  have e: "executeStatement J (nat (curpc s)) ?s1 = nextForLoop J ?nm ?s1"
    by (simp add: executeStatement_def run_def)
  have st: "step J s =
      (case nextForLoop J ?nm ?s1 of (Inl err, s2) \<Rightarrow> (Inl err, s2)
       | (Inr u, s2) \<Rightarrow> (Inr (running s2), s2))"
    using assms(1,2) unfolding step_def
    by (simp add: c e bnd_def ok_def split: prod.splits sum.splits)
  have "step J s =
           (Inr True,
            if ?passed
            then s\<lparr>curpc := curpc s + 1,
                   compiled := (compiled s)(nat (curpc s) \<mapsto> RunNext ?nm),
                   vars := (vars s)(for_name fl \<mapsto> JNum ?w),
                   forLoops := rest\<rparr>
            else s\<lparr>curpc := for_pc fl,
                   compiled := (compiled s)(nat (curpc s) \<mapsto> RunNext ?nm),
                   vars := (vars s)(for_name fl \<mapsto> JNum ?w)\<rparr>)"
  proof (cases ?passed)
    case True
    with n have "nextForLoop J ?nm ?s1 =
      (Inr (), ?s1\<lparr>vars := (vars ?s1)(for_name fl \<mapsto> JNum ?w), forLoops := rest\<rparr>)"
      by simp
    with st assms(1) have "step J s =
           (Inr True,
            s\<lparr>curpc := curpc s + 1,
              compiled := (compiled s)(nat (curpc s) \<mapsto> RunNext ?nm),
              vars := (vars s)(for_name fl \<mapsto> JNum ?w),
              forLoops := rest\<rparr>)"
      by simp
    then show ?thesis unfolding if_P[OF True] .
  next
    case False
    with n have "nextForLoop J ?nm ?s1 =
      (Inr (), ?s1\<lparr>vars := (vars ?s1)(for_name fl \<mapsto> JNum ?w), curpc := for_pc fl\<rparr>)"
      by simp
    with st assms(1) have "step J s =
           (Inr True,
            s\<lparr>curpc := for_pc fl,
              compiled := (compiled s)(nat (curpc s) \<mapsto> RunNext ?nm),
              vars := (vars s)(for_name fl \<mapsto> JNum ?w)\<rparr>)"
      by simp
    then show ?thesis unfolding if_not_P[OF False] .
  qed
  then show ?thesis
    using for_three_run for_down_run by simp
qed

text \<open>
  Claim C3 as it is written has NEXT rewind the PC to the PC of the FOR statement. In the
  loop \<^verbatim>\<open>FOR I=1 TO 3\<close> the FOR statement is at PC 0; after the first NEXT (the third step) the
  loop is still open and the PC is 1.
\<close>

theorem next_rewinds_past_for:
  "fst (parse_program sample_engine 10 for_three_text) = Inr for_three_program
   \<and> allstmts (snd (run_program sample_engine for_three_program 0))
     = Some [FOR (''I'', None) (Literal (JNum (Fin 1))) (Literal (JNum (Fin 3))) None,
             PRINT [IndOp ''I'' None, Literal (JStr [CHR 0x0A])],
             NEXT (Some (IndOp ''I'' None))]
   \<and> curpc (snd (run_program sample_engine for_three_program 0)) = 0
   \<and> curpc (snd (run_program sample_engine for_three_program 2)) = 2
   \<and> fst (run_program sample_engine for_three_program 3) = Inr True
   \<and> read_var (snd (run_program sample_engine for_three_program 3)) ''I'' = JNum (Fin 2)
   \<and> forLoops (snd (run_program sample_engine for_three_program 3))
       = [\<lparr>for_pc = 1, for_name = ''I'', for_targ = JNum (Fin 3), for_step = JNum (Fin 1)\<rparr>]
   \<and> curpc (snd (run_program sample_engine for_three_program 3)) = 1
   \<and> curpc (snd (run_program sample_engine for_three_program 3))
       \<noteq> curpc (snd (run_program sample_engine for_three_program 0))"
  by code_simp

text \<open>
  The witness applies the theorem to the first NEXT of \<^verbatim>\<open>FOR I=1 TO 3\<close>, whose slot is empty,
  and to the fourth NEXT of \<^verbatim>\<open>FOR I=5 TO 1 STEP -1\<close>, whose slot is filled and whose step is
  negative.
\<close>

theorem next_statement_witness:
  "running (snd (run_program sample_engine for_three_program 2))
   \<and> getStatement (snd (run_program sample_engine for_three_program 2))
       = Inr (Some (NEXT (Some (IndOp ''I'' None))))
   \<and> compiled (snd (run_program sample_engine for_three_program 2))
       (nat (curpc (snd (run_program sample_engine for_three_program 2)))) = None
   \<and> forLoops (snd (run_program sample_engine for_three_program 2))
       = [\<lparr>for_pc = 1, for_name = ''I'', for_targ = JNum (Fin 3), for_step = JNum (Fin 1)\<rparr>]
   \<and> read_var (snd (run_program sample_engine for_three_program 2)) ''I'' = JNum (Fin 1)
   \<and> fst (step sample_engine (snd (run_program sample_engine for_three_program 2))) = Inr True
   \<and> curpc (snd (step sample_engine (snd (run_program sample_engine for_three_program 2)))) = 1
   \<and> vars (snd (step sample_engine (snd (run_program sample_engine for_three_program 2)))) ''I''
       = Some (JNum (Fin 2))
   \<and> running (snd (run_program sample_engine for_down_program 8))
   \<and> getStatement (snd (run_program sample_engine for_down_program 8))
       = Inr (Some (NEXT (Some (IndOp ''I'' None))))
   \<and> compiled (snd (run_program sample_engine for_down_program 8))
       (nat (curpc (snd (run_program sample_engine for_down_program 8))))
       = Some (RunNext (Some ''I''))
   \<and> forLoops (snd (run_program sample_engine for_down_program 8))
       = [\<lparr>for_pc = 1, for_name = ''I'', for_targ = JNum (Fin 1), for_step = JNum (Fin (- 1))\<rparr>]
   \<and> read_var (snd (run_program sample_engine for_down_program 8)) ''I'' = JNum (Fin 2)
   \<and> fst (step sample_engine (snd (run_program sample_engine for_down_program 8))) = Inr True
   \<and> curpc (snd (step sample_engine (snd (run_program sample_engine for_down_program 8)))) = 1
   \<and> vars (snd (step sample_engine (snd (run_program sample_engine for_down_program 8)))) ''I''
       = Some (JNum (Fin 1))
   \<and> forLoops (snd (step sample_engine (snd (run_program sample_engine for_down_program 8))))
       = [\<lparr>for_pc = 1, for_name = ''I'', for_targ = JNum (Fin 1), for_step = JNum (Fin (- 1))\<rparr>]"
proof -
  let ?s = "snd (run_program sample_engine for_three_program 2)"
  let ?fl = "\<lparr>for_pc = 1, for_name = ''I'', for_targ = JNum (Fin 3), for_step = JNum (Fin 1)\<rparr>"
  let ?q = "snd (run_program sample_engine for_down_program 8)"
  let ?gl = "\<lparr>for_pc = 1, for_name = ''I'', for_targ = JNum (Fin 1), for_step = JNum (Fin (- 1))\<rparr>"
  have h1: "running ?s" by code_simp
  have h2: "getStatement ?s = Inr (Some (NEXT (Some (IndOp ''I'' None))))" by code_simp
  have h3: "compiled ?s (nat (curpc ?s)) = None" by code_simp
  have h4: "forLoops ?s = ?fl # []" by code_simp
  have h5: "Some (IndOp ''I'' None) = None \<or> Some (IndOp ''I'' None) = Some (IndOp (for_name ?fl) None)"
    by simp
  have h6: "read_var ?s (for_name ?fl) = JNum (Fin 1)" by code_simp
  have h7: "for_step ?fl = JNum (Fin 1)" and h8: "for_targ ?fl = JNum (Fin 3)" by simp_all
  have r2: "nearest_double sample_engine (1 + 1) = Fin 2" by code_simp
  have k1: "running ?q" by code_simp
  have k2: "getStatement ?q = Inr (Some (NEXT (Some (IndOp ''I'' None))))" by code_simp
  have k3: "compiled ?q (nat (curpc ?q)) = Some (RunNext (Some ''I''))" by code_simp
  have k4: "forLoops ?q = ?gl # []" by code_simp
  have k5: "Some (IndOp ''I'' None) = None \<or> Some (IndOp ''I'' None) = Some (IndOp (for_name ?gl) None)"
    by simp
  have k6: "read_var ?q (for_name ?gl) = JNum (Fin 2)" by code_simp
  have k7: "for_step ?gl = JNum (Fin (- 1))" and k8: "for_targ ?gl = JNum (Fin 1)" by simp_all
  have r1: "nearest_double sample_engine (2 + - 1) = Fin 1" by code_simp
  from k3 have k3': "compiled ?q (nat (curpc ?q)) = None
         \<or> compiled ?q (nat (curpc ?q))
             = Some (RunNext (if Some (IndOp ''I'' None) = None then None else Some (for_name ?gl)))"
    by simp
  from h3 have h3': "compiled ?s (nat (curpc ?s)) = None
         \<or> compiled ?s (nat (curpc ?s))
             = Some (RunNext (if Some (IndOp ''I'' None) = None then None else Some (for_name ?fl)))"
    by simp
  from next_statement[OF h1 h2 h3' h4 h5 h6 h7 h8, of sample_engine] r2
  have "step sample_engine ?s =
          (Inr True,
           ?s\<lparr>curpc := 1,
               compiled := (compiled ?s)(nat (curpc ?s) \<mapsto> RunNext (Some ''I'')),
               vars := (vars ?s)(''I'' \<mapsto> JNum (Fin 2))\<rparr>)"
    by simp
  then have a: "fst (step sample_engine ?s) = Inr True"
    "curpc (snd (step sample_engine ?s)) = 1"
    "vars (snd (step sample_engine ?s)) ''I'' = Some (JNum (Fin 2))"
    by simp_all
  from next_statement[OF k1 k2 k3' k4 k5 k6 k7 k8, of sample_engine] r1
  have "step sample_engine ?q =
          (Inr True,
           ?q\<lparr>curpc := 1,
               compiled := (compiled ?q)(nat (curpc ?q) \<mapsto> RunNext (Some ''I'')),
               vars := (vars ?q)(''I'' \<mapsto> JNum (Fin 1))\<rparr>)"
    by simp
  then have b: "fst (step sample_engine ?q) = Inr True"
    "curpc (snd (step sample_engine ?q)) = 1"
    "vars (snd (step sample_engine ?q)) ''I'' = Some (JNum (Fin 1))"
    "forLoops (snd (step sample_engine ?q)) = forLoops ?q"
    by simp_all
  with k4 have b4: "forLoops (snd (step sample_engine ?q)) = [?gl]" by simp
  from h1 h2 h3 h4 h6 a k1 k2 k3 k4 k6 b(1,2,3) b4 show ?thesis by simp
qed

section \<open>INPUT\<close>

lemma lexprs2js_scalars:
  "\<forall>a\<in>set args. snd a = None \<and> fst a \<notin> defs s
   \<Longrightarrow> lexprs2js args s = (Inr (scalar_targets args), s)"
proof (induction args)
  case Nil
  then show ?case by (simp add: lexprs2js_def scalar_targets_def ok_def)
next
  case (Cons a args)
  then have ih: "mapR (\<lambda>arg s1. bnd (expr2js without_check (of_indop arg) s1)
                                   (\<lambda>lexpr. ok (lexpr, fst arg))) args s
                 = (Inr (scalar_targets args), s)"
    by (simp add: lexprs2js_def)
  from Cons.prems have a: "snd a = None" "fst a \<notin> defs s" by simp_all
  then have "bnd (expr2js without_check (of_indop a) s) (\<lambda>lexpr. ok (lexpr, fst a))
             = (Inr (JVar (fst a), fst a), s)"
    by (simp add: of_indop_def without_check_def bnd_def ok_def)
  with ih show ?case
    by (simp add: lexprs2js_def scalar_targets_def)
qed

lemma setvals_loop_scalars:
  "\<exists>V. setvals_loop J (scalar_targets args) k vals valid s
         = (Inr (valid \<and> (\<forall>j<length args.
                             isValid (convert J (fst (args ! j)) (nth_val vals (k + j))))),
            s\<lparr>vars := V\<rparr>)"
proof (induction args arbitrary: k valid s)
  case Nil
  show ?case
    by (rule exI[of _ "vars s"]) (simp add: scalar_targets_def ok_def)
next
  case (Cons a args)
  let ?v = "convert J (fst a) (nth_val vals k)"
  from Cons[of "k + 1" "valid \<and> isValid ?v" "s\<lparr>vars := (vars s)(fst a \<mapsto> ?v)\<rparr>"]
  obtain V where
    "setvals_loop J (scalar_targets args) (k + 1) vals (valid \<and> isValid ?v)
        (s\<lparr>vars := (vars s)(fst a \<mapsto> ?v)\<rparr>)
     = (Inr ((valid \<and> isValid ?v)
             \<and> (\<forall>j<length args.
                   isValid (convert J (fst (args ! j)) (nth_val vals (k + 1 + j))))),
        s\<lparr>vars := V\<rparr>)"
    by auto
  moreover have "((valid \<and> isValid ?v)
             \<and> (\<forall>j<length args.
                   isValid (convert J (fst (args ! j)) (nth_val vals (k + 1 + j)))))
        = (valid \<and> (\<forall>j<length (a # args).
                        isValid (convert J (fst ((a # args) ! j)) (nth_val vals (k + j)))))"
    by (auto simp: less_Suc_eq_0_disj)
  ultimately show ?case
    by (auto simp: scalar_targets_def Let_def)
qed

text \<open>
  Claim C5. Let an INPUT statement whose targets are plain variables be at the current PC.
  \<^verbatim>\<open>step\<close> asks the host for input and pauses with the PC after the statement. When the
  host supplies values of which one does not convert to a valid value of its variable, the
  completion raises no error: it takes one from the PC, which is at the INPUT statement
  again, sets the runtime running and resumes. The next \<^verbatim>\<open>step\<close> then executes the same INPUT
  statement and asks the host for input a second time.
\<close>

theorem input_retry:
  assumes "running s"
    and "getStatement s = Inr (Some (INPUT (Literal pv) args))"
    and "compiled s (nat (curpc s)) = None"
    and "\<forall>a\<in>set args. snd a = None \<and> fst a \<notin> defs s"
    and "i < length args"
    and "\<not> isValid (convert J (fst (args ! i)) (nth_val vals i))"
  shows "\<exists>s1 s2 s3.
           step J s = (Inr False, s1)
         \<and> \<not> running s1
         \<and> curpc s1 = curpc s + 1
         \<and> input_calls s1 = input_calls s @ [(JSON_literal pv, length args)]
         \<and> compiled s1 (nat (curpc s))
             = Some (RunInput (JLit (JSON_literal pv)) (scalar_targets args))
         \<and> input_then J (scalar_targets args) vals s1 = (Inr (), s2)
         \<and> curpc s2 = curpc s
         \<and> getStatement s2 = Inr (Some (INPUT (Literal pv) args))
         \<and> running s2
         \<and> resumed s2 = resumed s + 1
         \<and> step J s2 = (Inr False, s3)
         \<and> curpc s3 = curpc s + 1
         \<and> input_calls s3
             = input_calls s @ [(JSON_literal pv, length args), (JSON_literal pv, length args)]"
proof -
  let ?pc = "nat (curpc s)"
  let ?f = "RunInput (JLit (JSON_literal pv)) (scalar_targets args)"
  let ?s0 = "s\<lparr>curpc := curpc s + 1\<rparr>"
  let ?sc = "?s0\<lparr>compiled := (compiled s)(?pc \<mapsto> ?f)\<rparr>"
  let ?s1 = "?sc\<lparr>running := False,
                  input_calls := input_calls s @ [(JSON_literal pv, length args)]\<rparr>"
  have len: "length (scalar_targets args) = length args"
    by (simp add: scalar_targets_def)
  from assms(4) have "lexprs2js args ?s0 = (Inr (scalar_targets args), ?s0)"
    by (intro lexprs2js_scalars) simp
  then have d: "do__INPUT (Literal pv) args ?s0 = (Inr ?f, ?s0)"
    by (simp add: do__INPUT_def bnd_def ok_def)
  with assms(3) have c: "compileStatement ?pc (INPUT (Literal pv) args) ?s0 = (Inr (), ?sc)"
    by (simp add: compileStatement_def bnd_def ok_def)
  have e: "executeStatement J ?pc ?sc = (Inr (), ?s1)"
    by (simp add: executeStatement_def run_def run_input_def bnd_def ok_def len)
  from assms(1,2) c e have st1: "step J s = (Inr False, ?s1)"
    by (simp add: step_def bnd_def ok_def)
  from assms(5,6) have inv:
    "(True \<and> (\<forall>j<length args. isValid (convert J (fst (args ! j)) (nth_val vals (0 + j)))))
     = False"
    by auto
  from setvals_loop_scalars[of J args 0 vals True ?s1]
  obtain V where sl0: "setvals_loop J (scalar_targets args) 0 vals True ?s1
      = (Inr (True \<and> (\<forall>j<length args.
                         isValid (convert J (fst (args ! j)) (nth_val vals (0 + j))))),
         ?s1\<lparr>vars := V\<rparr>)"
    by blast
  from sl0 have sl: "setvals_loop J (scalar_targets args) 0 vals True ?s1
                      = (Inr False, ?s1\<lparr>vars := V\<rparr>)"
    unfolding inv .
  let ?s2 = "?s1\<lparr>vars := V, curpc := curpc s, running := True, resumed := resumed s + 1\<rparr>"
  from sl have it: "input_then J (scalar_targets args) vals ?s1 = (Inr (), ?s2)"
    by (simp add: input_then_def bnd_def ok_def Let_def)
  have "getStatement ?s2 = getStatement s"
    by (simp add: getStatement_def split: option.splits)
  with assms(2) have g2: "getStatement ?s2 = Inr (Some (INPUT (Literal pv) args))"
    by simp
  let ?s2a = "?s2\<lparr>curpc := curpc s + 1\<rparr>"
  let ?s3 = "?s2a\<lparr>running := False,
                   input_calls := input_calls s @ [(JSON_literal pv, length args),
                                                   (JSON_literal pv, length args)]\<rparr>"
  have c2: "compileStatement ?pc (INPUT (Literal pv) args) ?s2a = (Inr (), ?s2a)"
    by (simp add: compileStatement_def ok_def)
  have e2: "executeStatement J ?pc ?s2a = (Inr (), ?s3)"
    by (simp add: executeStatement_def run_def run_input_def bnd_def ok_def len)
  from g2 c2 e2 have st2: "step J ?s2 = (Inr False, ?s3)"
    by (simp add: step_def bnd_def ok_def)
  show ?thesis
    apply (rule exI[of _ ?s1])
    apply (rule exI[of _ ?s2])
    apply (rule exI[of _ ?s3])
    using st1 it g2 st2 apply simp
    done
qed

theorem input_retry_witness:
  "fst (parse_program sample_engine 10 input_text) = Inr input_program
   \<and> running (snd (run_program sample_engine input_program 0))
   \<and> getStatement (snd (run_program sample_engine input_program 0))
       = Inr (Some (INPUT (Literal (JStr [])) [(''A'', None)]))
   \<and> curpc (snd (run_program sample_engine input_program 0)) = 0
   \<and> compiled (snd (run_program sample_engine input_program 0)) 0 = None
   \<and> ''A'' \<notin> defs (snd (run_program sample_engine input_program 0))
   \<and> convert sample_engine ''A'' (nth_val [''X''] 0) = JNum NaN
   \<and> (\<exists>s1 s2 s3.
         step sample_engine (snd (run_program sample_engine input_program 0)) = (Inr False, s1)
       \<and> curpc s1 = 1
       \<and> input_then sample_engine [(JVar ''A'', ''A'')] [''X''] s1 = (Inr (), s2)
       \<and> curpc s2 = 0
       \<and> running s2
       \<and> step sample_engine s2 = (Inr False, s3)
       \<and> input_calls s3 = [(JStr [], 1), (JStr [], 1)])
   \<and> curpc (snd (input_then sample_engine [(JVar ''A'', ''A'')] [''5'']
               (snd (run_program sample_engine input_program 1)))) = 1
   \<and> read_var (snd (input_then sample_engine [(JVar ''A'', ''A'')] [''5'']
                  (snd (run_program sample_engine input_program 1)))) ''A'' = JNum (Fin 5)"
proof -
  let ?s = "snd (run_program sample_engine input_program 0)"
  let ?args = "[(''A'', None :: expr list option)]"
  have p: "fst (parse_program sample_engine 10 input_text) = Inr input_program" by code_simp
  have h1: "running ?s" by code_simp
  have h2: "getStatement ?s = Inr (Some (INPUT (Literal (JStr [])) ?args))" by code_simp
  have c0: "curpc ?s = 0" by code_simp
  have h3': "compiled ?s 0 = None" by code_simp
  with c0 have h3: "compiled ?s (nat (curpc ?s)) = None" by simp
  have nd: "''A'' \<notin> defs ?s" by code_simp
  then have h4: "\<forall>a\<in>set ?args. snd a = None \<and> fst a \<notin> defs ?s" by simp
  have h5: "0 < length ?args" by simp
  have cv: "convert sample_engine ''A'' (nth_val [''X''] 0) = JNum NaN" by code_simp
  then have h6: "\<not> isValid (convert sample_engine (fst (?args ! 0)) (nth_val [''X''] 0))"
    by (simp add: isValid_def)
  have ic: "input_calls ?s = []" by code_simp
  have ok5: "curpc (snd (input_then sample_engine [(JVar ''A'', ''A'')] [''5'']
               (snd (run_program sample_engine input_program 1)))) = 1"
    "read_var (snd (input_then sample_engine [(JVar ''A'', ''A'')] [''5'']
                  (snd (run_program sample_engine input_program 1)))) ''A'' = JNum (Fin 5)"
    by code_simp+
  from input_retry[OF h1 h2 h3 h4 h5 h6]
  obtain s1 s2 s3 where
    "step sample_engine ?s = (Inr False, s1)"
    "curpc s1 = curpc ?s + 1"
    "input_then sample_engine (scalar_targets ?args) [''X''] s1 = (Inr (), s2)"
    "curpc s2 = curpc ?s"
    "running s2"
    "step sample_engine s2 = (Inr False, s3)"
    "input_calls s3
       = input_calls ?s @ [(JSON_literal (JStr []), length ?args),
                           (JSON_literal (JStr []), length ?args)]"
    by blast
  with c0 ic have
    "\<exists>s1 s2 s3.
         step sample_engine ?s = (Inr False, s1)
       \<and> curpc s1 = 1
       \<and> input_then sample_engine [(JVar ''A'', ''A'')] [''X''] s1 = (Inr (), s2)
       \<and> curpc s2 = 0
       \<and> running s2
       \<and> step sample_engine s2 = (Inr False, s3)
       \<and> input_calls s3 = [(JStr [], 1), (JStr [], 1)]"
    by (auto simp: scalar_targets_def JSON_literal_def)
  with p h1 h2 c0 h3' nd cv ok5 show ?thesis by blast
qed

section \<open>Printing numbers\<close>

lemma number_valueToString_samples:
  "number_valueToString sample_engine (Fin 123456789012345) = Inr '' 1.23457e+14 ''"
  "number_valueToString sample_engine (Fin (314 / 100)) = Inr '' 3.14 ''"
  "number_valueToString sample_engine (Fin (- (314 / 100))) = Inr ''-3.14 ''"
  "number_valueToString sample_engine (Fin (5 / 10)) = Inr '' .5 ''"
  "number_valueToString sample_engine (Fin (- (5 / 10))) = Inr ''-.5 ''"
  by code_simp+

text \<open>
  Claim C6 says that the printed form of a number has its exponent marker in upper case.
  The code puts only the first representation in upper case: when that one is longer than
  11 characters, the result comes from \<^verbatim>\<open>toPrecision\<close> as it is. The number 123456789012345
  has 15 digits; the precisions 11 to 7 give more than 11 characters, precision 6 gives
  \<^verbatim>\<open>1.23457e+14\<close>, and the printed form keeps the lower-case marker. The other parts of the
  claim hold at 3.14, -3.14, 0.5 and -0.5.
\<close>

theorem valueToString_lowercase_exponent:
  "toUpperCase sample_engine (numToString sample_engine 123456789012345) = ''123456789012345''
   \<and> toPrecision sample_engine 123456789012345 7 = ''1.234568e+14''
   \<and> toPrecision sample_engine 123456789012345 6 = ''1.23457e+14''
   \<and> valueToString sample_engine (JNum (Fin 123456789012345)) s
       = (Inr (JStr '' 1.23457e+14 ''), s)
   \<and> valueToString sample_engine (JNum (Fin 123456789012345)) s
       \<noteq> (Inr (JStr '' 1.23457E+14 ''), s)
   \<and> valueToString sample_engine (JNum (Fin (314 / 100))) s = (Inr (JStr '' 3.14 ''), s)
   \<and> valueToString sample_engine (JNum (Fin (- (314 / 100)))) s = (Inr (JStr ''-3.14 ''), s)
   \<and> valueToString sample_engine (JNum (Fin (5 / 10))) s = (Inr (JStr '' .5 ''), s)
   \<and> valueToString sample_engine (JNum (Fin (- (5 / 10)))) s = (Inr (JStr ''-.5 ''), s)"
proof -
  have a: "toUpperCase sample_engine (numToString sample_engine 123456789012345)
             = ''123456789012345''"
    "toPrecision sample_engine 123456789012345 7 = ''1.234568e+14''"
    "toPrecision sample_engine 123456789012345 6 = ''1.23457e+14''"
    by code_simp+
  have v: "\<And>n str. number_valueToString sample_engine n = Inr str
             \<Longrightarrow> valueToString sample_engine (JNum n) s = (Inr (JStr str), s)"
    by (simp add: valueToString_def ok_def)
  show ?thesis
    using a number_valueToString_samples[THEN v] by simp
qed

section \<open>Operators of equal precedence\<close>

lemma popts_tokens [simp]: "popts (p\<lparr>tokens := ts\<rparr>) = popts p"
  by (simp add: popts_def split: dialect_ref.splits)

lemma parsePrimary_number:
  assumes "number_token J t x" and "tokens p = t # ts"
  shows "parsePrimary J (Suc n) p = (Inr (Literal (JNum (Fin x))), p\<lparr>tokens := ts\<rparr>)"
proof -
  from assms(2) have c: "consumeToken p = (t, p\<lparr>tokens := ts\<rparr>)"
    by (simp add: consumeToken_def)
  from assms(1) have ty: "tok_type t = TokInt \<or> tok_type t = TokFloat1 \<or> tok_type t = TokFloat2"
    and v: "parseFloat J (tok_str t) = Fin x"
    by (simp_all add: number_token_def)
  from v have "parseNumber J (tok_str t) (p\<lparr>tokens := ts\<rparr>) = (Inr (Fin x), p\<lparr>tokens := ts\<rparr>)"
    by (simp add: parseNumber_def pok_def)
  with c ty show ?thesis
    by (simp add: pbnd_def pok_def)
qed

lemma getPrecedence_operator: "operator_token t f pr \<Longrightarrow> getPrecedence t = pr"
  by (auto simp: operator_token_def getPrecedence_def)

lemma operator_precedence: "operator_token t f pr \<Longrightarrow> 0 \<le> pr"
  by (auto simp: operator_token_def getOperator_def OPERATORS_def split: if_splits)

text \<open>
  Claim C2, amended. Three numbers separated by two operators of the same precedence parse
  to the tree that groups the first two: the inner loop of \<^verbatim>\<open>parseExpr1\<close> goes on only while
  the next operator binds strictly tighter, so that ties fold to the left. This holds for
  every operator of the table, exponentiation too: \<^verbatim>\<open>2^3^2\<close> parses to pow(pow(2, 3), 2).
\<close>

theorem equal_precedence_folds_left:
  assumes "tokens p = ta # o1 # tb # o2 # tc # rest"
    and "number_token J ta xa" and "number_token J tb xb" and "number_token J tc xc"
    and "operator_token o1 f1 pr" and "operator_token o2 f2 pr"
    and "validOperators (popts p) = None"
    and "getPrecedence (peekToken (p\<lparr>tokens := rest\<rparr>)) < 0"
  shows "parseExpr J (Suc (Suc (Suc (Suc n)))) p
           = (Inr (BinOp f2 (BinOp f1 (Literal (JNum (Fin xa))) (Literal (JNum (Fin xb))))
                     (Literal (JNum (Fin xc)))),
              p\<lparr>tokens := rest\<rparr>)"
proof -
  let ?a = "Literal (JNum (Fin xa))" and ?b = "Literal (JNum (Fin xb))"
  let ?c = "Literal (JNum (Fin xc))"
  let ?p1 = "p\<lparr>tokens := o1 # tb # o2 # tc # rest\<rparr>"
  let ?p2 = "p\<lparr>tokens := tb # o2 # tc # rest\<rparr>"
  let ?p3 = "p\<lparr>tokens := o2 # tc # rest\<rparr>"
  let ?p4 = "p\<lparr>tokens := tc # rest\<rparr>"
  let ?p5 = "p\<lparr>tokens := rest\<rparr>"
  note pr1 = getPrecedence_operator[OF assms(5)]
  note pr2 = getPrecedence_operator[OF assms(6)]
  note pos = operator_precedence[OF assms(5)]
  from assms(5) have op1: "getOperator (tok_str o1) = Some (f1, pr)"
    by (simp add: operator_token_def)
  from assms(6) have op2: "getOperator (tok_str o2) = Some (f2, pr)"
    by (simp add: operator_token_def)
  have a: "parsePrimary J (Suc (Suc (Suc n))) p = (Inr ?a, ?p1)"
    using parsePrimary_number[OF assms(2) assms(1)] .
  have b: "parsePrimary J (Suc (Suc n)) ?p2 = (Inr ?b, ?p3)"
    using parsePrimary_number[OF assms(3), of ?p2 "o2 # tc # rest"] by simp
  have c: "parsePrimary J (Suc n) ?p4 = (Inr ?c, ?p5)"
    using parsePrimary_number[OF assms(4), of ?p4 rest] by simp
  have last: "parseExpr1 J (Suc n) (BinOp f2 (BinOp f1 ?a ?b) ?c) 0 ?p5
                = (Inr (BinOp f2 (BinOp f1 ?a ?b) ?c), ?p5)"
    using assms(8) by (simp add: pok_def)
  have rhs2: "parseExpr1_rhs J (Suc n) ?c o2 ?p5 = (Inr ?c, ?p5)"
    using assms(8) pr2 pos by (simp add: pok_def)
  have second: "parseExpr1 J (Suc (Suc n)) (BinOp f1 ?a ?b) 0 ?p3
                  = (Inr (BinOp f2 (BinOp f1 ?a ?b) ?c), ?p5)"
    using pr2 pos assms(7) op2 c rhs2 last
    by (simp add: peekToken_def consumeToken_def pbnd_def)
  have rhs1: "parseExpr1_rhs J (Suc (Suc n)) ?b o1 ?p3 = (Inr ?b, ?p3)"
    using pr1 pr2 by (simp add: peekToken_def pok_def)
  have first: "parseExpr1 J (Suc (Suc (Suc n))) ?a 0 ?p1
                 = (Inr (BinOp f2 (BinOp f1 ?a ?b) ?c), ?p5)"
    using pr1 pos assms(7) op1 b rhs1 second
    by (simp add: peekToken_def consumeToken_def pbnd_def)
  show ?thesis
    using a first by (simp add: pbnd_def)
qed

text \<open>
  Claim C2 as it is written has \<^verbatim>\<open>2^3^2\<close> group to the right. The parser returns
  pow(pow(2, 3), 2), which is not pow(2, pow(3, 2)).
\<close>

theorem power_folds_left:
  "fst (parseExpr sample_engine 4 (expr_tokens ''2^3^2''))
     = Inr (BinOp ''pow''
              (BinOp ''pow'' (Literal (JNum (Fin 2))) (Literal (JNum (Fin 3))))
              (Literal (JNum (Fin 2))))
   \<and> fst (parseExpr sample_engine 4 (expr_tokens ''2^3^2''))
     \<noteq> Inr (BinOp ''pow'' (Literal (JNum (Fin 2)))
              (BinOp ''pow'' (Literal (JNum (Fin 3))) (Literal (JNum (Fin 2)))))
   \<and> tokens (snd (parseExpr sample_engine 4 (expr_tokens ''2^3^2''))) = []
   \<and> errors (snd (parseExpr sample_engine 4 (expr_tokens ''2^3^2''))) = []"
  by code_simp

theorem equal_precedence_folds_left_witness:
  "tokens (expr_tokens ''8-3+2'')
     = [\<lparr>tok_str = ''8'', tok_type = TokInt\<rparr>, \<lparr>tok_str = ''-'', tok_type = TokOperator\<rparr>,
        \<lparr>tok_str = ''3'', tok_type = TokInt\<rparr>, \<lparr>tok_str = ''+'', tok_type = TokOperator\<rparr>,
        \<lparr>tok_str = ''2'', tok_type = TokInt\<rparr>]
   \<and> number_token sample_engine \<lparr>tok_str = ''8'', tok_type = TokInt\<rparr> 8
   \<and> number_token sample_engine \<lparr>tok_str = ''3'', tok_type = TokInt\<rparr> 3
   \<and> number_token sample_engine \<lparr>tok_str = ''2'', tok_type = TokInt\<rparr> 2
   \<and> operator_token \<lparr>tok_str = ''-'', tok_type = TokOperator\<rparr> ''sub'' 100
   \<and> operator_token \<lparr>tok_str = ''+'', tok_type = TokOperator\<rparr> ''add'' 100
   \<and> validOperators (popts (expr_tokens ''8-3+2'')) = None
   \<and> getPrecedence (peekToken ((expr_tokens ''8-3+2'')\<lparr>tokens := []\<rparr>)) < 0
   \<and> parseExpr sample_engine 4 (expr_tokens ''8-3+2'')
       = (Inr (BinOp ''add''
                 (BinOp ''sub'' (Literal (JNum (Fin 8))) (Literal (JNum (Fin 3))))
                 (Literal (JNum (Fin 2)))),
          (expr_tokens ''8-3+2'')\<lparr>tokens := []\<rparr>)
   \<and> tokens (expr_tokens ''2^3^2'')
     = [\<lparr>tok_str = ''2'', tok_type = TokInt\<rparr>, \<lparr>tok_str = ''^'', tok_type = TokOperator\<rparr>,
        \<lparr>tok_str = ''3'', tok_type = TokInt\<rparr>, \<lparr>tok_str = ''^'', tok_type = TokOperator\<rparr>,
        \<lparr>tok_str = ''2'', tok_type = TokInt\<rparr>]
   \<and> operator_token \<lparr>tok_str = ''^'', tok_type = TokOperator\<rparr> ''pow'' 300
   \<and> parseExpr sample_engine 4 (expr_tokens ''2^3^2'')
       = (Inr (BinOp ''pow''
                 (BinOp ''pow'' (Literal (JNum (Fin 2))) (Literal (JNum (Fin 3))))
                 (Literal (JNum (Fin 2)))),
          (expr_tokens ''2^3^2'')\<lparr>tokens := []\<rparr>)"
proof -
  let ?p = "expr_tokens ''8-3+2''" and ?q = "expr_tokens ''2^3^2''"
  let ?n8 = "\<lparr>tok_str = ''8'', tok_type = TokInt\<rparr>" and ?n3 = "\<lparr>tok_str = ''3'', tok_type = TokInt\<rparr>"
  let ?n2 = "\<lparr>tok_str = ''2'', tok_type = TokInt\<rparr>"
  let ?minus = "\<lparr>tok_str = ''-'', tok_type = TokOperator\<rparr>"
  let ?plus = "\<lparr>tok_str = ''+'', tok_type = TokOperator\<rparr>"
  let ?hat = "\<lparr>tok_str = ''^'', tok_type = TokOperator\<rparr>"
  have four: "(4 :: nat) = Suc (Suc (Suc (Suc 0)))" by simp
  have t1: "tokens ?p = ?n8 # ?minus # ?n3 # ?plus # ?n2 # []" by code_simp
  have t2: "tokens ?q = ?n2 # ?hat # ?n3 # ?hat # ?n2 # []" by code_simp
  have n: "number_token sample_engine ?n8 8" "number_token sample_engine ?n3 3"
    "number_token sample_engine ?n2 2"
    by code_simp+
  have o: "operator_token ?minus ''sub'' 100" "operator_token ?plus ''add'' 100"
    "operator_token ?hat ''pow'' 300"
    by code_simp+
  have v: "validOperators (popts ?p) = None" "validOperators (popts ?q) = None"
    by code_simp+
  have e: "getPrecedence (peekToken (?p\<lparr>tokens := []\<rparr>)) < 0"
    "getPrecedence (peekToken (?q\<lparr>tokens := []\<rparr>)) < 0"
    by code_simp+
  note r1 = equal_precedence_folds_left[OF t1 n(1) n(2) n(3) o(1) o(2) v(1) e(1), of 0]
  note r2 = equal_precedence_folds_left[OF t2 n(3) n(2) n(3) o(3) o(3) v(2) e(2), of 0]
  from t1 t2 n o v(1) e(1) r1 r2 show ?thesis
    unfolding four by simp
qed

section \<open>What parsing a line keeps\<close>

lemma pext_refl [simp]: "pext p p"
  by (simp add: pext_def)

lemma pext_upd [simp]:
  "pext p (q\<lparr>tokens := ts\<rparr>) = pext p q"
  "pext p (q\<lparr>targets := tg\<rparr>) = pext p q"
  "pext p (q\<lparr>curlabel := cl\<rparr>) = pext p q"
  "pext p (q\<lparr>opts_ref := r\<rparr>) = pext p q"
  "pext p (q\<lparr>obj_ALTAIR_BASIC40 := a\<rparr>) = pext p q"
  "pext p (q\<lparr>obj_ECMA55_MINIMAL := e\<rparr>) = pext p q"
  "pext p (q\<lparr>listings := ls\<rparr>) = pext p q"
  by (simp_all add: pext_def)

lemma pext_pok [pext_intros]: "pext p q \<Longrightarrow> pext p (snd (pok v q))"
  by (simp add: pok_def)

lemma pext_compileErrorAt [pext_intros]: "pext p q \<Longrightarrow> pext p (snd (compileErrorAt l m q))"
  by (auto simp: compileErrorAt_def pext_def)

lemma pext_compileError [pext_intros]: "pext p q \<Longrightarrow> pext p (snd (compileError m q))"
  by (simp add: compileError_def pext_compileErrorAt)

lemma pext_dialectError [pext_intros]: "pext p q \<Longrightarrow> pext p (snd (dialectError w q))"
  by (simp add: dialectError_def pext_compileError)

lemma pext_consumeToken [pext_intros]: "pext p q \<Longrightarrow> pext p (snd (consumeToken q))"
  by (simp add: consumeToken_def split: list.splits)

lemma pext_pushbackToken [pext_intros]: "pext p q \<Longrightarrow> pext p (pushbackToken t q)"
  by (simp add: pushbackToken_def)

lemma pext_pbnd [pext_intros]:
  assumes "pext p (snd m)" and "\<And>v r. pext p r \<Longrightarrow> pext p (snd (g v r))"
  shows "pext p (snd (pbnd m g))"
proof (cases m)
  case (Pair a r)
  with assms show ?thesis by (cases a) (simp_all add: pbnd_def)
qed

lemma pext_consume_case [pext_intros]:
  assumes "pext p q" and "\<And>tok r. pext p r \<Longrightarrow> pext p (snd (body tok r))"
  shows "pext p (snd (case consumeToken q of (tok, r) \<Rightarrow> body tok r))"
proof -
  have "pext p (snd (consumeToken q))" using assms(1) by (rule pext_consumeToken)
  with assms(2) show ?thesis by (cases "consumeToken q") simp
qed

lemma pext_if [pext_intros]:
  "(c \<Longrightarrow> pext p (snd a)) \<Longrightarrow> (\<not> c \<Longrightarrow> pext p (snd b)) \<Longrightarrow> pext p (snd (if c then a else b))"
  by simp

lemma pext_if_state [pext_intros]:
  "(c \<Longrightarrow> pext p a) \<Longrightarrow> (\<not> c \<Longrightarrow> pext p b) \<Longrightarrow> pext p (if c then a else b)"
  by simp

lemma pext_expectToken [pext_intros]: "pext p q \<Longrightarrow> pext p (snd (expectToken str q))"
  unfolding expectToken_def by (intro pext_intros)

lemma pext_always [pext_intros]: "pext p (snd m) \<Longrightarrow> pext p (snd (always m))"
  by (cases m) (auto simp: always_def split: sum.splits)

lemma pext_parseNumber [pext_intros]: "pext p q \<Longrightarrow> pext p (snd (parseNumber J str q))"
  unfolding parseNumber_def Let_def by (intro pext_intros)

lemma pext_parseList:
  assumes "\<And>r. pext p r \<Longrightarrow> pext p (snd (pf r))"
  shows "pext p q \<Longrightarrow> pext p (snd (parseList n pf delim q))"
proof (induction n arbitrary: q)
  case 0
  then show ?case by simp
next
  case (Suc n)
  from assms[OF Suc.prems] have a: "pext p (snd (pf q))" .
  show ?case
  proof (cases "pf q")
    case (Pair x p1)
    with a have p1: "pext p p1" by simp
    show ?thesis
    proof (cases x)
      case (Inl e)
      with Pair p1 show ?thesis by simp
    next
      case (Inr el)
      obtain sep p2 where c: "consumeToken p1 = (sep, p2)" by (cases "consumeToken p1")
      with pext_consumeToken[OF p1] have p2: "pext p p2" by simp
      from Suc.IH[OF p2] have ih: "pext p (snd (parseList n pf delim p2))" .
      from Pair Inr c p2 ih show ?thesis
        by (auto simp: pushbackToken_def split: prod.splits sum.splits)
    qed
  qed
qed

lemma pext_parse_expressions:
  "pext p q \<Longrightarrow> pext p (snd (parsePrimary J n q))"
  "pext p q \<Longrightarrow> pext p (snd (parseVarOrIndexed J n q))"
  "pext p q \<Longrightarrow> pext p (snd (parseExpr1 J n left minPred q))"
  "pext p q \<Longrightarrow> pext p (snd (parseExpr1_rhs J n right op q))"
  "pext p q \<Longrightarrow> pext p (snd (parseExpr J n q))"
proof (induction n arbitrary: q left minPred right op)
  case 0
  {
    case 1 then show ?case by simp
  next
    case 2 then show ?case by simp
  next
    case 3 then show ?case by simp
  next
    case 4 then show ?case by simp
  next
    case 5 then show ?case by simp
  }
next
  case (Suc n)
  note ih = Suc.IH
  {
    case 1
    then show ?case
      unfolding parsePrimary.simps
      by (intro pext_intros ih)
  next
    case 2
    then show ?case
      unfolding parseVarOrIndexed.simps
      by (intro pext_intros pext_parseList ih)
  next
    case 3
    have g: "\<And>f left right r. pext p r \<Longrightarrow>
               pext p (snd (case getOperator f of
                              None \<Rightarrow> (Inl ParserTypeError, r)
                            | Some (g, pr) \<Rightarrow> parseExpr1 J n (BinOp g left right) minPred r))"
      by (auto split: option.splits intro: ih)
    from 3 show ?case
      unfolding parseExpr1.simps
      by (intro pext_intros ih g)
  next
    case 4
    then show ?case
      unfolding parseExpr1_rhs.simps
      by (intro pext_intros ih)
  next
    case 5
    then show ?case
      unfolding parseExpr.simps
      by (intro pext_intros ih)
  }
qed

lemmas pext_exprs [pext_intros] = pext_parse_expressions

lemma pext_parseExprList [pext_intros]: "pext p q \<Longrightarrow> pext p (snd (parseExprList J n q))"
  unfolding parseExprList_def by (intro pext_parseList pext_intros)

lemma pext_parseLexprList [pext_intros]: "pext p q \<Longrightarrow> pext p (snd (parseLexprList J n q))"
  unfolding parseLexprList_def by (intro pext_parseList pext_intros)

lemma pext_parseLabel [pext_intros]: "pext p q \<Longrightarrow> pext p (snd (parseLabel J q))"
  unfolding parseLabel_def Let_def by (intro pext_intros) simp_all

lemma pext_parseLabelList [pext_intros]: "pext p q \<Longrightarrow> pext p (snd (parseLabelList J n q))"
  unfolding parseLabelList_def by (intro pext_parseList pext_intros)

lemma pext_stmt__LET [pext_intros]: "pext p q \<Longrightarrow> pext p (snd (stmt__LET J n q))"
  unfolding stmt__LET_def by (intro pext_intros)

lemma pext_print_items:
  "pext p q \<Longrightarrow> pext p (snd (print_items J n k list lastsep q))"
proof (induction k arbitrary: list lastsep q)
  case 0
  then show ?case by simp
next
  case (Suc k)
  have e: "pext p (snd (parseExpr J n q))" using Suc.prems by (rule pext_parse_expressions)
  have c: "pext p (snd (consumeToken q))" using Suc.prems by (rule pext_consumeToken)
  show ?case
    using Suc.prems Suc.IH[OF c] e Suc.IH
    by (auto simp: Let_def pok_def split: prod.splits sum.splits)
qed

lemma pext_stmt__PRINT [pext_intros]: "pext p q \<Longrightarrow> pext p (snd (stmt__PRINT J n q))"
  unfolding stmt__PRINT_def
  by (intro pext_intros pext_print_items) (auto simp: pok_def)

lemma pext_stmt__GOTO [pext_intros]: "pext p q \<Longrightarrow> pext p (snd (stmt__GOTO J n q))"
  unfolding stmt__GOTO_def by (intro pext_intros)

lemma pext_stmt__GOSUB [pext_intros]: "pext p q \<Longrightarrow> pext p (snd (stmt__GOSUB J n q))"
  unfolding stmt__GOSUB_def by (intro pext_intros)

lemma pext_stmt__IF [pext_intros]: "pext p q \<Longrightarrow> pext p (snd (stmt__IF J n q))"
  unfolding stmt__IF_def Let_def by (intro pext_intros)

lemma pext_stmt__FOR [pext_intros]: "pext p q \<Longrightarrow> pext p (snd (stmt__FOR J n q))"
  unfolding stmt__FOR_def by (intro pext_intros)

lemma pext_stmt__NEXT [pext_intros]: "pext p q \<Longrightarrow> pext p (snd (stmt__NEXT J n q))"
  unfolding stmt__NEXT_def by (intro pext_intros)

lemma pext_stmt__DIM [pext_intros]: "pext p q \<Longrightarrow> pext p (snd (stmt__DIM J n q))"
  unfolding stmt__DIM_def by (intro pext_intros)

lemma pext_stmt__INPUT [pext_intros]: "pext p q \<Longrightarrow> pext p (snd (stmt__INPUT J n q))"
  unfolding stmt__INPUT_def by (intro pext_intros)

lemma pext_stmt__DATA [pext_intros]: "pext p q \<Longrightarrow> pext p (snd (stmt__DATA J n q))"
  unfolding stmt__DATA_def by (intro pext_intros)

lemma pext_stmt__READ [pext_intros]: "pext p q \<Longrightarrow> pext p (snd (stmt__READ J n q))"
  unfolding stmt__READ_def by (intro pext_intros)

lemma pext_stmt__simple [pext_intros]:
  "pext p q \<Longrightarrow> pext p (snd (stmt__RESTORE J n q))"
  "pext p q \<Longrightarrow> pext p (snd (stmt__RETURN J n q))"
  "pext p q \<Longrightarrow> pext p (snd (stmt__STOP J n q))"
  "pext p q \<Longrightarrow> pext p (snd (stmt__END J n q))"
  by (simp_all add: stmt__RESTORE_def stmt__RETURN_def stmt__STOP_def stmt__END_def pok_def)

lemma pext_stmt__ON [pext_intros]: "pext p q \<Longrightarrow> pext p (snd (stmt__ON J n q))"
  unfolding stmt__ON_def by (intro pext_intros)

lemma pext_stmt__DEF [pext_intros]: "pext p q \<Longrightarrow> pext p (snd (stmt__DEF J n q))"
  unfolding stmt__DEF_def by (intro pext_intros)

lemma pext_set_defaultArrayBase [pext_intros]:
  "pext p q \<Longrightarrow> pext p (set_defaultArrayBase b q)"
  by (simp add: set_defaultArrayBase_def split: dialect_ref.splits)

lemma pext_parseOptions [pext_intros]:
  "pext p q \<Longrightarrow> pext p (snd (parseOptions J optname optargs q))"
proof -
  assume a: "pext p q"
  have d: "\<And>dname. pext p (snd (case map_of DIALECTS dname of
                                     Some dialect \<Rightarrow> pok () (q\<lparr>opts_ref := dialect\<rparr>)
                                   | None \<Rightarrow> compileError (DialectNotSupported dname) q))"
    using a by (auto split: option.splits simp: pok_def intro: pext_compileError)
  from a show ?thesis
    unfolding parseOptions_def Let_def
    by (intro pext_intros d)
qed

lemma pext_stmt__OPTION [pext_intros]: "pext p q \<Longrightarrow> pext p (snd (stmt__OPTION J n q))"
proof -
  assume a: "pext p q"
  obtain tokname p1 where c: "consumeToken q = (tokname, p1)" by (cases "consumeToken q")
  with pext_consumeToken[OF a] have p1: "pext p p1" by simp
  obtain list rest where o: "option_args (tokens p1) = (list, rest)"
    by (cases "option_args (tokens p1)")
  from p1 have "pext p (p1\<lparr>tokens := rest\<rparr>)" by simp
  then have "pext p (snd (pbnd (parseOptions J (tok_str tokname) list (p1\<lparr>tokens := rest\<rparr>))
                        (\<lambda>u. pok (OPTION (tok_str tokname) list))))"
    by (intro pext_intros)
  with p1 show ?thesis
    by (simp add: stmt__OPTION_def c o pext_compileError)
qed

lemma pext_stmt_methods:
  assumes "map_of stmt_methods cmd = Some fn" and "pext p q"
  shows "pext p (snd (fn J n q))"
proof -
  from assms(1) have "(cmd, fn) \<in> set stmt_methods" by (rule map_of_SomeD)
  then have "fn \<in> {stmt__LET, stmt__PRINT, stmt__GOTO, stmt__GOSUB, stmt__IF, stmt__FOR,
                    stmt__NEXT, stmt__DIM, stmt__INPUT, stmt__DATA, stmt__READ, stmt__RESTORE,
                    stmt__RETURN, stmt__STOP, stmt__END, stmt__ON, stmt__DEF, stmt__OPTION}"
    unfolding stmt_methods_def by auto
  with assms(2) show ?thesis
    by (auto intro: pext_intros)
qed

lemma pext_parseStatement [pext_intros]: "pext p q \<Longrightarrow> pext p (snd (parseStatement J n q))"
proof -
  assume a: "pext p q"
  obtain cmdtok p1 where c: "consumeToken q = (cmdtok, p1)" by (cases "consumeToken q")
  with pext_consumeToken[OF a] have p1: "pext p p1" by simp
  obtain cmd p2 where
    e: "(if tok_str cmdtok = ''GO'' \<and> tok_str (peekToken p1) = ''TO''
         then (''GOTO'', snd (consumeToken p1))
         else if tok_str cmdtok = ''GO'' \<and> tok_str (peekToken p1) = ''SUB''
         then (''GOSUB'', snd (consumeToken p1))
         else (tok_str cmdtok, p1)) = (cmd, p2)"
    by (metis surj_pair)
  with p1 pext_consumeToken[OF p1] have p2: "pext p p2"
    by (auto split: if_splits)
  have m: "pext p (snd (case map_of stmt_methods cmd of
                 Some fn \<Rightarrow>
                   if (case validKeywords (popts p2) of
                         None \<Rightarrow> False
                       | Some ks \<Rightarrow> cmd \<notin> set ks)
                   then dialectError cmd p2
                   else always (fn J n p2)
               | None \<Rightarrow>
                   if tok_str (peekToken p2) = ''='' \<or> tok_str (peekToken p2) = ''(''
                   then always (stmt__LET J n (pushbackToken cmdtok p2))
                   else compileError CommandExpected p2))"
  proof (cases "map_of stmt_methods cmd")
    case None
    with p2 show ?thesis
      by (auto intro!: pext_intros)
  next
    case (Some fn)
    from pext_stmt_methods[OF Some p2] have "pext p (snd (fn J n p2))" .
    with Some p2 show ?thesis
      by (auto intro!: pext_intros)
  qed
  from p1 have r: "pext p (snd (pok (None :: stmt option) (p1\<lparr>tokens := skip_remark (tokens p1)\<rparr>)))"
    by (simp add: pok_def)
  from p1 m r show ?thesis
    unfolding parseStatement_def c prod.case e
    by (intro pext_intros) simp_all
qed

lemma pext_parseCompoundStatement [pext_intros]:
  "pext p q \<Longrightarrow> pext p (snd (parseCompoundStatement J n q))"
  unfolding parseCompoundStatement_def by (intro pext_intros pext_parseList)

lemma pext_parseOptLabel [pext_intros]: "pext p q \<Longrightarrow> pext p (snd (parseOptLabel q))"
  unfolding parseOptLabel_def
  by (intro pext_intros) (auto simp: pext_def pok_def)


section \<open>Duplicate labels\<close>


lemma tokenize_fields [simp]:
  "lineno (tokenize J line p) = lineno p + 1"
  "labels (tokenize J line p) = labels p"
  "errors (tokenize J line p) = errors p"
  by (simp_all add: tokenize_def)














end
